theory Spec2Isabelle
  imports Main "HOL-Library.Multiset"
begin

section \<open>Values of the metadata documents\<close>

text \<open>
  The launcher reads every document with \<^verbatim>\<open>json.loads\<close>/\<^verbatim>\<open>json.load\<close> and then works on
  the resulting Python objects with \<^verbatim>\<open>in\<close>, \<^verbatim>\<open>[...]\<close>, \<^verbatim>\<open>.get\<close>, \<^verbatim>\<open>isinstance\<close> and
  \<^verbatim>\<open>==\<close>.  A parsed document is a value of type \<open>json\<close>.  An object keeps its members as
  an association list in document order, with the distinct keys \<^verbatim>\<open>json.loads\<close> leaves
  (\<open>map_of\<close> looks a key up).  Numbers are the integral ones (floats are left out); strings
  are \<open>string\<close>.
\<close>

datatype json =
    JNull
  | JBool bool
  | JInt int
  | JStr string
  | JArr "json list"
  | JObj "(string \<times> json) list"

text \<open>The exceptions the modelled code can raise.\<close>

datatype error =
    KeyError
  | TypeError
  | AttributeError
  | ValueError
  | OSError
  | URLError
  | BadZipFile

definition bindE :: "error + 'a \<Rightarrow> ('a \<Rightarrow> error + 'b) \<Rightarrow> error + 'b" where
  "bindE m f = (case m of Inl e \<Rightarrow> Inl e | Inr v \<Rightarrow> f v)"

definition is_dict :: "json \<Rightarrow> bool" where
  "is_dict j = (case j of JObj _ \<Rightarrow> True | _ \<Rightarrow> False)"

definition is_list :: "json \<Rightarrow> bool" where
  "is_list j = (case j of JArr _ \<Rightarrow> True | _ \<Rightarrow> False)"

definition is_str :: "json \<Rightarrow> bool" where
  "is_str j = (case j of JStr _ \<Rightarrow> True | _ \<Rightarrow> False)"

text \<open>Python truthiness (\<^verbatim>\<open>if not x\<close>).\<close>

definition truthy :: "json \<Rightarrow> bool" where
  "truthy j =
     (case j of
        JNull \<Rightarrow> False
      | JBool b \<Rightarrow> b
      | JInt i \<Rightarrow> i \<noteq> 0
      | JStr s \<Rightarrow> s \<noteq> []
      | JArr xs \<Rightarrow> xs \<noteq> []
      | JObj kvs \<Rightarrow> kvs \<noteq> [])"

text \<open>\<^verbatim>\<open>d.get(k, default)\<close>: only a dict has the method.\<close>

definition dict_get :: "json \<Rightarrow> string \<Rightarrow> json \<Rightarrow> error + json" where
  "dict_get d k dflt =
     (case d of
        JObj kvs \<Rightarrow> Inr (case map_of kvs k of Some v \<Rightarrow> v | None \<Rightarrow> dflt)
      | _ \<Rightarrow> Inl AttributeError)"

text \<open>\<^verbatim>\<open>d[k]\<close> with a string key: KeyError on a dict without the key, TypeError on
  every other value (a list or a string takes integer indices only).\<close>

definition subscript :: "json \<Rightarrow> string \<Rightarrow> error + json" where
  "subscript d k =
     (case d of
        JObj kvs \<Rightarrow> (case map_of kvs k of Some v \<Rightarrow> Inr v | None \<Rightarrow> Inl KeyError)
      | _ \<Rightarrow> Inl TypeError)"

fun is_prefix :: "string \<Rightarrow> string \<Rightarrow> bool" where
  "is_prefix [] ys = True"
| "is_prefix (x # xs) [] = False"
| "is_prefix (x # xs) (y # ys) = (x = y \<and> is_prefix xs ys)"

text \<open>\<^verbatim>\<open>sub in s\<close> on strings.\<close>

fun is_substring :: "string \<Rightarrow> string \<Rightarrow> bool" where
  "is_substring sub [] = (sub = [])"
| "is_substring sub (c # cs) = (is_prefix sub (c # cs) \<or> is_substring sub cs)"

text \<open>\<^verbatim>\<open>k in x\<close> with a string \<open>k\<close>: key membership on a dict, element membership on a
  list, substring test on a string, TypeError otherwise.\<close>

definition contains_key :: "string \<Rightarrow> json \<Rightarrow> error + bool" where
  "contains_key k x =
     (case x of
        JObj kvs \<Rightarrow> Inr (k \<in> set (map fst kvs))
      | JArr xs \<Rightarrow> Inr (JStr k \<in> set xs)
      | JStr s \<Rightarrow> Inr (is_substring k s)
      | _ \<Rightarrow> Inl TypeError)"

text \<open>\<^verbatim>\<open>for x in v\<close>: the elements of a list, the keys of a dict, the characters of a
  string; TypeError on a value that is not iterable.\<close>

definition iterate :: "json \<Rightarrow> error + json list" where
  "iterate v =
     (case v of
        JArr xs \<Rightarrow> Inr xs
      | JObj kvs \<Rightarrow> Inr (map (\<lambda>kv. JStr (fst kv)) kvs)
      | JStr s \<Rightarrow> Inr (map (\<lambda>c. JStr [c]) s)
      | _ \<Rightarrow> Inl TypeError)"

section \<open>Rule evaluator\<close>

text \<open>
  The body of the \<^verbatim>\<open>for rule in lib["rules"]\<close> loop of \<^verbatim>\<open>is_library_allowed\<close>, with the
  running \<^verbatim>\<open>allow\<close> flag as an argument.  A rule with a \<^verbatim>\<open>features\<close> key is skipped
  (\<^verbatim>\<open>"features" in rule\<close>).
\<close>

fun library_rules_loop :: "json list \<Rightarrow> string \<Rightarrow> bool \<Rightarrow> error + bool" where
  "library_rules_loop [] current_os allow = Inr allow"
| "library_rules_loop (rule # rules) current_os allow =
     bindE (dict_get rule ''action'' JNull) (\<lambda>action.
     bindE (dict_get rule ''os'' JNull) (\<lambda>os_info.
     bindE (contains_key ''features'' rule) (\<lambda>has_features.
       if has_features then library_rules_loop rules current_os allow
       else
         let os_match =
               (if os_info = JNull then True
                else if is_dict os_info \<and> dict_get os_info ''name'' JNull = Inr (JStr current_os)
                then True else False)
         in if os_match then
              (if action = JStr ''allow'' then library_rules_loop rules current_os True
               else if action = JStr ''disallow'' then Inr False
               else library_rules_loop rules current_os allow)
            else library_rules_loop rules current_os allow)))"

definition is_library_allowed :: "json \<Rightarrow> string \<Rightarrow> error + bool" where
  "is_library_allowed lib current_os =
     bindE (contains_key ''rules'' lib) (\<lambda>has_rules.
       if \<not> has_rules then Inr True
       else
         bindE (subscript lib ''rules'') (\<lambda>rs.
         bindE (iterate rs) (\<lambda>rules.
           library_rules_loop rules current_os False)))"

text \<open>
  The loop of \<^verbatim>\<open>evaluate_rules\<close>.  It differs from the library loop in the feature test only:
  \<^verbatim>\<open>rule.get("features") is not None\<close>.
\<close>

fun argument_rules_loop :: "json list \<Rightarrow> string \<Rightarrow> bool \<Rightarrow> error + bool" where
  "argument_rules_loop [] current_os allow = Inr allow"
| "argument_rules_loop (rule # rules) current_os allow =
     bindE (dict_get rule ''action'' JNull) (\<lambda>action.
     bindE (dict_get rule ''os'' JNull) (\<lambda>os_info.
     bindE (dict_get rule ''features'' JNull) (\<lambda>features_info.
       if features_info \<noteq> JNull then argument_rules_loop rules current_os allow
       else
         let os_match =
               (if os_info = JNull then True
                else if is_dict os_info \<and> dict_get os_info ''name'' JNull = Inr (JStr current_os)
                then True else False)
         in if os_match then
              (if action = JStr ''allow'' then argument_rules_loop rules current_os True
               else if action = JStr ''disallow'' then Inr False
               else argument_rules_loop rules current_os allow)
            else argument_rules_loop rules current_os allow)))"

definition evaluate_rules :: "json \<Rightarrow> string \<Rightarrow> error + bool" where
  "evaluate_rules rules current_os =
     (if \<not> is_list rules \<or> \<not> truthy rules then Inr True
      else bindE (iterate rules) (\<lambda>rs. argument_rules_loop rs current_os False))"

text \<open>
  A matching disallow rule for a platform: a rule object with no \<^verbatim>\<open>features\<close> member, whose
  action is \<^verbatim>\<open>"disallow"\<close> and whose \<^verbatim>\<open>os\<close> member is absent (or null) or is an object
  naming the platform.
\<close>

definition matching_disallow :: "(string \<times> json) list \<Rightarrow> string \<Rightarrow> bool" where
  "matching_disallow r current_os =
     (map_of r ''features'' = None \<and>
      map_of r ''action'' = Some (JStr ''disallow'') \<and>
      (case map_of r ''os'' of
         None \<Rightarrow> True
       | Some JNull \<Rightarrow> True
       | Some (JObj os_obj) \<Rightarrow> map_of os_obj ''name'' = Some (JStr current_os)
       | Some _ \<Rightarrow> False))"

section \<open>Environment, file system and network\<close>

text \<open>
  What the launcher takes from the standard library and the machine is a parameter of the
  model: the platform strings, \<^verbatim>\<open>os.path.join\<close> and \<^verbatim>\<open>os.pathsep\<close>, the digests of
  \<^verbatim>\<open>hashlib\<close>, \<^verbatim>\<open>json.loads\<close> (\<open>None\<close>: the text does not parse) and \<^verbatim>\<open>json.dump\<close>, the
  answer of the network to a request (\<open>None\<close>: the request raises), the member list of a
  zip archive (\<open>None\<close>: not a zip file) with each member's name, directory flag and data,
  what the two \<^verbatim>\<open>java -version\<close> probes of \<^verbatim>\<open>is_java_installed\<close> report (the major version
  matched by the regular expression; \<open>None\<close>: the run raised or nothing matched), and
  \<^verbatim>\<open>str()\<close> of a list or dict.
\<close>

record env =
  platform_system :: string
  platform_architecture :: string
  base_dir :: string
  path_join :: "string \<Rightarrow> string \<Rightarrow> string"
  pathsep :: string
  sha1_hexdigest :: "string \<Rightarrow> string"
  md5_hexdigest :: "string \<Rightarrow> string"
  json_loads :: "string \<Rightarrow> json option"
  json_dumps :: "json \<Rightarrow> string"
  url_read :: "string \<Rightarrow> string option"
  zip_members :: "string \<Rightarrow> (string \<times> bool \<times> string) list option"
  local_java_major :: "nat option"
  system_java_major :: "nat option"
  container_str :: "json \<Rightarrow> string"

text \<open>
  A path of the file system holds a regular file with its bytes, or something that exists
  but cannot be opened (a directory, a file without permission).  Directories are not
  tracked: \<^verbatim>\<open>os.makedirs(..., exist_ok=True)\<close> has no effect on the model.  The world is the
  file system and the log of the network requests made so far.
\<close>

datatype fnode = Regular string | Unreadable

type_synonym filesystem = "string \<Rightarrow> fnode option"

record world =
  files :: filesystem
  requests :: "string list"

definition path_exists :: "world \<Rightarrow> string \<Rightarrow> bool" where
  "path_exists w p = (files w p \<noteq> None)"

text \<open>\<^verbatim>\<open>os.remove\<close>: a regular file is removed; anything else raises.\<close>

definition os_remove :: "world \<Rightarrow> string \<Rightarrow> error + world" where
  "os_remove w p =
     (case files w p of
        Some (Regular _) \<Rightarrow> Inr (w\<lparr>files := (files w)(p := None)\<rparr>)
      | _ \<Rightarrow> Inl OSError)"

text \<open>Opening a path for writing and writing \<open>content\<close>: raises on a path that cannot be
  opened.\<close>

definition write_file :: "world \<Rightarrow> string \<Rightarrow> string \<Rightarrow> error + world" where
  "write_file w p content =
     (case files w p of
        Some Unreadable \<Rightarrow> Inl OSError
      | _ \<Rightarrow> Inr (w\<lparr>files := (files w)(p \<mapsto> Regular content)\<rparr>))"

text \<open>
  \<^verbatim>\<open>urllib.request.urlretrieve(url, path)\<close>: a URL that is not a string raises before any
  request; otherwise the request is made (and logged), and its body is written to the path.
\<close>

definition urlretrieve :: "env \<Rightarrow> json \<Rightarrow> string \<Rightarrow> world \<Rightarrow> (error + unit) \<times> world" where
  "urlretrieve E url p w =
     (case url of
        JStr u \<Rightarrow>
          (let w1 = w\<lparr>requests := requests w @ [u]\<rparr> in
           case url_read E u of
             None \<Rightarrow> (Inl URLError, w1)
           | Some body \<Rightarrow>
               (case write_file w1 p body of
                  Inl e \<Rightarrow> (Inl e, w1)
                | Inr w2 \<Rightarrow> (Inr (), w2)))
      | _ \<Rightarrow> (Inl TypeError, w))"

section \<open>Content verifier\<close>

text \<open>
  The loop \<^verbatim>\<open>while chunk := f.read(4096): file_hash.update(chunk)\<close>.  The hash object is
  modelled by the bytes fed to it so far; \<^verbatim>\<open>hexdigest()\<close> is the digest of those bytes.
\<close>

function hash_chunks :: "string \<Rightarrow> string \<Rightarrow> string" where
  "hash_chunks rest fed =
     (let chunk = take 4096 rest in
      if chunk = [] then fed else hash_chunks (drop 4096 rest) (fed @ chunk))"
  by pat_completeness auto
termination
  by (relation "measure (\<lambda>(rest, fed). length rest)") auto

declare hash_chunks.simps [simp del]

definition verify_file :: "env \<Rightarrow> world \<Rightarrow> string \<Rightarrow> json \<Rightarrow> bool" where
  "verify_file E w file_path expected_sha1 =
     (case files w file_path of
        None \<Rightarrow> False
      | Some Unreadable \<Rightarrow> False
      | Some (Regular content) \<Rightarrow>
          JStr (sha1_hexdigest E (hash_chunks content [])) = expected_sha1)"

section \<open>Strings\<close>

text \<open>\<^verbatim>\<open>s.replace(old, new)\<close>: every non-overlapping occurrence of \<open>old\<close>, from the left.\<close>

function py_replace :: "string \<Rightarrow> string \<Rightarrow> string \<Rightarrow> string" where
  "py_replace old new [] = (if old = [] then new else [])"
| "py_replace old new (c # cs) =
     (if old = [] then new @ c # py_replace old new cs
      else if is_prefix old (c # cs)
        then new @ py_replace old new (drop (length old) (c # cs))
      else c # py_replace old new cs)"
  by pat_completeness auto
termination
  by (relation "measure (\<lambda>(old, new, s). length s)") auto

text \<open>
  \<^verbatim>\<open>s.lower()\<close> on code points below 256: the ASCII capital letters, and the capital
  letters 0xC0 to 0xDE (the multiplication sign 0xD7 is none).
\<close>

definition lower_char :: "char \<Rightarrow> char" where
  "lower_char c =
     (case map_of
        (zip (''ABCDEFGHIJKLMNOPQRSTUVWXYZ'' @
             [CHR 0xC0, CHR 0xC1, CHR 0xC2, CHR 0xC3, CHR 0xC4, CHR 0xC5, CHR 0xC6, CHR 0xC7,
              CHR 0xC8, CHR 0xC9, CHR 0xCA, CHR 0xCB, CHR 0xCC, CHR 0xCD, CHR 0xCE, CHR 0xCF,
              CHR 0xD0, CHR 0xD1, CHR 0xD2, CHR 0xD3, CHR 0xD4, CHR 0xD5, CHR 0xD6, CHR 0xD8,
              CHR 0xD9, CHR 0xDA, CHR 0xDB, CHR 0xDC, CHR 0xDD, CHR 0xDE])
             (''abcdefghijklmnopqrstuvwxyz'' @
             [CHR 0xE0, CHR 0xE1, CHR 0xE2, CHR 0xE3, CHR 0xE4, CHR 0xE5, CHR 0xE6, CHR 0xE7,
              CHR 0xE8, CHR 0xE9, CHR 0xEA, CHR 0xEB, CHR 0xEC, CHR 0xED, CHR 0xEE, CHR 0xEF,
              CHR 0xF0, CHR 0xF1, CHR 0xF2, CHR 0xF3, CHR 0xF4, CHR 0xF5, CHR 0xF6, CHR 0xF8,
              CHR 0xF9, CHR 0xFA, CHR 0xFB, CHR 0xFC, CHR 0xFD, CHR 0xFE])) c of
        Some l \<Rightarrow> l
      | None \<Rightarrow> c)"

definition lower :: "string \<Rightarrow> string" where
  "lower s = map lower_char s"

text \<open>\<^verbatim>\<open>s.split(':')[-1]\<close>: what follows the last colon.\<close>

definition last_segment :: "string \<Rightarrow> string" where
  "last_segment s = rev (takeWhile (\<lambda>c. c \<noteq> CHR '':'') (rev s))"

section \<open>Managed directories\<close>

definition MINECRAFT_DIR :: "env \<Rightarrow> string" where
  "MINECRAFT_DIR E = path_join E (base_dir E) ''minecraft''"

definition VERSIONS_DIR :: "env \<Rightarrow> string" where
  "VERSIONS_DIR E = path_join E (MINECRAFT_DIR E) ''versions''"

definition JAVA_DIR :: "env \<Rightarrow> string" where
  "JAVA_DIR E = path_join E (base_dir E) ''java''"

definition version_dir :: "env \<Rightarrow> string \<Rightarrow> string" where
  "version_dir E version_id = path_join E (VERSIONS_DIR E) version_id"

definition version_json_path :: "env \<Rightarrow> string \<Rightarrow> string" where
  "version_json_path E version_id = path_join E (version_dir E version_id) (version_id @ ''.json'')"

definition jar_path :: "env \<Rightarrow> string \<Rightarrow> string" where
  "jar_path E version_id = path_join E (version_dir E version_id) (version_id @ ''.jar'')"

definition libraries_dir :: "env \<Rightarrow> string" where
  "libraries_dir E = path_join E (MINECRAFT_DIR E) ''libraries''"

definition natives_dir :: "env \<Rightarrow> string \<Rightarrow> string" where
  "natives_dir E version_id = path_join E (version_dir E version_id) ''natives''"

text \<open>\<^verbatim>\<open>platform.system().lower()\<close>, with \<^verbatim>\<open>darwin\<close> renamed to \<^verbatim>\<open>osx\<close>.\<close>

definition current_os :: "env \<Rightarrow> string" where
  "current_os E =
     (let s = lower (platform_system E) in if s = ''darwin'' then ''osx'' else s)"

text \<open>\<^verbatim>\<open>os.path.join(dir, x)\<close> with \<open>x\<close> taken from a document: TypeError unless a string.\<close>

definition join_json :: "env \<Rightarrow> string \<Rightarrow> json \<Rightarrow> error + string" where
  "join_json E dir x = (case x of JStr s \<Rightarrow> Inr (path_join E dir s) | _ \<Rightarrow> Inl TypeError)"

section \<open>Artifact acquisition\<close>

text \<open>
  The first \<^verbatim>\<open>try\<close> block of \<^verbatim>\<open>download_version_files\<close>: the version JSON.  Every exception
  in it is caught and makes the function return \<^verbatim>\<open>False\<close> (\<open>Failed\<close>); a local document that
  does not load is removed and the function calls itself (\<open>Retry\<close>).
\<close>

datatype json_outcome = Loaded json | Failed | Retry

definition load_version_json ::
  "env \<Rightarrow> string \<Rightarrow> string \<Rightarrow> world \<Rightarrow> json_outcome \<times> world" where
  "load_version_json E version_id version_url w =
     (let p = version_json_path E version_id in
      if \<not> path_exists w p then
        (let w1 = w\<lparr>requests := requests w @ [version_url]\<rparr> in
         case url_read E version_url of
           None \<Rightarrow> (Failed, w1)
         | Some body \<Rightarrow>
             (case json_loads E body of
                None \<Rightarrow> (Failed, w1)
              | Some data \<Rightarrow>
                  (case write_file w1 p (json_dumps E data) of
                     Inl e \<Rightarrow> (Failed, w1)
                   | Inr w2 \<Rightarrow> (Loaded data, w2))))
      else
        (case (case files w p of
                 Some (Regular content) \<Rightarrow> json_loads E content
               | _ \<Rightarrow> None) of
           Some version_data \<Rightarrow> (Loaded version_data, w)
         | None \<Rightarrow>
             (if path_exists w p then
                (case os_remove w p of
                   Inl e \<Rightarrow> (Failed, w)
                 | Inr w1 \<Rightarrow> (Retry, w1))
              else (Retry, w))))"

text \<open>
  The second \<^verbatim>\<open>try\<close> block: the client JAR.  Its first lines read the download
  information of the main archive: \<open>Inr None\<close> when \<^verbatim>\<open>jar_info\<close> is missing or falsy,
  otherwise the URL and the expected digest.
\<close>

definition client_descriptor :: "json \<Rightarrow> error + (json \<times> json) option" where
  "client_descriptor version_data =
     bindE (dict_get version_data ''downloads'' (JObj [])) (\<lambda>downloads.
     bindE (dict_get downloads ''client'' JNull) (\<lambda>jar_info.
       if \<not> truthy jar_info then Inr None
       else
         bindE (subscript jar_info ''url'') (\<lambda>jar_url.
         bindE (subscript jar_info ''sha1'') (\<lambda>expected_sha1.
           Inr (Some (jar_url, expected_sha1))))))"

text \<open>
  \<open>False\<close> is every \<^verbatim>\<open>return False\<close> of the block (missing information, a KeyError, any
  other exception, a checksum mismatch after the download); \<open>True\<close> lets the function go on.
\<close>

definition download_client_jar :: "env \<Rightarrow> string \<Rightarrow> json \<Rightarrow> world \<Rightarrow> bool \<times> world" where
  "download_client_jar E version_id version_data w =
     (case client_descriptor version_data of
        Inl e \<Rightarrow> (False, w)
      | Inr None \<Rightarrow> (False, w)
      | Inr (Some (jar_url, expected_sha1)) \<Rightarrow>
          (let p = jar_path E version_id in
           if \<not> path_exists w p \<or> \<not> verify_file E w p expected_sha1 then
             (case urlretrieve E jar_url p w of
                (Inl e, w1) \<Rightarrow> (False, w1)
              | (Inr u, w1) \<Rightarrow>
                  if \<not> verify_file E w1 p expected_sha1 then
                    (if path_exists w1 p then
                       (case os_remove w1 p of
                          Inl e \<Rightarrow> (False, w1)
                        | Inr w2 \<Rightarrow> (False, w2))
                     else (False, w1))
                  else (True, w1))
           else (True, w)))"

text \<open>
  The primary archive of a library: \<open>None\<close> when the entry has none
  (\<^verbatim>\<open>"downloads" in lib and "artifact" in lib["downloads"]\<close> is false), otherwise its URL,
  local path and expected digest.  These lines are outside every \<^verbatim>\<open>try\<close>: what they raise
  leaves \<^verbatim>\<open>download_version_files\<close>.
\<close>

definition artifact_descriptor :: "env \<Rightarrow> json \<Rightarrow> error + (json \<times> string \<times> json) option" where
  "artifact_descriptor E lib =
     bindE (contains_key ''downloads'' lib) (\<lambda>has_downloads.
       if \<not> has_downloads then Inr None
       else
         bindE (subscript lib ''downloads'') (\<lambda>downloads.
         bindE (contains_key ''artifact'' downloads) (\<lambda>has_artifact.
           if \<not> has_artifact then Inr None
           else
             bindE (subscript downloads ''artifact'') (\<lambda>artifact_info.
             bindE (subscript artifact_info ''url'') (\<lambda>lib_url.
             bindE (subscript artifact_info ''path'') (\<lambda>rel.
             bindE (join_json E (libraries_dir E) rel) (\<lambda>lib_path.
             bindE (subscript artifact_info ''sha1'') (\<lambda>expected_sha1.
               Inr (Some (lib_url, lib_path, expected_sha1)))))))))) "

text \<open>Download of a library's primary archive: every failure is reported and ignored.\<close>

definition download_library_artifact ::
  "env \<Rightarrow> json \<times> string \<times> json \<Rightarrow> world \<Rightarrow> world" where
  "download_library_artifact E descr w =
     (case descr of (lib_url, lib_path, expected_sha1) \<Rightarrow>
        if \<not> path_exists w lib_path \<or> \<not> verify_file E w lib_path expected_sha1 then
          (case urlretrieve E lib_url lib_path w of
             (Inl e, w1) \<Rightarrow> w1
           | (Inr u, w1) \<Rightarrow>
               if \<not> verify_file E w1 lib_path expected_sha1 then
                 (if path_exists w1 lib_path then
                    (case os_remove w1 lib_path of Inl e \<Rightarrow> w1 | Inr w2 \<Rightarrow> w2)
                  else w1)
               else w1)
        else w)"

text \<open>
  The native bundle of a library for the current platform: \<open>None\<close> when one of the
  membership tests fails, otherwise its URL, the path of the downloaded archive and the
  expected digest.
\<close>

definition native_descriptor ::
  "env \<Rightarrow> string \<Rightarrow> json \<Rightarrow> error + (json \<times> string \<times> json) option" where
  "native_descriptor E version_id lib =
     bindE (contains_key ''natives'' lib) (\<lambda>has_natives.
       if \<not> has_natives then Inr None
       else
         bindE (subscript lib ''natives'') (\<lambda>natives.
         bindE (contains_key (current_os E) natives) (\<lambda>has_os.
           if \<not> has_os then Inr None
           else
             bindE (subscript natives (current_os E)) (\<lambda>raw.
             bindE (case raw of
                      JStr s \<Rightarrow>
                        Inr (py_replace ''${arch}''
                               (py_replace ''bit'' [] (platform_architecture E)) s)
                    | _ \<Rightarrow> Inl AttributeError) (\<lambda>classifier.
             bindE (contains_key ''downloads'' lib) (\<lambda>has_downloads.
               if \<not> has_downloads then Inr None
               else
                 bindE (subscript lib ''downloads'') (\<lambda>downloads.
                 bindE (contains_key ''classifiers'' downloads) (\<lambda>has_classifiers.
                   if \<not> has_classifiers then Inr None
                   else
                     bindE (subscript downloads ''classifiers'') (\<lambda>classifiers.
                     bindE (contains_key classifier classifiers) (\<lambda>has_classifier.
                       if \<not> has_classifier then Inr None
                       else
                         bindE (subscript classifiers classifier) (\<lambda>native_info.
                         bindE (subscript native_info ''url'') (\<lambda>native_url.
                         bindE (subscript lib ''name'') (\<lambda>name.
                         bindE (case name of
                                  JStr n \<Rightarrow> Inr (last_segment n)
                                | _ \<Rightarrow> Inl AttributeError) (\<lambda>short.
                         bindE (subscript native_info ''sha1'') (\<lambda>expected_sha1.
                           Inr (Some (native_url,
                                  path_join E (natives_dir E version_id)
                                    (short @ ''-'' @ classifier @ ''.jar''),
                                  expected_sha1)))))))))))))))))"

text \<open>Extraction of the members that are not directories; a member that cannot be
  written is reported and skipped.\<close>

fun extract_members ::
  "env \<Rightarrow> string \<Rightarrow> (string \<times> bool \<times> string) list \<Rightarrow> world \<Rightarrow> world" where
  "extract_members E dir [] w = w"
| "extract_members E dir ((name, isdir, content) # members) w =
     (if \<not> isdir then
        (case write_file w (path_join E dir name) content of
           Inl e \<Rightarrow> extract_members E dir members w
         | Inr w1 \<Rightarrow> extract_members E dir members w1)
      else extract_members E dir members w)"

definition download_native ::
  "env \<Rightarrow> string \<Rightarrow> json \<times> string \<times> json \<Rightarrow> world \<Rightarrow> world" where
  "download_native E version_id descr w =
     (case descr of (native_url, native_temp_path, expected_sha1) \<Rightarrow>
        if \<not> path_exists w native_temp_path
           \<or> \<not> verify_file E w native_temp_path expected_sha1 then
          (case urlretrieve E native_url native_temp_path w of
             (Inl e, w1) \<Rightarrow> w1
           | (Inr u, w1) \<Rightarrow>
               if \<not> verify_file E w1 native_temp_path expected_sha1 then
                 (if path_exists w1 native_temp_path then
                    (case os_remove w1 native_temp_path of Inl e \<Rightarrow> w1 | Inr w2 \<Rightarrow> w2)
                  else w1)
               else
                 (case (case files w1 native_temp_path of
                          Some (Regular content) \<Rightarrow> zip_members E content
                        | _ \<Rightarrow> None) of
                    None \<Rightarrow> w1
                  | Some members \<Rightarrow> extract_members E (natives_dir E version_id) members w1))
        else w)"

text \<open>The body of \<^verbatim>\<open>for lib in version_data.get("libraries", [])\<close>.\<close>

definition process_library :: "env \<Rightarrow> string \<Rightarrow> json \<Rightarrow> world \<Rightarrow> (error + unit) \<times> world" where
  "process_library E version_id lib w =
     (case is_library_allowed lib (current_os E) of
        Inl e \<Rightarrow> (Inl e, w)
      | Inr allowed \<Rightarrow>
          if allowed then
            (case artifact_descriptor E lib of
               Inl e \<Rightarrow> (Inl e, w)
             | Inr a \<Rightarrow>
                 (let w1 = (case a of None \<Rightarrow> w | Some d \<Rightarrow> download_library_artifact E d w) in
                  case native_descriptor E version_id lib of
                    Inl e \<Rightarrow> (Inl e, w1)
                  | Inr n \<Rightarrow>
                      (Inr (), (case n of None \<Rightarrow> w1 | Some d \<Rightarrow> download_native E version_id d w1))))
          else (Inr (), w))"

fun libraries_loop :: "env \<Rightarrow> string \<Rightarrow> json list \<Rightarrow> world \<Rightarrow> (error + unit) \<times> world" where
  "libraries_loop E version_id [] w = (Inr (), w)"
| "libraries_loop E version_id (lib # libs) w =
     (case process_library E version_id lib w of
        (Inl e, w1) \<Rightarrow> (Inl e, w1)
      | (Inr u, w1) \<Rightarrow> libraries_loop E version_id libs w1)"

text \<open>
  \<^verbatim>\<open>download_version_files\<close> from \<^verbatim>\<open>if not version_data\<close> on.  \<open>Inr b\<close> is the returned
  boolean, \<open>Inl e\<close> an exception that leaves the function.
\<close>

definition acquire_artifacts ::
  "env \<Rightarrow> string \<Rightarrow> json \<Rightarrow> world \<Rightarrow> (error + bool) \<times> world" where
  "acquire_artifacts E version_id version_data w =
     (if \<not> truthy version_data then (Inr False, w)
      else
        (case download_client_jar E version_id version_data w of
           (False, w1) \<Rightarrow> (Inr False, w1)
         | (True, w1) \<Rightarrow>
             (case bindE (dict_get version_data ''libraries'' (JArr [])) iterate of
                Inl e \<Rightarrow> (Inl e, w1)
              | Inr libs \<Rightarrow>
                  (case libraries_loop E version_id libs w1 of
                     (Inl e, w2) \<Rightarrow> (Inl e, w2)
                   | (Inr u, w2) \<Rightarrow> (Inr True, w2)))))"

text \<open>
  The recursive call stands inside the outer \<^verbatim>\<open>try\<close> of the metadata block: an exception
  that leaves the inner run is caught there and becomes \<^verbatim>\<open>return False\<close>.
\<close>

definition caught :: "(error + bool) \<times> world \<Rightarrow> (error + bool) \<times> world" where
  "caught r = (case r of (Inl e, w) \<Rightarrow> (Inr False, w) | (Inr b, w) \<Rightarrow> (Inr b, w))"

text \<open>
  \<^verbatim>\<open>download_version_files\<close>.  The function calls itself after removing a local document that
  does not load, so it is defined without assuming that the recursion ends: \<open>None\<close> is a
  run that never returns.
\<close>

partial_function (option) download_version_files ::
  "env \<Rightarrow> string \<Rightarrow> string \<Rightarrow> world \<Rightarrow> ((error + bool) \<times> world) option" where
  "download_version_files E version_id version_url w =
     (case load_version_json E version_id version_url w of
        (Retry, w1) \<Rightarrow>
          Option.bind (download_version_files E version_id version_url w1)
            (\<lambda>r. Some (caught r))
      | (Failed, w1) \<Rightarrow> Some (Inr False, w1)
      | (Loaded version_data, w1) \<Rightarrow> Some (acquire_artifacts E version_id version_data w1))"

section \<open>Manifest loader\<close>

datatype category = LatestRelease | LatestSnapshot | Release | Snapshot | OldBeta | OldAlpha

text \<open>
  The part of the application object the backend uses: \<^verbatim>\<open>self.versions\<close> (identifier to
  URL, in insertion order) and \<^verbatim>\<open>self.version_categories\<close> (the six lists).
\<close>

record app_state =
  versions :: "(json \<times> json) list"
  version_categories :: "category \<Rightarrow> json list"

definition VERSION_MANIFEST_URL :: string where
  "VERSION_MANIFEST_URL = ''https://piston-meta.mojang.com/mc/game/version_manifest_v2.json''"

text \<open>A list or a dict cannot be a dict key.\<close>

definition hashable :: "json \<Rightarrow> bool" where
  "hashable j = (case j of JArr _ \<Rightarrow> False | JObj _ \<Rightarrow> False | _ \<Rightarrow> True)"

text \<open>
  \<^verbatim>\<open>a == b\<close> when \<open>a\<close> is hashable (the only use here): a boolean equals the integer 0 or 1,
  otherwise values are equal when they are the same value.
\<close>

definition py_eq :: "json \<Rightarrow> json \<Rightarrow> bool" where
  "py_eq a b =
     (case (a, b) of
        (JBool x, JInt i) \<Rightarrow> i = (if x then 1 else 0)
      | (JInt i, JBool y) \<Rightarrow> i = (if y then 1 else 0)
      | _ \<Rightarrow> a = b)"

text \<open>\<^verbatim>\<open>d[k] = v\<close> on a dict kept in insertion order.\<close>

fun dict_store :: "(json \<times> json) list \<Rightarrow> json \<Rightarrow> json \<Rightarrow> (json \<times> json) list" where
  "dict_store [] k v = [(k, v)]"
| "dict_store ((k', v') # kvs) k v =
     (if py_eq k' k then (k', v) # kvs else (k', v') # dict_store kvs k v)"

definition append_category :: "category \<Rightarrow> json \<Rightarrow> app_state \<Rightarrow> app_state" where
  "append_category c x st =
     st\<lparr>version_categories := (version_categories st)(c := version_categories st c @ [x])\<rparr>"

text \<open>The \<^verbatim>\<open>if\<close>/\<^verbatim>\<open>elif\<close> chain of the loop body: the list an entry is appended to, \<open>None\<close>
  when no branch is taken.\<close>

definition category_of :: "json \<Rightarrow> json \<Rightarrow> json \<Rightarrow> error + category option" where
  "category_of latest_release_id latest_snapshot_id v =
     bindE (subscript v ''id'') (\<lambda>vid.
       if py_eq vid latest_release_id then Inr (Some LatestRelease)
       else if py_eq vid latest_snapshot_id then Inr (Some LatestSnapshot)
       else
         bindE (subscript v ''type'') (\<lambda>t.
           if t = JStr ''release'' then Inr (Some Release)
           else if t = JStr ''snapshot'' then Inr (Some Snapshot)
           else if t = JStr ''old_beta'' then Inr (Some OldBeta)
           else if t = JStr ''old_alpha'' then Inr (Some OldAlpha)
           else Inr None))"

text \<open>The loop \<^verbatim>\<open>for v in manifest["versions"]\<close>.\<close>

fun classify_loop :: "json \<Rightarrow> json \<Rightarrow> json list \<Rightarrow> app_state \<Rightarrow> error + app_state" where
  "classify_loop latest_release_id latest_snapshot_id [] st = Inr st"
| "classify_loop latest_release_id latest_snapshot_id (v # vs) st =
     bindE (subscript v ''url'') (\<lambda>url.
     bindE (subscript v ''id'') (\<lambda>vid.
       if \<not> hashable vid then Inl TypeError
       else
         let st1 = st\<lparr>versions := dict_store (versions st) vid url\<rparr> in
         bindE (category_of latest_release_id latest_snapshot_id v) (\<lambda>c.
           classify_loop latest_release_id latest_snapshot_id vs
             (case c of None \<Rightarrow> st1 | Some c' \<Rightarrow> append_category c' vid st1))))"

text \<open>
  \<^verbatim>\<open>list.sort(reverse=True)\<close>: descending, equal elements in their original order.  The
  comparison is defined among strings (by code point) and among numbers; a list of two or
  more elements of any other kind or of mixed kinds raises TypeError.
\<close>

fun str_lt :: "string \<Rightarrow> string \<Rightarrow> bool" where
  "str_lt [] [] = False"
| "str_lt [] (y # ys) = True"
| "str_lt (x # xs) [] = False"
| "str_lt (x # xs) (y # ys) =
     ((of_char x :: nat) < of_char y \<or> (x = y \<and> str_lt xs ys))"

definition is_number :: "json \<Rightarrow> bool" where
  "is_number j = (case j of JInt _ \<Rightarrow> True | JBool _ \<Rightarrow> True | _ \<Rightarrow> False)"

definition number_of :: "json \<Rightarrow> int" where
  "number_of j = (case j of JInt i \<Rightarrow> i | JBool b \<Rightarrow> (if b then 1 else 0) | _ \<Rightarrow> 0)"

definition json_lt :: "json \<Rightarrow> json \<Rightarrow> bool" where
  "json_lt a b =
     (case (a, b) of
        (JStr s, JStr t) \<Rightarrow> str_lt s t
      | _ \<Rightarrow> number_of a < number_of b)"

fun insert_desc :: "json \<Rightarrow> json list \<Rightarrow> json list" where
  "insert_desc x [] = [x]"
| "insert_desc x (y # ys) = (if json_lt x y then y # insert_desc x ys else x # y # ys)"

definition sort_reverse :: "json list \<Rightarrow> error + json list" where
  "sort_reverse xs =
     (if length xs \<le> 1 then Inr xs
      else if list_all is_str xs \<or> list_all is_number xs then Inr (foldr insert_desc xs [])
      else Inl TypeError)"

text \<open>The loop that sorts every category but the two latest ones.\<close>

fun sort_categories :: "category list \<Rightarrow> app_state \<Rightarrow> error + app_state" where
  "sort_categories [] st = Inr st"
| "sort_categories (c # cs) st =
     (if c \<noteq> LatestRelease \<and> c \<noteq> LatestSnapshot then
        bindE (sort_reverse (version_categories st c)) (\<lambda>sorted.
          sort_categories cs
            (st\<lparr>version_categories := (version_categories st)(c := sorted)\<rparr>))
      else sort_categories cs st)"

text \<open>
  \<^verbatim>\<open>load_version_manifest\<close>.  \<open>Inr\<close> is a load whose \<^verbatim>\<open>try\<close> body ran to its end, with the
  state it leaves; \<open>Inl\<close> is the \<^verbatim>\<open>except\<close> branch (the half-rebuilt state it leaves behind is
  not modelled).  The refresh of the combo boxes at the end belongs to the user interface.
\<close>

definition load_version_manifest :: "env \<Rightarrow> app_state \<Rightarrow> error + app_state" where
  "load_version_manifest E st =
     (case url_read E VERSION_MANIFEST_URL of
        None \<Rightarrow> Inl URLError
      | Some body \<Rightarrow>
          (case json_loads E body of
             None \<Rightarrow> Inl ValueError
           | Some manifest \<Rightarrow>
               (let st0 = st\<lparr>versions := [], version_categories := (\<lambda>c. [])\<rparr> in
                bindE (subscript manifest ''latest'') (\<lambda>latest.
                bindE (subscript latest ''release'') (\<lambda>latest_release_id.
                bindE (subscript latest ''snapshot'') (\<lambda>latest_snapshot_id.
                bindE (subscript manifest ''versions'') (\<lambda>vs.
                bindE (iterate vs) (\<lambda>entries.
                bindE (classify_loop latest_release_id latest_snapshot_id entries st0) (\<lambda>st1.
                  sort_categories
                    [LatestRelease, LatestSnapshot, Release, Snapshot, OldBeta, OldAlpha]
                    st1)))))))))"

text \<open>
  What a load reads from the parsed manifest: the two latest identifiers and the entries of
  the version list.
\<close>

definition manifest_fields :: "json \<Rightarrow> error + json \<times> json \<times> json list" where
  "manifest_fields manifest =
     bindE (subscript manifest ''latest'') (\<lambda>latest.
     bindE (subscript latest ''release'') (\<lambda>latest_release_id.
     bindE (subscript latest ''snapshot'') (\<lambda>latest_snapshot_id.
     bindE (subscript manifest ''versions'') (\<lambda>vs.
     bindE (iterate vs) (\<lambda>entries.
       Inr (latest_release_id, latest_snapshot_id, entries))))))"

definition entry_id :: "json \<Rightarrow> json" where
  "entry_id v = (case subscript v ''id'' of Inr vid \<Rightarrow> vid | Inl e \<Rightarrow> JNull)"

text \<open>The identifiers of the entries that the chain sends to a category, in list order.\<close>

definition ids_for :: "json \<Rightarrow> json \<Rightarrow> category \<Rightarrow> json list \<Rightarrow> json list" where
  "ids_for latest_release_id latest_snapshot_id c entries =
     map entry_id
       (filter (\<lambda>v. category_of latest_release_id latest_snapshot_id v = Inr (Some c)) entries)"

section \<open>Launch plan builder\<close>

record cheats =
  killaura :: bool
  speed :: bool
  fly :: bool

text \<open>Decimal digits of an integer, as an f-string prints it.\<close>

fun str_of_nat :: "nat \<Rightarrow> string" where
  "str_of_nat n =
     (if n < 10 then [''0123456789'' ! n]
      else str_of_nat (n div 10) @ [''0123456789'' ! (n mod 10)])"

declare str_of_nat.simps [simp del]

definition str_of_int :: "int \<Rightarrow> string" where
  "str_of_int i = (if i < 0 then ''-'' @ str_of_nat (nat (- i)) else str_of_nat (nat i))"

text \<open>\<^verbatim>\<open>str(value)\<close>.\<close>

definition py_str :: "env \<Rightarrow> json \<Rightarrow> string" where
  "py_str E j =
     (case j of
        JStr s \<Rightarrow> s
      | JInt i \<Rightarrow> str_of_int i
      | JBool b \<Rightarrow> (if b then ''True'' else ''False'')
      | JNull \<Rightarrow> ''None''
      | _ \<Rightarrow> container_str E j)"

text \<open>\<^verbatim>\<open>sep.join(parts)\<close> on strings.\<close>

fun join_strings :: "string \<Rightarrow> string list \<Rightarrow> string" where
  "join_strings sep [] = []"
| "join_strings sep [x] = x"
| "join_strings sep (x # y # ys) = x @ sep @ join_strings sep (y # ys)"

text \<open>\<^verbatim>\<open>sep.join(xs)\<close> on a list taken from a document: TypeError on an element that is
  not a string.\<close>

fun strings_of :: "json list \<Rightarrow> error + string list" where
  "strings_of [] = Inr []"
| "strings_of (x # xs) =
     (case x of
        JStr s \<Rightarrow> bindE (strings_of xs) (\<lambda>rest. Inr (s # rest))
      | _ \<Rightarrow> Inl TypeError)"

text \<open>
  \<^verbatim>\<open>s.split()\<close>: the maximal runs of characters that are not whitespace.  A character
  of a string is a code point below 256; the whitespace among them is the blank, the
  controls 0x09 to 0x0D and 0x1C to 0x1F, the next-line control 0x85 and the no-break
  space 0xA0.
\<close>

definition is_space :: "char \<Rightarrow> bool" where
  "is_space c = (c \<in> set [CHR '' '', CHR 0x09, CHR 0x0A, CHR 0x0B, CHR 0x0C, CHR 0x0D,
     CHR 0x1C, CHR 0x1D, CHR 0x1E, CHR 0x1F, CHR 0x85, CHR 0xA0])"

fun split_ws :: "string \<Rightarrow> string \<Rightarrow> string list" where
  "split_ws word [] = (if word = [] then [] else [word])"
| "split_ws word (c # cs) =
     (if is_space c then (if word = [] then split_ws [] cs else word # split_ws [] cs)
      else split_ws (word @ [c]) cs)"

text \<open>\<^verbatim>\<open>is_java_installed("21")\<close>: the local probe runs only when the managed executable
  exists; when it reports no version the system probe decides.\<close>

definition local_java_path :: "env \<Rightarrow> string" where
  "local_java_path E =
     path_join E (path_join E (path_join E (JAVA_DIR E) ''jdk-21.0.5+11'') ''bin'')
       (if platform_system E = ''Windows'' then ''java.exe'' else ''java'')"

definition is_java_installed :: "env \<Rightarrow> world \<Rightarrow> bool" where
  "is_java_installed E w =
     (case (if path_exists w (local_java_path E) then local_java_major E else None) of
        Some major_version \<Rightarrow> major_version \<ge> 21
      | None \<Rightarrow>
          (case system_java_major E of
             Some major_version \<Rightarrow> major_version \<ge> 21
           | None \<Rightarrow> False))"

text \<open>The runtime executable: \<open>None\<close> is the \<^verbatim>\<open>return []\<close> of the last branch.\<close>

definition select_java :: "env \<Rightarrow> world \<Rightarrow> string option" where
  "select_java E w =
     (if path_exists w (local_java_path E) \<and> is_java_installed E w then Some (local_java_path E)
      else if is_java_installed E w then Some ''java''
      else None)"

text \<open>The classpath loop: the local path of the primary archive of every applicable
  library whose file exists, in document order.\<close>

fun classpath_loop :: "env \<Rightarrow> world \<Rightarrow> json list \<Rightarrow> error + string list" where
  "classpath_loop E w [] = Inr []"
| "classpath_loop E w (lib # libs) =
     bindE (is_library_allowed lib (current_os E)) (\<lambda>allowed.
     bindE (if allowed then
              bindE (contains_key ''downloads'' lib) (\<lambda>has_downloads.
                if \<not> has_downloads then Inr []
                else
                  bindE (subscript lib ''downloads'') (\<lambda>downloads.
                  bindE (contains_key ''artifact'' downloads) (\<lambda>has_artifact.
                    if \<not> has_artifact then Inr []
                    else
                      bindE (subscript downloads ''artifact'') (\<lambda>artifact_info.
                      bindE (subscript artifact_info ''path'') (\<lambda>rel.
                      bindE (join_json E (libraries_dir E) rel) (\<lambda>lib_path.
                        if path_exists w lib_path then Inr [lib_path] else Inr []))))))
            else Inr []) (\<lambda>entry.
     bindE (classpath_loop E w libs) (\<lambda>rest. Inr (entry @ rest))))"

text \<open>The classpath string: \<open>Inr None\<close> is the \<^verbatim>\<open>return []\<close> for a missing client JAR.\<close>

definition build_classpath :: "env \<Rightarrow> world \<Rightarrow> string \<Rightarrow> json \<Rightarrow> error + string option" where
  "build_classpath E w version version_data =
     bindE (dict_get version_data ''libraries'' (JArr [])) (\<lambda>ls.
     bindE (iterate ls) (\<lambda>libs.
     bindE (classpath_loop E w libs) (\<lambda>classpath.
       if path_exists w (jar_path E version)
       then Inr (Some (join_strings (pathsep E) (classpath @ [jar_path E version])))
       else Inr None)))"

text \<open>
  The expansion of a templated argument list, written twice in the source (for
  \<^verbatim>\<open>arguments.jvm\<close> and for \<^verbatim>\<open>arguments.game\<close>) with the same text: a string is appended
  as it is; a dict with \<^verbatim>\<open>rules\<close> and \<^verbatim>\<open>value\<close> contributes its value (the elements of a
  list, or the single value) when \<^verbatim>\<open>evaluate_rules\<close> holds; anything else is dropped.
\<close>

definition expand_argument :: "json \<Rightarrow> string \<Rightarrow> error + json list" where
  "expand_argument arg pf =
     (if is_str arg then Inr [arg]
      else if is_dict arg \<and> contains_key ''rules'' arg = Inr True
              \<and> contains_key ''value'' arg = Inr True then
        bindE (subscript arg ''rules'') (\<lambda>rules.
        bindE (evaluate_rules rules pf) (\<lambda>ok.
          if ok then
            bindE (subscript arg ''value'') (\<lambda>v.
              case v of JArr xs \<Rightarrow> Inr xs | _ \<Rightarrow> Inr [v])
          else Inr []))
      else Inr [])"

fun expand_arguments :: "json list \<Rightarrow> string \<Rightarrow> error + json list" where
  "expand_arguments [] pf = Inr []"
| "expand_arguments (arg # args) pf =
     bindE (expand_argument arg pf) (\<lambda>toks.
     bindE (expand_arguments args pf) (\<lambda>rest. Inr (toks @ rest)))"

definition default_jvm_args :: "json list" where
  "default_jvm_args =
     [JStr ''-XX:+UseG1GC'', JStr ''-XX:-UseAdaptiveSizePolicy'', JStr ''-XX:MinHeapFreeRatio=3'',
      JStr ''-XX:MaxHeapFreeRatio=9'', JStr ''-XX:+DisableExplicitGC'', JStr ''-XX:+AlwaysPreTouch'',
      JStr ''-XX:+UnlockExperimentalVMOptions'', JStr ''-XX:+ParallelRefProcEnabled'']"

text \<open>The JVM arguments taken from the document, before the macOS additions.\<close>

definition document_jvm_args :: "env \<Rightarrow> json \<Rightarrow> error + json list" where
  "document_jvm_args E version_data =
     bindE (contains_key ''arguments'' version_data) (\<lambda>has_arguments.
     bindE (if has_arguments
            then bindE (subscript version_data ''arguments'') (contains_key ''jvm'')
            else Inr False) (\<lambda>has_jvm.
       if has_jvm then
         bindE (subscript version_data ''arguments'') (\<lambda>arguments.
         bindE (subscript arguments ''jvm'') (\<lambda>js.
         bindE (iterate js) (\<lambda>args. expand_arguments args (current_os E))))
       else
         bindE (contains_key ''minecraftArguments'' version_data) (\<lambda>legacy.
           if legacy then Inr default_jvm_args else Inr [])))"

text \<open>One macOS addition: the flag is appended unless the joined list contains it.\<close>

definition add_unless_present :: "string \<Rightarrow> json list \<Rightarrow> error + json list" where
  "add_unless_present flag jvm_args =
     bindE (strings_of jvm_args) (\<lambda>strs.
       if \<not> is_substring flag (join_strings '' '' strs) then Inr (jvm_args @ [JStr flag])
       else Inr jvm_args)"

definition jvm_arguments :: "env \<Rightarrow> json \<Rightarrow> error + json list" where
  "jvm_arguments E version_data =
     bindE (document_jvm_args E version_data) (\<lambda>jvm_args.
       if platform_system E = ''Darwin'' then
         bindE (add_unless_present ''-XstartOnFirstThread'' jvm_args)
           (add_unless_present ''-Dorg.lwjgl.opengl.Display.allowSoftwareOpenGL=true'')
       else Inr jvm_args)"

definition cheat_arguments :: "cheats \<Rightarrow> json list" where
  "cheat_arguments ch =
     (if killaura ch then [JStr ''-Dnova.killaura=true''] else []) @
     (if speed ch then [JStr ''-Dnova.speed=true''] else []) @
     (if fly ch then [JStr ''-Dnova.fly=true''] else [])"

text \<open>The game arguments before substitution: \<open>Inr None\<close> is the \<^verbatim>\<open>return []\<close> of the
  last branch.\<close>

definition game_arguments :: "env \<Rightarrow> json \<Rightarrow> error + json list option" where
  "game_arguments E version_data =
     bindE (contains_key ''arguments'' version_data) (\<lambda>has_arguments.
     bindE (if has_arguments
            then bindE (subscript version_data ''arguments'') (contains_key ''game'')
            else Inr False) (\<lambda>has_game.
       if has_game then
         bindE (subscript version_data ''arguments'') (\<lambda>arguments.
         bindE (subscript arguments ''game'') (\<lambda>gs.
         bindE (iterate gs) (\<lambda>args.
         bindE (expand_arguments args (current_os E)) (\<lambda>toks. Inr (Some toks)))))
       else
         bindE (contains_key ''minecraftArguments'' version_data) (\<lambda>legacy.
           if legacy then
             bindE (subscript version_data ''minecraftArguments'') (\<lambda>m.
               case m of
                 JStr s \<Rightarrow> Inr (Some (map JStr (split_ws [] s)))
               | _ \<Rightarrow> Inl AttributeError)
           else Inr None)))"

text \<open>\<^verbatim>\<open>generate_offline_uuid\<close>: the MD5 hex digest of \<^verbatim>\<open>OfflinePlayer:<username>\<close>, cut
  into the five groups.\<close>

definition generate_offline_uuid :: "env \<Rightarrow> string \<Rightarrow> string" where
  "generate_offline_uuid E username =
     (let md5_hash = md5_hexdigest E (''OfflinePlayer:'' @ username) in
      take 8 md5_hash @ ''-'' @ take 4 (drop 8 md5_hash) @ ''-'' @ take 4 (drop 12 md5_hash)
        @ ''-'' @ take 4 (drop 16 md5_hash) @ ''-'' @ drop 20 md5_hash)"

text \<open>The replacement table, in the order of the dict literal, each value after
  \<^verbatim>\<open>str()\<close>.\<close>

definition replacements :: "env \<Rightarrow> string \<Rightarrow> string \<Rightarrow> json \<Rightarrow> error + (string \<times> string) list" where
  "replacements E version username version_data =
     bindE (dict_get version_data ''assetIndex'' (JObj [])) (\<lambda>asset_index.
     bindE (dict_get asset_index ''id'' (JStr version)) (\<lambda>assets_index_name.
     bindE (dict_get version_data ''type'' (JStr ''release'')) (\<lambda>version_type.
       Inr [(''${auth_player_name}'', username),
            (''${version_name}'', version),
            (''${game_directory}'', MINECRAFT_DIR E),
            (''${assets_root}'', path_join E (MINECRAFT_DIR E) ''assets''),
            (''${assets_index_name}'', py_str E assets_index_name),
            (''${auth_uuid}'', generate_offline_uuid E username),
            (''${auth_access_token}'', ''0''),
            (''${user_type}'', ''legacy''),
            (''${version_type}'', py_str E version_type),
            (''${user_properties}'', ''{}''),
            (''${quickPlayRealms}'', []),
            (''${quickPlaySingleplayer}'', []),
            (''${quickPlayMultiplayer}'', [])])))"

text \<open>The inner loop \<^verbatim>\<open>for key, value in replacements.items()\<close> on one argument.\<close>

fun substitute :: "(string \<times> string) list \<Rightarrow> string \<Rightarrow> string" where
  "substitute [] replaced_arg = replaced_arg"
| "substitute ((k, v) # table) replaced_arg = substitute table (py_replace k v replaced_arg)"

text \<open>The outer loop over the game arguments: an argument that is not a string has no
  \<^verbatim>\<open>replace\<close> method.\<close>

fun substitute_all :: "(string \<times> string) list \<Rightarrow> json list \<Rightarrow> error + json list" where
  "substitute_all table [] = Inr []"
| "substitute_all table (arg # args) =
     (case arg of
        JStr s \<Rightarrow>
          bindE (substitute_all table args) (\<lambda>rest. Inr (JStr (substitute table s) # rest))
      | _ \<Rightarrow> Inl AttributeError)"

text \<open>
  \<^verbatim>\<open>build_launch_command\<close>.  \<open>Inr []\<close> is every \<^verbatim>\<open>return []\<close>; \<open>Inl e\<close> is an exception
  that leaves the function.
\<close>

definition build_launch_command ::
  "env \<Rightarrow> world \<Rightarrow> cheats \<Rightarrow> string \<Rightarrow> string \<Rightarrow> int \<Rightarrow> error + json list" where
  "build_launch_command E w ch version username ram =
     (if \<not> path_exists w (version_json_path E version) then Inr []
      else
        (case (case files w (version_json_path E version) of
                 Some (Regular content) \<Rightarrow> json_loads E content
               | _ \<Rightarrow> None) of
           None \<Rightarrow> Inr []
         | Some version_data \<Rightarrow>
             (case select_java E w of
                None \<Rightarrow> Inr []
              | Some java_path \<Rightarrow>
                  bindE (dict_get version_data ''mainClass'' JNull) (\<lambda>main_class.
                    if \<not> truthy main_class then Inr []
                    else
                      bindE (build_classpath E w version version_data) (\<lambda>cp.
                        case cp of
                          None \<Rightarrow> Inr []
                        | Some classpath_str \<Rightarrow>
                            bindE (jvm_arguments E version_data) (\<lambda>jvm_args.
                            bindE (game_arguments E version_data) (\<lambda>ga.
                              case ga of
                                None \<Rightarrow> Inr []
                              | Some game_args \<Rightarrow>
                                  bindE (replacements E version username version_data) (\<lambda>table.
                                  bindE (substitute_all table game_args) (\<lambda>final_game_args.
                                    Inr ([JStr java_path,
                                          JStr (''-Xmx'' @ str_of_int ram @ ''G''),
                                          JStr (''-Djava.library.path='' @ natives_dir E version)]
                                         @ jvm_args
                                         @ cheat_arguments ch
                                         @ [JStr ''-cp'', JStr classpath_str, main_class]
                                         @ final_game_args))))))))))"

text \<open>
  A templated argument seen as a sequence of literal text and placeholders: its text as
  the document has it, and the same text with every placeholder replaced by the value the
  table gives it.
\<close>

datatype piece = Literal string | Placeholder string

fun template_text :: "piece list \<Rightarrow> string" where
  "template_text [] = []"
| "template_text (Literal s # ps) = s @ template_text ps"
| "template_text (Placeholder k # ps) = k @ template_text ps"

fun template_instance :: "(string \<times> string) list \<Rightarrow> piece list \<Rightarrow> string" where
  "template_instance table [] = []"
| "template_instance table (Literal s # ps) = s @ template_instance table ps"
| "template_instance table (Placeholder k # ps) =
     (case map_of table k of Some v \<Rightarrow> v | None \<Rightarrow> k) @ template_instance table ps"

text \<open>The form of the keys of the replacement table: \<^verbatim>\<open>${name}\<close>, with neither \<^verbatim>\<open>$\<close> nor
  \<^verbatim>\<open>}\<close> in the name.\<close>

definition placeholder_key :: "string \<Rightarrow> bool" where
  "placeholder_key k =
     (case k of
        c1 # c2 # rest \<Rightarrow>
          c1 = CHR ''$'' \<and> c2 = CHR ''{'' \<and> rest \<noteq> [] \<and> last rest = CHR ''}'' \<and>
          CHR ''$'' \<notin> set rest \<and> CHR ''}'' \<notin> set (butlast rest)
      | _ \<Rightarrow> False)"

section \<open>A verified local cache\<close>

text \<open>
  The state of the files in which every artifact of a version is present and verified: the
  metadata document is a readable file that parses to a truthy document; the main archive
  has a download descriptor and its file verifies; and for every entry of the library list
  that applies to the platform, the primary archive (when the entry has one) and the native
  archive for the platform (when the entry has one) each have a complete descriptor and a
  file that exists and verifies.
\<close>

definition artifact_cached :: "env \<Rightarrow> world \<Rightarrow> error + (json \<times> string \<times> json) option \<Rightarrow> bool" where
  "artifact_cached E w descr =
     (case descr of
        Inl e \<Rightarrow> False
      | Inr None \<Rightarrow> True
      | Inr (Some (url, p, expected_sha1)) \<Rightarrow> path_exists w p \<and> verify_file E w p expected_sha1)"

definition library_cached :: "env \<Rightarrow> string \<Rightarrow> world \<Rightarrow> json \<Rightarrow> bool" where
  "library_cached E version_id w lib =
     (case is_library_allowed lib (current_os E) of
        Inl e \<Rightarrow> False
      | Inr allowed \<Rightarrow>
          if allowed then
            artifact_cached E w (artifact_descriptor E lib) \<and>
            artifact_cached E w (native_descriptor E version_id lib)
          else True)"

definition cache_verified :: "env \<Rightarrow> string \<Rightarrow> world \<Rightarrow> bool" where
  "cache_verified E version_id w =
     (case files w (version_json_path E version_id) of
        Some (Regular content) \<Rightarrow>
          (case json_loads E content of
             None \<Rightarrow> False
           | Some version_data \<Rightarrow>
               truthy version_data \<and>
               (case client_descriptor version_data of
                  Inr (Some (jar_url, expected_sha1)) \<Rightarrow>
                    path_exists w (jar_path E version_id) \<and>
                    verify_file E w (jar_path E version_id) expected_sha1
                | _ \<Rightarrow> False) \<and>
               (case bindE (dict_get version_data ''libraries'' (JArr [])) iterate of
                  Inl e \<Rightarrow> False
                | Inr libs \<Rightarrow> list_all (library_cached E version_id w) libs))
      | _ \<Rightarrow> False)"

section \<open>A test environment\<close>

text \<open>
  A Linux machine with a system Java 21, POSIX path joining, and a network, a JSON reader
  and digest functions given by tables over the few contents the examples use (the
  digests are the SHA-1 and MD5 values of those contents).
\<close>

definition test_sha1_table :: "(string \<times> string) list" where
  "test_sha1_table =
     [([], ''da39a3ee5e6b4b0d3255bfef95601890afd80709''),
      (''JAR'', ''a7a941dea93a9fd0d1a0a8980df11d40b2cf576c''),
      (''LIB-A'', ''ee423e01c7fa2f7d0cc3f79c467f83c0b85c91d1''),
      (''LIB-B'', ''daf3819636e519220ba861124f7db6f2087ba9fd''),
      (''NATIVE'', ''dbda54bf8f5b0c2cab6b61e46d69af778895241e''),
      (''corrupt'', ''a1ce829a6e4fb826d301d8571c127c518175f6e2'')]"

definition test_library_a :: json where
  "test_library_a =
     JObj [(''name'', JStr ''com.example:a:1.0''),
           (''downloads'', JObj [(''artifact'',
              JObj [(''path'', JStr ''a.jar''),
                    (''sha1'', JStr ''ee423e01c7fa2f7d0cc3f79c467f83c0b85c91d1''),
                    (''url'', JStr ''https://m/a.jar'')])])]"

definition test_library_b :: json where
  "test_library_b =
     JObj [(''name'', JStr ''com.example:b:1.0''),
           (''rules'', JArr [JObj [(''action'', JStr ''allow''),
                                   (''os'', JObj [(''name'', JStr ''linux'')])]]),
           (''downloads'', JObj [(''artifact'',
              JObj [(''path'', JStr ''b.jar''),
                    (''sha1'', JStr ''daf3819636e519220ba861124f7db6f2087ba9fd''),
                    (''url'', JStr ''https://m/b.jar'')])])]"

definition test_library_n :: json where
  "test_library_n =
     JObj [(''name'', JStr ''org.lwjgl:platform:2.9''),
           (''natives'', JObj [(''linux'', JStr ''natives-linux''), (''osx'', JStr ''natives-osx'')]),
           (''downloads'', JObj [(''classifiers'', JObj [(''natives-linux'',
              JObj [(''sha1'', JStr ''dbda54bf8f5b0c2cab6b61e46d69af778895241e''),
                    (''url'', JStr ''https://m/n.jar'')])])])]"

definition test_jvm_template :: "json list" where
  "test_jvm_template =
     [JStr ''-Dlauncher=${launcher_name}'',
      JStr ''-cp'',
      JStr ''${classpath}'',
      JObj [(''rules'', JArr [JObj [(''action'', JStr ''allow''),
                                    (''os'', JObj [(''name'', JStr ''linux'')])]]),
            (''value'', JArr [JStr ''-Duser=${auth_player_name}''])]]"

definition test_version_doc :: "json list \<Rightarrow> json" where
  "test_version_doc libs =
     JObj [(''id'', JStr ''1.0''),
           (''type'', JStr ''release''),
           (''mainClass'', JStr ''net.minecraft.client.main.Main''),
           (''assetIndex'', JObj [(''id'', JStr ''17'')]),
           (''downloads'', JObj [(''client'',
              JObj [(''sha1'', JStr ''a7a941dea93a9fd0d1a0a8980df11d40b2cf576c''),
                    (''url'', JStr ''https://m/client.jar'')])]),
           (''libraries'', JArr libs),
           (''arguments'', JObj
              [(''game'', JArr [JStr ''--username ${auth_player_name}'',
                                JStr ''${version_name}/${version_type}'',
                                JObj [(''rules'', JArr [JObj [(''action'', JStr ''allow''),
                                         (''features'', JObj [(''is_demo_user'', JBool True)])]]),
                                      (''value'', JStr ''--demo'')]]),
               (''jvm'', JArr test_jvm_template)])]"

definition test_manifest :: json where
  "test_manifest =
     JObj [(''latest'', JObj [(''release'', JStr ''1.21''), (''snapshot'', JStr ''24w14a'')]),
           (''versions'', JArr
              [JObj [(''id'', JStr ''24w14a''), (''type'', JStr ''snapshot''), (''url'', JStr ''u1'')],
               JObj [(''id'', JStr ''1.21''), (''type'', JStr ''release''), (''url'', JStr ''u2'')],
               JObj [(''id'', JStr ''1.20''), (''type'', JStr ''release''), (''url'', JStr ''u3'')],
               JObj [(''id'', JStr ''b1.8''), (''type'', JStr ''old_beta''), (''url'', JStr ''u4'')],
               JObj [(''id'', JStr ''x1''), (''type'', JStr ''pending''), (''url'', JStr ''u5'')]])]"

definition test_documents :: "(string \<times> json) list" where
  "test_documents =
     [(''manifest'', test_manifest),
      (''doc-ab'', test_version_doc [test_library_a, test_library_b]),
      (''doc-abn'', test_version_doc [test_library_a, test_library_b, test_library_n])]"

definition test_env :: env where
  "test_env =
     \<lparr>platform_system = ''Linux'',
      platform_architecture = ''64bit'',
      base_dir = ''/n'',
      path_join = (\<lambda>a b. a @ ''/'' @ b),
      pathsep = '':'',
      sha1_hexdigest = (\<lambda>s. case map_of test_sha1_table s of Some d \<Rightarrow> d | None \<Rightarrow> []),
      md5_hexdigest =
        (\<lambda>s. if s = ''OfflinePlayer:Steve'' then ''5627dd98e6bebc21f8a8e92344183641''
             else if s = ''OfflinePlayer:${version_name}'' then ''c6a3ab07d97486c5222ec02b265aee1c''
             else []),
      json_loads = map_of test_documents,
      json_dumps = (\<lambda>j. case List.find (\<lambda>d. snd d = j) test_documents of
                           Some d \<Rightarrow> fst d | None \<Rightarrow> []),
      url_read = map_of [(VERSION_MANIFEST_URL, ''manifest'')],
      zip_members = (\<lambda>s. None),
      local_java_major = None,
      system_java_major = Some 21,
      container_str = (\<lambda>j. [])\<rparr>"

definition initial_state :: app_state where
  "initial_state = \<lparr>versions = [], version_categories = (\<lambda>c. [])\<rparr>"

definition test_loaded :: app_state where
  "test_loaded =
     (case load_version_manifest test_env initial_state of Inr st \<Rightarrow> st | Inl e \<Rightarrow> initial_state)"

text \<open>Local files: nothing; a version directory with every artifact in place; one with a
  metadata document that does not parse.\<close>

definition empty_world :: world where
  "empty_world = \<lparr>files = (\<lambda>p. None), requests = []\<rparr>"

definition cached_world :: world where
  "cached_world =
     \<lparr>files = map_of
        [(''/n/minecraft/versions/1.0/1.0.json'', Regular ''doc-abn''),
         (''/n/minecraft/versions/1.0/1.0.jar'', Regular ''JAR''),
         (''/n/minecraft/libraries/a.jar'', Regular ''LIB-A''),
         (''/n/minecraft/libraries/b.jar'', Regular ''LIB-B''),
         (''/n/minecraft/versions/1.0/natives/2.9-natives-linux.jar'', Regular ''NATIVE'')],
      requests = []\<rparr>"

definition broken_world :: world where
  "broken_world =
     \<lparr>files = map_of [(''/n/minecraft/versions/1.0/1.0.json'', Regular ''{ not json'')],
      requests = []\<rparr>"

definition empty_file_world :: world where
  "empty_file_world = \<lparr>files = map_of [(''/n/empty'', Regular [])], requests = []\<rparr>"

text \<open>Remote sides: one that answers the metadata URL with a page that is no JSON; one
  whose main archive is corrupt; one whose first library archive is corrupt.\<close>

definition broken_remote_env :: env where
  "broken_remote_env = test_env\<lparr>url_read := map_of [(''https://m/1.0.json'', ''<html>'')]\<rparr>"

definition corrupt_jar_env :: env where
  "corrupt_jar_env = test_env\<lparr>url_read := map_of [(''https://m/client.jar'', ''corrupt'')]\<rparr>"

definition corrupt_library_env :: env where
  "corrupt_library_env =
     test_env\<lparr>url_read := map_of [(''https://m/a.jar'', ''corrupt''), (''https://m/b.jar'', ''LIB-B'')]\<rparr>"

definition jar_only_world :: world where
  "jar_only_world =
     \<lparr>files = map_of
        [(''/n/minecraft/versions/1.0/1.0.json'', Regular ''doc-ab''),
         (''/n/minecraft/versions/1.0/1.0.jar'', Regular ''JAR'')],
      requests = []\<rparr>"

text \<open>Local files for a launch: everything in place; library A missing; the main
  archive missing.\<close>

definition launch_world :: world where
  "launch_world =
     \<lparr>files = map_of
        [(''/n/minecraft/versions/1.0/1.0.json'', Regular ''doc-ab''),
         (''/n/minecraft/versions/1.0/1.0.jar'', Regular ''JAR''),
         (''/n/minecraft/libraries/a.jar'', Regular ''LIB-A''),
         (''/n/minecraft/libraries/b.jar'', Regular ''LIB-B'')],
      requests = []\<rparr>"



definition speed_only :: cheats where
  "speed_only = \<lparr>killaura = False, speed = True, fly = False\<rparr>"

text \<open>The replacement table of the test document for the user Steve.\<close>

definition test_table :: "(string \<times> string) list" where
  "test_table =
     [(''${auth_player_name}'', ''Steve''),
      (''${version_name}'', ''1.0''),
      (''${game_directory}'', ''/n/minecraft''),
      (''${assets_root}'', ''/n/minecraft/assets''),
      (''${assets_index_name}'', ''17''),
      (''${auth_uuid}'', ''5627dd98-e6be-bc21-f8a8-e92344183641''),
      (''${auth_access_token}'', ''0''),
      (''${user_type}'', ''legacy''),
      (''${version_type}'', ''release''),
      (''${user_properties}'', ''{}''),
      (''${quickPlayRealms}'', []),
      (''${quickPlaySingleplayer}'', []),
      (''${quickPlayMultiplayer}'', [])]"

section \<open>Shared lemmas and the evaluation of the fixtures\<close>

lemma bindE_Inr_iff: "bindE m f = Inr y \<longleftrightarrow> (\<exists>x. m = Inr x \<and> f x = Inr y)"
  by (cases m) (simp_all add: bindE_def)

lemma subscript_contains_key:
  assumes "subscript d k = Inr v"
  shows "contains_key k d = Inr True"
proof (cases d)
  case (JObj kvs)
  with assms have "map_of kvs k = Some v"
    by (simp add: subscript_def split: option.splits)
  then have "k \<in> fst ` set kvs"
    by (metis map_of_eq_None_iff option.distinct(1))
  with JObj show ?thesis by (simp add: contains_key_def)
qed (use assms in \<open>simp_all add: subscript_def\<close>)

lemma hash_chunks_all: "hash_chunks rest fed = fed @ rest"
proof (induction rest fed rule: hash_chunks.induct)
  case (1 rest fed)
  show ?case
  proof (cases "take 4096 rest = []")
    case True
    then have "rest = []" by simp
    then show ?thesis by (subst hash_chunks.simps) simp
  next
    case False
    with 1 have "hash_chunks (drop 4096 rest) (fed @ take 4096 rest) =
        (fed @ take 4096 rest) @ drop 4096 rest"
      by simp
    then show ?thesis using False by (subst hash_chunks.simps) (simp add: Let_def)
  qed
qed

lemmas path_defs =
  version_json_path_def version_dir_def VERSIONS_DIR_def MINECRAFT_DIR_def JAVA_DIR_def
  jar_path_def libraries_dir_def natives_dir_def local_java_path_def

lemmas json_defs =
  dict_get_def subscript_def contains_key_def iterate_def truthy_def is_dict_def is_list_def
  is_str_def bindE_def

lemma test_env_fields:
  "platform_system test_env = ''Linux''"
  "platform_architecture test_env = ''64bit''"
  "base_dir test_env = ''/n''"
  "path_join test_env a b = a @ ''/'' @ b"
  "pathsep test_env = '':''"
  "sha1_hexdigest test_env s = (case map_of test_sha1_table s of Some d \<Rightarrow> d | None \<Rightarrow> [])"
  "json_loads test_env = map_of test_documents"
  "url_read test_env = map_of [(VERSION_MANIFEST_URL, ''manifest'')]"
  "zip_members test_env s = None"
  "local_java_major test_env = None"
  "system_java_major test_env = Some 21"
  by (simp_all add: test_env_def)

lemma test_current_os: "current_os test_env = ''linux''"
  by (simp add: current_os_def test_env_fields lower_def lower_char_def)

lemma test_paths:
  "version_json_path test_env ''1.0'' = ''/n/minecraft/versions/1.0/1.0.json''"
  "jar_path test_env ''1.0'' = ''/n/minecraft/versions/1.0/1.0.jar''"
  "libraries_dir test_env = ''/n/minecraft/libraries''"
  "natives_dir test_env ''1.0'' = ''/n/minecraft/versions/1.0/natives''"
  by (simp_all add: path_defs test_env_fields)

lemma verify_file_Regular:
  "files w p = Some (Regular content) \<Longrightarrow>
   verify_file E w p expected = (expected = JStr (sha1_hexdigest E content))"
  by (auto simp: verify_file_def hash_chunks_all)

lemma verify_file_eval:
  "verify_file E w p expected =
     (case files w p of
        None \<Rightarrow> False
      | Some Unreadable \<Rightarrow> False
      | Some (Regular content) \<Rightarrow> JStr (sha1_hexdigest E content) = expected)"
  by (simp add: verify_file_def hash_chunks_all split: option.splits fnode.splits)

lemma test_library_a_allowed: "is_library_allowed test_library_a ''linux'' = Inr True"
  by (simp add: is_library_allowed_def test_library_a_def json_defs)

lemma test_library_b_allowed: "is_library_allowed test_library_b ''linux'' = Inr True"
  by (simp add: is_library_allowed_def test_library_b_def json_defs)

lemma test_library_n_allowed: "is_library_allowed test_library_n ''linux'' = Inr True"
  by (simp add: is_library_allowed_def test_library_n_def json_defs)

lemma test_client_descriptor:
  "client_descriptor (test_version_doc libs) =
     Inr (Some (JStr ''https://m/client.jar'', JStr ''a7a941dea93a9fd0d1a0a8980df11d40b2cf576c''))"
  by (simp add: client_descriptor_def test_version_doc_def json_defs)

lemma test_libraries:
  "bindE (dict_get (test_version_doc libs) ''libraries'' (JArr [])) iterate = Inr libs"
  by (simp add: test_version_doc_def json_defs)

lemma test_truthy: "truthy (test_version_doc libs)"
  by (simp add: test_version_doc_def truthy_def)

lemma test_libraries_get:
  "dict_get (test_version_doc libs) ''libraries'' (JArr []) = Inr (JArr libs)"
  by (simp add: test_version_doc_def dict_get_def)

section \<open>Rule evaluator: the disallow veto\<close>

lemma library_rules_loop_obj_step:
  "library_rules_loop (JObj r # rules) pf allow = Inr False \<or>
   (\<exists>allow'. library_rules_loop (JObj r # rules) pf allow =
      library_rules_loop rules pf allow')"
  by (auto simp: bindE_def dict_get_def contains_key_def Let_def)

lemma os_match_of_disallow:
  assumes "matching_disallow r pf"
  shows "dict_get (JObj r) ''os'' JNull = Inr JNull \<or>
         (\<exists>os_obj. dict_get (JObj r) ''os'' JNull = Inr (JObj os_obj) \<and>
            dict_get (JObj os_obj) ''name'' JNull = Inr (JStr pf))"
proof (cases "map_of r ''os''")
  case None
  then show ?thesis by (simp add: dict_get_def)
next
  case (Some v)
  with assms show ?thesis
    by (cases v) (simp_all add: matching_disallow_def dict_get_def)
qed

lemma library_rules_loop_veto_head:
  assumes "matching_disallow r pf"
  shows "library_rules_loop (JObj r # rules) pf allow = Inr False"
proof -
  from assms have f: "contains_key ''features'' (JObj r) = Inr False"
    by (simp add: matching_disallow_def contains_key_def map_of_eq_None_iff)
  from assms have a: "dict_get (JObj r) ''action'' JNull = Inr (JStr ''disallow'')"
    by (simp add: matching_disallow_def dict_get_def)
  from os_match_of_disallow [OF assms] show ?thesis
    by (auto simp: f a bindE_def is_dict_def)
qed

lemma library_rules_loop_veto:
  "r \<in> set rs \<Longrightarrow> matching_disallow r pf \<Longrightarrow>
   library_rules_loop (map JObj rs) pf allow = Inr False"
proof (induction rs arbitrary: allow)
  case Nil
  then show ?case by simp
next
  case (Cons a rs)
  show ?case
  proof (cases "a = r")
    case True
    with Cons.prems show ?thesis
      using library_rules_loop_veto_head [of r pf "map JObj rs" allow] by simp
  next
    case False
    with Cons.prems have "r \<in> set rs" by simp
    then have ih: "\<And>b. library_rules_loop (map JObj rs) pf b = Inr False"
      using Cons.IH Cons.prems(2) by blast
    from library_rules_loop_obj_step [of a "map JObj rs" pf allow] ih
    show ?thesis by auto
  qed
qed

lemma argument_rules_loop_obj_step:
  "argument_rules_loop (JObj r # rules) pf allow = Inr False \<or>
   (\<exists>allow'. argument_rules_loop (JObj r # rules) pf allow =
      argument_rules_loop rules pf allow')"
  by (auto simp: bindE_def dict_get_def Let_def)

lemma argument_rules_loop_veto_head:
  assumes "matching_disallow r pf"
  shows "argument_rules_loop (JObj r # rules) pf allow = Inr False"
proof -
  from assms have f: "dict_get (JObj r) ''features'' JNull = Inr JNull"
    by (simp add: matching_disallow_def dict_get_def)
  from assms have a: "dict_get (JObj r) ''action'' JNull = Inr (JStr ''disallow'')"
    by (simp add: matching_disallow_def dict_get_def)
  from os_match_of_disallow [OF assms] show ?thesis
    by (auto simp: f a bindE_def is_dict_def)
qed

lemma argument_rules_loop_veto:
  "r \<in> set rs \<Longrightarrow> matching_disallow r pf \<Longrightarrow>
   argument_rules_loop (map JObj rs) pf allow = Inr False"
proof (induction rs arbitrary: allow)
  case Nil
  then show ?case by simp
next
  case (Cons a rs)
  show ?case
  proof (cases "a = r")
    case True
    with Cons.prems show ?thesis
      using argument_rules_loop_veto_head [of r pf "map JObj rs" allow] by simp
  next
    case False
    with Cons.prems have "r \<in> set rs" by simp
    then have ih: "\<And>b. argument_rules_loop (map JObj rs) pf b = Inr False"
      using Cons.IH Cons.prems(2) by blast
    from argument_rules_loop_obj_step [of a "map JObj rs" pf allow] ih
    show ?thesis by auto
  qed
qed

text \<open>
  Claim C2.  For every list of rule objects and every platform name: if the list contains
  a matching disallow rule (no \<^verbatim>\<open>features\<close> member, action \<^verbatim>\<open>"disallow"\<close>, \<^verbatim>\<open>os\<close> absent or
  naming the platform), then \<^verbatim>\<open>evaluate_rules\<close> returns \<^verbatim>\<open>False\<close> on the list and
  \<^verbatim>\<open>is_library_allowed\<close> returns \<^verbatim>\<open>False\<close> on every library entry carrying the list, whatever
  allow rules stand before or after it.
\<close>

theorem disallow_rule_vetoes:
  assumes "r \<in> set rs" and "matching_disallow r pf"
  shows "evaluate_rules (JArr (map JObj rs)) pf = Inr False \<and>
         (\<forall>lib. map_of lib ''rules'' = Some (JArr (map JObj rs)) \<longrightarrow>
            is_library_allowed (JObj lib) pf = Inr False)"
proof
  from assms(1) have ne: "rs \<noteq> []" by auto
  from argument_rules_loop_veto [OF assms]
  show "evaluate_rules (JArr (map JObj rs)) pf = Inr False"
    by (simp add: evaluate_rules_def is_list_def truthy_def ne iterate_def bindE_def)
next
  show "\<forall>lib. map_of lib ''rules'' = Some (JArr (map JObj rs)) \<longrightarrow>
          is_library_allowed (JObj lib) pf = Inr False"
  proof (intro allI impI)
    fix lib :: "(string \<times> json) list"
    assume m: "map_of lib ''rules'' = Some (JArr (map JObj rs))"
    then have k: "''rules'' \<in> set (map fst lib)"
      by (metis map_of_eq_None_iff option.distinct(1) set_map)
    from library_rules_loop_veto [OF assms]
    show "is_library_allowed (JObj lib) pf = Inr False"
      using m k by (simp add: is_library_allowed_def contains_key_def subscript_def
          iterate_def bindE_def)
  qed
qed

theorem disallow_rule_vetoes_witness:
  "evaluate_rules
     (JArr [JObj [(''action'', JStr ''allow'')],
            JObj [(''action'', JStr ''disallow''), (''os'', JObj [(''name'', JStr ''linux'')])],
            JObj [(''action'', JStr ''allow''), (''os'', JObj [(''name'', JStr ''linux'')])]])
     ''linux'' = Inr False \<and>
   is_library_allowed
     (JObj [(''name'', JStr ''org.lwjgl:lwjgl:3.3.1''),
            (''rules'',
             JArr [JObj [(''action'', JStr ''allow'')],
                   JObj [(''action'', JStr ''disallow''), (''os'', JObj [(''name'', JStr ''linux'')])],
                   JObj [(''action'', JStr ''allow''), (''os'', JObj [(''name'', JStr ''linux'')])]])])
     ''linux'' = Inr False"
  using disallow_rule_vetoes
    [of "[(''action'', JStr ''disallow''), (''os'', JObj [(''name'', JStr ''linux'')])]"
        "[[(''action'', JStr ''allow'')],
          [(''action'', JStr ''disallow''), (''os'', JObj [(''name'', JStr ''linux'')])],
          [(''action'', JStr ''allow''), (''os'', JObj [(''name'', JStr ''linux'')])]]"
        "''linux''"]
  by (simp add: matching_disallow_def)

section \<open>Rule evaluator: empty and absent rule lists\<close>

text \<open>
  Claim C3, as the code has it by design.  A library entry without a \<^verbatim>\<open>rules\<close> member is
  applicable on every platform.  \<^verbatim>\<open>evaluate_rules\<close> answers \<^verbatim>\<open>True\<close> for the empty list and
  for every value that is not a list, so an argument object with a \<^verbatim>\<open>rules\<close> and a
  \<^verbatim>\<open>value\<close> member whose rules are the empty list or no list (null) contributes its value.
  An argument object without a \<^verbatim>\<open>rules\<close> member is not taken as a conditional entry and
  contributes nothing.
\<close>

theorem absent_rule_list_evaluation:
  "(''rules'' \<notin> set (map fst lib) \<longrightarrow> is_library_allowed (JObj lib) pf = Inr True) \<and>
   evaluate_rules (JArr []) pf = Inr True \<and>
   (\<not> is_list rules \<longrightarrow> evaluate_rules rules pf = Inr True) \<and>
   (map_of kvs ''rules'' = Some rules \<and> (rules = JArr [] \<or> \<not> is_list rules) \<and>
    map_of kvs ''value'' = Some v
    \<longrightarrow> expand_argument (JObj kvs) pf = Inr (case v of JArr xs \<Rightarrow> xs | _ \<Rightarrow> [v])) \<and>
   (''rules'' \<notin> set (map fst kvs) \<longrightarrow> expand_argument (JObj kvs) pf = Inr [])"
proof (intro conjI impI)
  assume "''rules'' \<notin> set (map fst lib)"
  then show "is_library_allowed (JObj lib) pf = Inr True"
    by (simp add: is_library_allowed_def contains_key_def bindE_def)
next
  show "evaluate_rules (JArr []) pf = Inr True"
    by (simp add: evaluate_rules_def truthy_def)
next
  assume "\<not> is_list rules"
  then show "evaluate_rules rules pf = Inr True"
    by (simp add: evaluate_rules_def)
next
  assume a: "map_of kvs ''rules'' = Some rules \<and> (rules = JArr [] \<or> \<not> is_list rules) \<and>
    map_of kvs ''value'' = Some v"
  then have ev: "evaluate_rules rules pf = Inr True"
    by (auto simp: evaluate_rules_def truthy_def)
  from a have kr: "''rules'' \<in> set (map fst kvs)"
    by (metis map_of_eq_None_iff option.distinct(1) set_map)
  from a have kv: "''value'' \<in> set (map fst kvs)"
    by (metis map_of_eq_None_iff option.distinct(1) set_map)
  from a ev kr kv show "expand_argument (JObj kvs) pf = Inr (case v of JArr xs \<Rightarrow> xs | _ \<Rightarrow> [v])"
    by (cases v) (simp_all add: expand_argument_def is_str_def is_dict_def contains_key_def
        subscript_def bindE_def)
next
  assume "''rules'' \<notin> set (map fst kvs)"
  then show "expand_argument (JObj kvs) pf = Inr []"
    by (simp add: expand_argument_def is_str_def is_dict_def contains_key_def)
qed

theorem absent_rule_list_evaluation_witness:
  "is_library_allowed (JObj [(''name'', JStr ''com.example:a:1.0'')]) ''linux'' = Inr True \<and>
   evaluate_rules (JArr []) ''linux'' = Inr True \<and>
   evaluate_rules JNull ''linux'' = Inr True \<and>
   expand_argument (JObj [(''rules'', JArr []), (''value'', JStr ''--demo'')]) ''linux''
     = Inr [JStr ''--demo''] \<and>
   expand_argument (JObj [(''value'', JStr ''--demo'')]) ''linux'' = Inr []"
  using absent_rule_list_evaluation
    [where lib = "[(''name'', JStr ''com.example:a:1.0'')]" and pf = "''linux''"
       and rules = JNull and kvs = "[(''value'', JStr ''--demo'')]"]
    absent_rule_list_evaluation
    [where pf = "''linux''" and rules = "JArr []"
       and kvs = "[(''rules'', JArr []), (''value'', JStr ''--demo'')]"
       and v = "JStr ''--demo''"]
  by (simp add: is_list_def)

text \<open>
  The claim as stated fails in both uses: a library entry whose \<^verbatim>\<open>rules\<close> member is the
  empty list is not applicable (the loop body never runs and the initial \<^verbatim>\<open>allow = False\<close>
  is returned), and an argument object that has a value but no \<^verbatim>\<open>rules\<close> member is left
  out of the expanded argument list.
\<close>

theorem empty_or_missing_rules_counterexample:
  "is_library_allowed (JObj [(''name'', JStr ''com.example:a:1.0''), (''rules'', JArr [])]) ''linux''
     = Inr False \<and>
   expand_arguments [JStr ''--fullscreen'', JObj [(''value'', JStr ''--demo'')]] ''linux''
     = Inr [JStr ''--fullscreen'']"
  by (simp add: is_library_allowed_def contains_key_def subscript_def iterate_def bindE_def
      expand_argument_def is_str_def is_dict_def)

section \<open>Content verifier: the comparison is exact\<close>

text \<open>
  Claim C4, as the code has it.  \<^verbatim>\<open>verify_file\<close> returns \<^verbatim>\<open>False\<close> when nothing exists at the
  path or the path cannot be opened; otherwise it returns \<^verbatim>\<open>True\<close> exactly when the expected
  digest is the string that \<^verbatim>\<open>hexdigest()\<close> gives for the whole content of the file (the
  chunked reads feed the hash every byte, in order).  The comparison is \<^verbatim>\<open>==\<close> on the two
  strings: nothing is changed to lower case.
\<close>

theorem verify_file_exact_digest:
  "verify_file E w p expected =
     (case files w p of
        None \<Rightarrow> False
      | Some Unreadable \<Rightarrow> False
      | Some (Regular content) \<Rightarrow> expected = JStr (sha1_hexdigest E content))"
  by (auto simp: verify_file_def hash_chunks_all split: option.splits fnode.splits)

theorem verify_file_exact_digest_witness:
  "verify_file test_env cached_world ''/n/minecraft/versions/1.0/1.0.jar''
     (JStr ''a7a941dea93a9fd0d1a0a8980df11d40b2cf576c'') = True \<and>
   verify_file test_env cached_world ''/n/minecraft/versions/1.0/1.0.jar''
     (JStr ''da39a3ee5e6b4b0d3255bfef95601890afd80709'') = False \<and>
   verify_file test_env cached_world ''/n/minecraft/versions/2.0/2.0.jar''
     (JStr ''a7a941dea93a9fd0d1a0a8980df11d40b2cf576c'') = False"
  using verify_file_exact_digest [of test_env cached_world "''/n/minecraft/versions/1.0/1.0.jar''"
      "JStr ''a7a941dea93a9fd0d1a0a8980df11d40b2cf576c''"]
    verify_file_exact_digest [of test_env cached_world "''/n/minecraft/versions/1.0/1.0.jar''"
      "JStr ''da39a3ee5e6b4b0d3255bfef95601890afd80709''"]
    verify_file_exact_digest [of test_env cached_world "''/n/minecraft/versions/2.0/2.0.jar''"
      "JStr ''a7a941dea93a9fd0d1a0a8980df11d40b2cf576c''"]
  by (simp add: cached_world_def test_env_def test_sha1_table_def)

text \<open>
  The claim as stated fails on an expected digest written in upper case: the empty file has
  the SHA-1 digest \<^verbatim>\<open>da39a3ee5e6b4b0d3255bfef95601890afd80709\<close>, the expected value is the
  same digest in upper case (equal after both are put in lower case), and the file does not
  verify.
\<close>

theorem verify_file_uppercase_counterexample:
  "files empty_file_world ''/n/empty'' = Some (Regular []) \<and>
   sha1_hexdigest test_env [] = ''da39a3ee5e6b4b0d3255bfef95601890afd80709'' \<and>
   lower (sha1_hexdigest test_env []) = lower ''DA39A3EE5E6B4B0D3255BFEF95601890AFD80709'' \<and>
   verify_file test_env empty_file_world ''/n/empty''
     (JStr ''DA39A3EE5E6B4B0D3255BFEF95601890AFD80709'') = False"
proof -
  have f: "files empty_file_world ''/n/empty'' = Some (Regular [])"
    by (simp add: empty_file_world_def)
  have d: "sha1_hexdigest test_env [] = ''da39a3ee5e6b4b0d3255bfef95601890afd80709''"
    by (simp add: test_env_def test_sha1_table_def)
  have l: "lower ''DA39A3EE5E6B4B0D3255BFEF95601890AFD80709''
      = ''da39a3ee5e6b4b0d3255bfef95601890afd80709''"
    by (simp add: lower_def lower_char_def)
  have l': "lower ''da39a3ee5e6b4b0d3255bfef95601890afd80709''
      = ''da39a3ee5e6b4b0d3255bfef95601890afd80709''"
    by (simp add: lower_def lower_char_def)
  have v: "verify_file test_env empty_file_world ''/n/empty''
     (JStr ''DA39A3EE5E6B4B0D3255BFEF95601890AFD80709'') = False"
    by (simp add: verify_file_Regular [OF f] d)
  from f d l l' v show ?thesis by simp
qed

section \<open>Self-repair of the version metadata is bounded\<close>

lemma load_version_json_absent:
  assumes "\<not> path_exists w (version_json_path E version_id)"
  shows "load_version_json E version_id version_url w =
     (let w1 = w\<lparr>requests := requests w @ [version_url]\<rparr> in
      case url_read E version_url of
        None \<Rightarrow> (Failed, w1)
      | Some body \<Rightarrow>
          (case json_loads E body of
             None \<Rightarrow> (Failed, w1)
           | Some data \<Rightarrow>
               (Loaded data,
                w1\<lparr>files := (files w1)(version_json_path E version_id \<mapsto>
                       Regular (json_dumps E data))\<rparr>)))"
proof -
  from assms have "files w (version_json_path E version_id) = None"
    by (simp add: path_exists_def)
  with assms show ?thesis
    by (simp add: load_version_json_def Let_def write_file_def split: option.splits)
qed

lemma load_version_json_absent_no_retry:
  assumes "\<not> path_exists w (version_json_path E version_id)"
  shows "fst (load_version_json E version_id version_url w) \<noteq> Retry"
  by (simp add: load_version_json_absent [OF assms] Let_def split: option.splits)

lemma load_version_json_retry:
  assumes "load_version_json E version_id version_url w = (Retry, w1)"
  shows "\<not> path_exists w1 (version_json_path E version_id)"
proof (cases "path_exists w (version_json_path E version_id)")
  case False
  with assms load_version_json_absent_no_retry [OF False, of version_url]
  show ?thesis by simp
next
  case True
  with assms show ?thesis
    by (auto simp: load_version_json_def Let_def os_remove_def path_exists_def
        split: option.splits fnode.splits sum.splits if_splits)
qed

lemma download_version_files_absent:
  assumes "\<not> path_exists w (version_json_path E version_id)"
  shows "download_version_files E version_id version_url w =
     (let w1 = w\<lparr>requests := requests w @ [version_url]\<rparr> in
      case url_read E version_url of
        None \<Rightarrow> Some (Inr False, w1)
      | Some body \<Rightarrow>
          (case json_loads E body of
             None \<Rightarrow> Some (Inr False, w1)
           | Some data \<Rightarrow>
               Some (acquire_artifacts E version_id data
                 (w1\<lparr>files := (files w1)(version_json_path E version_id \<mapsto>
                        Regular (json_dumps E data))\<rparr>))))"
  by (subst download_version_files.simps)
    (simp add: load_version_json_absent [OF assms] Let_def split: option.splits)

lemma download_version_files_absent_returns:
  assumes "\<not> path_exists w (version_json_path E version_id)"
  shows "\<exists>r. download_version_files E version_id version_url w = Some r"
  by (simp add: download_version_files_absent [OF assms] Let_def split: option.splits)

lemma download_version_files_returns:
  "\<exists>r. download_version_files E version_id version_url w = Some r"
proof (cases "load_version_json E version_id version_url w")
  case (Pair outcome w1)
  show ?thesis
  proof (cases outcome)
    case (Loaded version_data)
    with Pair show ?thesis by (subst download_version_files.simps) simp
  next
    case Failed
    with Pair show ?thesis by (subst download_version_files.simps) simp
  next
    case Retry
    with Pair have "\<not> path_exists w1 (version_json_path E version_id)"
      using load_version_json_retry by blast
    from download_version_files_absent_returns [OF this, of version_url]
    obtain r where "download_version_files E version_id version_url w1 = Some r" by blast
    then show ?thesis using Pair Retry by (subst download_version_files.simps) simp
  qed
qed

lemma load_version_json_unparsable:
  assumes "files w (version_json_path E version_id) = Some (Regular content)"
    and "json_loads E content = None"
  shows "load_version_json E version_id version_url w =
     (Retry, w\<lparr>files := (files w)(version_json_path E version_id := None)\<rparr>)"
  using assms by (simp add: load_version_json_def Let_def path_exists_def os_remove_def)

text \<open>
  Claim C9.  \<^verbatim>\<open>download_version_files\<close> returns for every environment and every state of
  the local files and the remote side.  When the local metadata document is a readable file
  that does not parse, the document is removed and the remote URL is requested once: the
  run is the run on the state without the document (with an exception of that run turned
  into \<^verbatim>\<open>False\<close>), and a remote document that cannot be fetched or parsed ends it with
  \<^verbatim>\<open>False\<close>, the request log extended by that one request.
\<close>

theorem metadata_self_repair_bounded:
  "(\<exists>r. download_version_files E version_id version_url w = Some r) \<and>
   (files w (version_json_path E version_id) = Some (Regular content) \<and>
    json_loads E content = None \<longrightarrow>
      download_version_files E version_id version_url w =
        (let w1 = w\<lparr>files := (files w)(version_json_path E version_id := None),
                      requests := requests w @ [version_url]\<rparr> in
         case url_read E version_url of
           None \<Rightarrow> Some (Inr False, w1)
         | Some body \<Rightarrow>
             (case json_loads E body of
                None \<Rightarrow> Some (Inr False, w1)
              | Some data \<Rightarrow>
                  Some (caught (acquire_artifacts E version_id data
                    (w1\<lparr>files := (files w1)(version_json_path E version_id \<mapsto>
                           Regular (json_dumps E data))\<rparr>))))))"
proof (intro conjI impI)
  show "\<exists>r. download_version_files E version_id version_url w = Some r"
    by (rule download_version_files_returns)
next
  assume a: "files w (version_json_path E version_id) = Some (Regular content) \<and>
    json_loads E content = None"
  let ?p = "version_json_path E version_id"
  let ?w = "w\<lparr>files := (files w)(?p := None)\<rparr>"
  have step: "download_version_files E version_id version_url w =
      Option.bind (download_version_files E version_id version_url ?w) (\<lambda>r. Some (caught r))"
    using a by (subst download_version_files.simps)
      (simp add: load_version_json_unparsable [of w E version_id content])
  have absent: "\<not> path_exists ?w ?p" by (simp add: path_exists_def)
  show "download_version_files E version_id version_url w =
        (let w1 = w\<lparr>files := (files w)(?p := None),
                      requests := requests w @ [version_url]\<rparr> in
         case url_read E version_url of
           None \<Rightarrow> Some (Inr False, w1)
         | Some body \<Rightarrow>
             (case json_loads E body of
                None \<Rightarrow> Some (Inr False, w1)
              | Some data \<Rightarrow>
                  Some (caught (acquire_artifacts E version_id data
                    (w1\<lparr>files := (files w1)(?p \<mapsto> Regular (json_dumps E data))\<rparr>)))))"
    unfolding step download_version_files_absent [OF absent]
    by (simp add: Let_def caught_def split: option.splits)
qed

theorem metadata_self_repair_bounded_witness:
  "(\<exists>r. download_version_files broken_remote_env ''1.0'' ''https://m/1.0.json'' broken_world
        = Some r) \<and>
   download_version_files broken_remote_env ''1.0'' ''https://m/1.0.json'' broken_world =
     Some (Inr False,
       broken_world\<lparr>files := (files broken_world)(''/n/minecraft/versions/1.0/1.0.json'' := None),
                    requests := requests broken_world @ [''https://m/1.0.json'']\<rparr>)"
proof -
  have p: "version_json_path broken_remote_env ''1.0'' = ''/n/minecraft/versions/1.0/1.0.json''"
    by (simp add: path_defs broken_remote_env_def test_env_def)
  have f: "files broken_world ''/n/minecraft/versions/1.0/1.0.json''
      = Some (Regular ''{ not json'')"
    by (simp add: broken_world_def)
  have j: "json_loads broken_remote_env ''{ not json'' = None"
    by (simp add: broken_remote_env_def test_env_def test_documents_def)
  have u: "url_read broken_remote_env ''https://m/1.0.json'' = Some ''<html>''"
    by (simp add: broken_remote_env_def)
  have j': "json_loads broken_remote_env ''<html>'' = None"
    by (simp add: broken_remote_env_def test_env_def test_documents_def)
  from metadata_self_repair_bounded
    [of broken_remote_env "''1.0''" "''https://m/1.0.json''" broken_world "''{ not json''"]
  show ?thesis
    by (simp add: f j u j' p Let_def)
qed

section \<open>Manifest classification\<close>

lemma category_of_id:
  "category_of lr ls v = Inr c \<Longrightarrow> \<exists>vid. subscript v ''id'' = Inr vid \<and> entry_id v = vid"
  by (auto simp: category_of_def bindE_Inr_iff entry_id_def)

text \<open>The chain of the loop body, read off the identifier and the type of the entry.\<close>

lemma category_of_chain:
  assumes "category_of lr ls v = Inr co"
  obtains vid where "subscript v ''id'' = Inr vid"
    and "co = (if py_eq vid lr then Some LatestRelease
               else if py_eq vid ls then Some LatestSnapshot
               else if subscript v ''type'' = Inr (JStr ''release'') then Some Release
               else if subscript v ''type'' = Inr (JStr ''snapshot'') then Some Snapshot
               else if subscript v ''type'' = Inr (JStr ''old_beta'') then Some OldBeta
               else if subscript v ''type'' = Inr (JStr ''old_alpha'') then Some OldAlpha
               else None)"
proof -
  from assms obtain vid where i: "subscript v ''id'' = Inr vid"
    and r: "(if py_eq vid lr then Inr (Some LatestRelease)
             else if py_eq vid ls then Inr (Some LatestSnapshot)
             else
               bindE (subscript v ''type'') (\<lambda>t.
                 if t = JStr ''release'' then Inr (Some Release)
                 else if t = JStr ''snapshot'' then Inr (Some Snapshot)
                 else if t = JStr ''old_beta'' then Inr (Some OldBeta)
                 else if t = JStr ''old_alpha'' then Inr (Some OldAlpha)
                 else Inr None)) = Inr co"
    unfolding category_of_def bindE_Inr_iff by blast
  show thesis
  proof (cases "py_eq vid lr \<or> py_eq vid ls")
    case True
    with r have "co = (if py_eq vid lr then Some LatestRelease else Some LatestSnapshot)"
      by (auto split: if_splits)
    with True i that show thesis by auto
  next
    case False
    with r obtain t where t: "subscript v ''type'' = Inr t"
      and c: "(if t = JStr ''release'' then Inr (Some Release)
               else if t = JStr ''snapshot'' then Inr (Some Snapshot)
               else if t = JStr ''old_beta'' then Inr (Some OldBeta)
               else if t = JStr ''old_alpha'' then Inr (Some OldAlpha)
               else Inr None) = (Inr co :: error + category option)"
      by (auto simp: bindE_Inr_iff)
    from c have "co = (if t = JStr ''release'' then Some Release
               else if t = JStr ''snapshot'' then Some Snapshot
               else if t = JStr ''old_beta'' then Some OldBeta
               else if t = JStr ''old_alpha'' then Some OldAlpha
               else None)"
      by (auto split: if_splits)
    with False t i that show thesis by auto
  qed
qed

lemma classify_loop_categories:
  "classify_loop lr ls vs st = Inr st' \<Longrightarrow>
   version_categories st' c = version_categories st c @ ids_for lr ls c vs"
proof (induction vs arbitrary: st)
  case Nil
  then show ?case by (simp add: ids_for_def)
next
  case (Cons v vs)
  from Cons.prems obtain url vid co where
    u: "subscript v ''url'' = Inr url" and i: "subscript v ''id'' = Inr vid"
    and h: "hashable vid" and co: "category_of lr ls v = Inr co"
    and rest: "classify_loop lr ls vs
        (case co of None \<Rightarrow> st\<lparr>versions := dict_store (versions st) vid url\<rparr>
         | Some c' \<Rightarrow> append_category c' vid (st\<lparr>versions := dict_store (versions st) vid url\<rparr>))
       = Inr st'"
    by (auto simp: bindE_Inr_iff Let_def split: if_splits)
  have eid: "entry_id v = vid" using i by (simp add: entry_id_def)
  show ?case
  proof (cases co)
    case None
    with Cons.IH [OF rest] co show ?thesis by (simp add: ids_for_def)
  next
    case (Some c')
    with Cons.IH [OF rest] co eid show ?thesis
      by (simp add: ids_for_def append_category_def)
  qed
qed

text \<open>A loop that ends has taken every entry through the chain.\<close>

lemma classify_loop_entries:
  "classify_loop lr ls vs st = Inr st' \<Longrightarrow> v \<in> set vs \<Longrightarrow> \<exists>co. category_of lr ls v = Inr co"
proof (induction vs arbitrary: st)
  case Nil
  then show ?case by simp
next
  case (Cons a vs)
  from Cons.prems(1) obtain url vid co where
    co: "category_of lr ls a = Inr co"
    and rest: "classify_loop lr ls vs
        (case co of None \<Rightarrow> st\<lparr>versions := dict_store (versions st) vid url\<rparr>
         | Some c' \<Rightarrow> append_category c' vid (st\<lparr>versions := dict_store (versions st) vid url\<rparr>))
       = Inr st'"
    by (auto simp: bindE_Inr_iff Let_def split: if_splits)
  show ?case
  proof (cases "v = a")
    case True
    with co show ?thesis by blast
  next
    case False
    with Cons.prems(2) have "v \<in> set vs" by simp
    from Cons.IH [OF rest this] show ?thesis .
  qed
qed

lemma mset_insert_desc: "mset (insert_desc x ys) = add_mset x (mset ys)"
  by (induction ys) auto

lemma mset_foldr_insert_desc: "mset (foldr insert_desc xs []) = mset xs"
  by (induction xs) (auto simp: mset_insert_desc)

lemma sort_reverse_mset: "sort_reverse xs = Inr ys \<Longrightarrow> mset ys = mset xs"
  by (auto simp: sort_reverse_def mset_foldr_insert_desc split: if_splits)

lemma sort_categories_mset:
  "sort_categories cs st = Inr st' \<Longrightarrow>
   mset (version_categories st' c) = mset (version_categories st c) \<and>
   (c = LatestRelease \<or> c = LatestSnapshot \<longrightarrow> version_categories st' c = version_categories st c)"
proof (induction cs arbitrary: st)
  case Nil
  then show ?case by simp
next
  case (Cons a cs)
  show ?case
  proof (cases "a \<noteq> LatestRelease \<and> a \<noteq> LatestSnapshot")
    case True
    with Cons.prems obtain sorted where
      s: "sort_reverse (version_categories st a) = Inr sorted"
      and rest: "sort_categories cs
          (st\<lparr>version_categories := (version_categories st)(a := sorted)\<rparr>) = Inr st'"
      by (auto simp: bindE_Inr_iff)
    from Cons.IH [OF rest] sort_reverse_mset [OF s] True show ?thesis by auto
  next
    case False
    with Cons.prems have "sort_categories cs st = Inr st'" by auto
    from Cons.IH [OF this] show ?thesis .
  qed
qed

lemma load_version_manifest_loops:
  assumes "url_read E VERSION_MANIFEST_URL = Some body"
    and "json_loads E body = Some manifest"
    and "manifest_fields manifest = Inr (lr, ls, entries)"
    and "load_version_manifest E st0 = Inr st"
  obtains st1 where
    "classify_loop lr ls entries (st0\<lparr>versions := [], version_categories := (\<lambda>c. [])\<rparr>) = Inr st1"
    and "sort_categories [LatestRelease, LatestSnapshot, Release, Snapshot, OldBeta, OldAlpha] st1
       = Inr st"
proof -
  from assms(3) obtain latest vs where
    f: "subscript manifest ''latest'' = Inr latest" "subscript latest ''release'' = Inr lr"
       "subscript latest ''snapshot'' = Inr ls" "subscript manifest ''versions'' = Inr vs"
       "iterate vs = Inr entries"
    by (auto simp: manifest_fields_def bindE_Inr_iff)
  from assms(1,2,4) f that show thesis
    by (auto simp: load_version_manifest_def Let_def bindE_Inr_iff)
qed

lemma load_version_manifest_categories:
  assumes "url_read E VERSION_MANIFEST_URL = Some body"
    and "json_loads E body = Some manifest"
    and "manifest_fields manifest = Inr (lr, ls, entries)"
    and "load_version_manifest E st0 = Inr st"
  shows "mset (version_categories st c) = mset (ids_for lr ls c entries)"
    and "c = LatestRelease \<or> c = LatestSnapshot \<Longrightarrow>
         version_categories st c = ids_for lr ls c entries"
proof -
  from load_version_manifest_loops [OF assms] obtain st1 where
    c: "classify_loop lr ls entries (st0\<lparr>versions := [], version_categories := (\<lambda>c. [])\<rparr>) = Inr st1"
    and s: "sort_categories [LatestRelease, LatestSnapshot, Release, Snapshot, OldBeta, OldAlpha] st1
       = Inr st"
    by blast
  from classify_loop_categories [OF c, of c]
  have "version_categories st1 c = ids_for lr ls c entries" by simp
  with sort_categories_mset [OF s, of c]
  show "mset (version_categories st c) = mset (ids_for lr ls c entries)"
    and "c = LatestRelease \<or> c = LatestSnapshot \<Longrightarrow>
         version_categories st c = ids_for lr ls c entries"
    by auto
qed

lemma ids_for_not_latest_release:
  assumes "x \<in> set (ids_for lr ls c entries)" and "c \<noteq> LatestRelease"
  shows "\<not> py_eq x lr"
proof -
  from assms(1) obtain v where v: "category_of lr ls v = Inr (Some c)" and x: "x = entry_id v"
    by (auto simp: ids_for_def)
  from category_of_id [OF v] x have i: "subscript v ''id'' = Inr x" by auto
  show ?thesis
  proof
    assume "py_eq x lr"
    with i have "category_of lr ls v = Inr (Some LatestRelease)"
      by (simp add: category_of_def bindE_def)
    with v assms(2) show False by simp
  qed
qed

lemma ids_for_member_distinct:
  assumes "distinct (map entry_id entries)" and "v \<in> set entries"
  shows "entry_id v \<in> set (ids_for lr ls c entries) \<longleftrightarrow> category_of lr ls v = Inr (Some c)"
proof
  assume "entry_id v \<in> set (ids_for lr ls c entries)"
  then obtain v' where v': "v' \<in> set entries" "category_of lr ls v' = Inr (Some c)"
    "entry_id v' = entry_id v"
    by (auto simp: ids_for_def)
  from assms(1) have "inj_on entry_id (set entries)" by (simp add: distinct_map)
  with v' assms(2) have "v' = v" by (auto dest: inj_onD)
  with v' show "category_of lr ls v = Inr (Some c)" by simp
next
  assume "category_of lr ls v = Inr (Some c)"
  with assms(2) show "entry_id v \<in> set (ids_for lr ls c entries)"
    by (auto simp: ids_for_def)
qed

text \<open>
  Claim C5, as the code has it.  After a successful load, with the two latest identifiers
  and the entries read from the manifest: (1) every entry has an identifier and is sent by
  the chain of the loop body to at most one category, by the first test that holds: Latest
  Release when the identifier equals \<^verbatim>\<open>latest.release\<close>, else Latest Snapshot when it equals
  \<^verbatim>\<open>latest.snapshot\<close>, else Release, Snapshot, Old Beta or Old Alpha when the type is
  \<^verbatim>\<open>release\<close>, \<^verbatim>\<open>snapshot\<close>, \<^verbatim>\<open>old_beta\<close> or \<^verbatim>\<open>old_alpha\<close>, and to none otherwise; when the
  listed identifiers are pairwise distinct, the identifier is in a category list exactly when
  the entry is sent to that category, so it is in one list or, when it equals neither latest
  identifier and the type is none of the four, in no list, and never in two; (2) every
  category list holds exactly the identifiers of the entries sent to it, once per entry;
  (3) no list but Latest Release holds an identifier equal to \<^verbatim>\<open>latest.release\<close>.
\<close>

theorem manifest_classification:
  assumes "url_read E VERSION_MANIFEST_URL = Some body"
    and "json_loads E body = Some manifest"
    and "manifest_fields manifest = Inr (lr, ls, entries)"
    and "load_version_manifest E st0 = Inr st"
  shows "(\<forall>v \<in> set entries. \<exists>vid co.
            subscript v ''id'' = Inr vid \<and>
            co = (if py_eq vid lr then Some LatestRelease
                  else if py_eq vid ls then Some LatestSnapshot
                  else if subscript v ''type'' = Inr (JStr ''release'') then Some Release
                  else if subscript v ''type'' = Inr (JStr ''snapshot'') then Some Snapshot
                  else if subscript v ''type'' = Inr (JStr ''old_beta'') then Some OldBeta
                  else if subscript v ''type'' = Inr (JStr ''old_alpha'') then Some OldAlpha
                  else None) \<and>
            category_of lr ls v = Inr co \<and>
            (distinct (map entry_id entries) \<longrightarrow>
               (\<forall>c. vid \<in> set (version_categories st c) \<longleftrightarrow> co = Some c))) \<and>
         (\<forall>c. mset (version_categories st c) = mset (ids_for lr ls c entries)) \<and>
         (\<forall>c. c \<noteq> LatestRelease \<longrightarrow> (\<forall>x \<in> set (version_categories st c). \<not> py_eq x lr))"
proof -
  have m: "\<And>c. mset (version_categories st c) = mset (ids_for lr ls c entries)"
    by (rule load_version_manifest_categories(1) [OF assms])
  then have s: "\<And>c. set (version_categories st c) = set (ids_for lr ls c entries)"
    by (metis set_mset_mset)
  from load_version_manifest_loops [OF assms] obtain st1 where
    cl: "classify_loop lr ls entries (st0\<lparr>versions := [], version_categories := (\<lambda>c. [])\<rparr>) = Inr st1"
    by blast
  have e: "\<forall>v \<in> set entries. \<exists>vid co.
            subscript v ''id'' = Inr vid \<and>
            co = (if py_eq vid lr then Some LatestRelease
                  else if py_eq vid ls then Some LatestSnapshot
                  else if subscript v ''type'' = Inr (JStr ''release'') then Some Release
                  else if subscript v ''type'' = Inr (JStr ''snapshot'') then Some Snapshot
                  else if subscript v ''type'' = Inr (JStr ''old_beta'') then Some OldBeta
                  else if subscript v ''type'' = Inr (JStr ''old_alpha'') then Some OldAlpha
                  else None) \<and>
            category_of lr ls v = Inr co \<and>
            (distinct (map entry_id entries) \<longrightarrow>
               (\<forall>c. vid \<in> set (version_categories st c) \<longleftrightarrow> co = Some c))"
  proof
    fix v
    assume v: "v \<in> set entries"
    from classify_loop_entries [OF cl v] obtain co where co: "category_of lr ls v = Inr co"
      by blast
    from co obtain vid where i: "subscript v ''id'' = Inr vid"
      and ch: "co = (if py_eq vid lr then Some LatestRelease
                  else if py_eq vid ls then Some LatestSnapshot
                  else if subscript v ''type'' = Inr (JStr ''release'') then Some Release
                  else if subscript v ''type'' = Inr (JStr ''snapshot'') then Some Snapshot
                  else if subscript v ''type'' = Inr (JStr ''old_beta'') then Some OldBeta
                  else if subscript v ''type'' = Inr (JStr ''old_alpha'') then Some OldAlpha
                  else None)"
      by (rule category_of_chain)
    from i have eid: "entry_id v = vid" by (simp add: entry_id_def)
    have d: "distinct (map entry_id entries) \<longrightarrow>
               (\<forall>c. vid \<in> set (version_categories st c) \<longleftrightarrow> co = Some c)"
    proof (intro impI allI)
      fix c
      assume "distinct (map entry_id entries)"
      from ids_for_member_distinct [OF this v, of lr ls c] eid co
      show "vid \<in> set (version_categories st c) \<longleftrightarrow> co = Some c"
        by (simp add: s)
    qed
    from i ch co d show "\<exists>vid co.
            subscript v ''id'' = Inr vid \<and>
            co = (if py_eq vid lr then Some LatestRelease
                  else if py_eq vid ls then Some LatestSnapshot
                  else if subscript v ''type'' = Inr (JStr ''release'') then Some Release
                  else if subscript v ''type'' = Inr (JStr ''snapshot'') then Some Snapshot
                  else if subscript v ''type'' = Inr (JStr ''old_beta'') then Some OldBeta
                  else if subscript v ''type'' = Inr (JStr ''old_alpha'') then Some OldAlpha
                  else None) \<and>
            category_of lr ls v = Inr co \<and>
            (distinct (map entry_id entries) \<longrightarrow>
               (\<forall>c. vid \<in> set (version_categories st c) \<longleftrightarrow> co = Some c))"
      by (intro exI conjI)
  qed
  have l: "\<forall>c. c \<noteq> LatestRelease \<longrightarrow> (\<forall>x \<in> set (version_categories st c). \<not> py_eq x lr)"
    using ids_for_not_latest_release [of _ lr ls _ entries] by (simp add: s)
  from e m l show ?thesis by (simp only: simp_thms)
qed

theorem manifest_classification_witness:
  "load_version_manifest test_env initial_state = Inr test_loaded \<and>
   mset (version_categories test_loaded LatestRelease) = mset [JStr ''1.21''] \<and>
   mset (version_categories test_loaded Release) = mset [JStr ''1.20''] \<and>
   \<not> py_eq (JStr ''1.20'') (JStr ''1.21'') \<and>
   JStr ''1.21'' \<in> set (version_categories test_loaded LatestRelease) \<and>
   JStr ''1.21'' \<notin> set (version_categories test_loaded Release) \<and>
   JStr ''b1.8'' \<in> set (version_categories test_loaded OldBeta) \<and>
   JStr ''b1.8'' \<notin> set (version_categories test_loaded Release) \<and>
   (\<forall>c. JStr ''x1'' \<notin> set (version_categories test_loaded c))"
proof -
  let ?latest = "JObj [(''id'', JStr ''1.21''), (''type'', JStr ''release''), (''url'', JStr ''u2'')]"
  let ?beta = "JObj [(''id'', JStr ''b1.8''), (''type'', JStr ''old_beta''), (''url'', JStr ''u4'')]"
  let ?pending = "JObj [(''id'', JStr ''x1''), (''type'', JStr ''pending''), (''url'', JStr ''u5'')]"
  let ?entries =
    "[JObj [(''id'', JStr ''24w14a''), (''type'', JStr ''snapshot''), (''url'', JStr ''u1'')],
      ?latest,
      JObj [(''id'', JStr ''1.20''), (''type'', JStr ''release''), (''url'', JStr ''u3'')],
      ?beta,
      ?pending]"
  have h1: "url_read test_env VERSION_MANIFEST_URL = Some ''manifest''"
    by (simp add: test_env_def)
  have h2: "json_loads test_env ''manifest'' = Some test_manifest"
    by (simp add: test_env_def test_documents_def)
  have h3: "manifest_fields test_manifest = Inr (JStr ''1.21'', JStr ''24w14a'', ?entries)"
    by (simp add: manifest_fields_def test_manifest_def subscript_def iterate_def bindE_def)
  have ok: "\<exists>st. load_version_manifest test_env initial_state = Inr st"
    by (simp add: load_version_manifest_def h1 h2 test_manifest_def subscript_def iterate_def
        bindE_def hashable_def category_of_def py_eq_def append_category_def sort_reverse_def
        initial_state_def)
  then have h4: "load_version_manifest test_env initial_state = Inr test_loaded"
    by (auto simp: test_loaded_def)
  have d: "distinct (map entry_id ?entries)"
    by (simp add: entry_id_def subscript_def)
  have ids1: "ids_for (JStr ''1.21'') (JStr ''24w14a'') LatestRelease ?entries = [JStr ''1.21'']"
    by (simp add: ids_for_def category_of_def subscript_def bindE_def py_eq_def entry_id_def)
  have ids2: "ids_for (JStr ''1.21'') (JStr ''24w14a'') Release ?entries = [JStr ''1.20'']"
    by (simp add: ids_for_def category_of_def subscript_def bindE_def py_eq_def entry_id_def)
  note mc = manifest_classification [OF h1 h2 h3 h4]
  from mc have E: "\<And>v. v \<in> set ?entries \<Longrightarrow> \<exists>vid co.
            subscript v ''id'' = Inr vid \<and>
            co = (if py_eq vid (JStr ''1.21'') then Some LatestRelease
                  else if py_eq vid (JStr ''24w14a'') then Some LatestSnapshot
                  else if subscript v ''type'' = Inr (JStr ''release'') then Some Release
                  else if subscript v ''type'' = Inr (JStr ''snapshot'') then Some Snapshot
                  else if subscript v ''type'' = Inr (JStr ''old_beta'') then Some OldBeta
                  else if subscript v ''type'' = Inr (JStr ''old_alpha'') then Some OldAlpha
                  else None) \<and>
            category_of (JStr ''1.21'') (JStr ''24w14a'') v = Inr co \<and>
            (distinct (map entry_id ?entries) \<longrightarrow>
               (\<forall>c. vid \<in> set (version_categories test_loaded c) \<longleftrightarrow> co = Some c))"
    by blast
  from mc have A: "\<And>c. mset (version_categories test_loaded c) =
      mset (ids_for (JStr ''1.21'') (JStr ''24w14a'') c ?entries)"
    by blast
  from mc have c: "\<forall>x \<in> set (version_categories test_loaded Release). \<not> py_eq x (JStr ''1.21'')"
    by blast
  from A [of LatestRelease] have a:
    "mset (version_categories test_loaded LatestRelease) = mset [JStr ''1.21'']"
    by (simp only: ids1)
  from A [of Release] have b:
    "mset (version_categories test_loaded Release) = mset [JStr ''1.20'']"
    by (simp only: ids2)
  from b have "JStr ''1.20'' \<in> set (version_categories test_loaded Release)"
    by (metis list.set_intros(1) set_mset_mset)
  with c have f: "\<not> py_eq (JStr ''1.20'') (JStr ''1.21'')" by blast
  have "?latest \<in> set ?entries" by simp
  from E [OF this] d
  have e1: "\<And>c. JStr ''1.21'' \<in> set (version_categories test_loaded c) \<longleftrightarrow> c = LatestRelease"
    by (auto simp: subscript_def py_eq_def)
  have "?beta \<in> set ?entries" by simp
  from E [OF this] d
  have e2: "\<And>c. JStr ''b1.8'' \<in> set (version_categories test_loaded c) \<longleftrightarrow> c = OldBeta"
    by (auto simp: subscript_def py_eq_def)
  have "?pending \<in> set ?entries" by simp
  from E [OF this] d
  have e3: "\<And>c. JStr ''x1'' \<notin> set (version_categories test_loaded c)"
    by (auto simp: subscript_def py_eq_def)
  from h4 a b f e1 [of LatestRelease] e1 [of Release] e2 [of OldBeta] e2 [of Release] e3
  show ?thesis by simp
qed

text \<open>
  The claim as stated fails on a manifest that lists an entry of a type outside the four
  known ones: the load succeeds and the entry's identifier is in no category list.
\<close>

theorem manifest_unknown_type_counterexample:
  "load_version_manifest test_env initial_state = Inr test_loaded \<and>
   JStr ''x1'' \<in> set (map entry_id
      (case manifest_fields test_manifest of Inr (lr, ls, entries) \<Rightarrow> entries | Inl e \<Rightarrow> [])) \<and>
   \<not> (\<exists>c. JStr ''x1'' \<in> set (version_categories test_loaded c))"
proof -
  have h1: "url_read test_env VERSION_MANIFEST_URL = Some ''manifest''"
    by (simp add: test_env_def)
  have h2: "json_loads test_env ''manifest'' = Some test_manifest"
    by (simp add: test_env_def test_documents_def)
  have run: "map_sum id (\<lambda>st. map (version_categories st)
        [LatestRelease, LatestSnapshot, Release, Snapshot, OldBeta, OldAlpha])
      (load_version_manifest test_env initial_state) =
      Inr [[JStr ''1.21''], [JStr ''24w14a''], [JStr ''1.20''], [], [JStr ''b1.8''], []]"
    by (simp add: load_version_manifest_def h1 h2 test_manifest_def subscript_def iterate_def
        bindE_def hashable_def category_of_def py_eq_def append_category_def sort_reverse_def
        initial_state_def)
  then obtain st where st: "load_version_manifest test_env initial_state = Inr st"
    by (cases "load_version_manifest test_env initial_state") auto
  then have l: "load_version_manifest test_env initial_state = Inr test_loaded"
    by (simp add: test_loaded_def)
  with run have cats: "map (version_categories test_loaded)
        [LatestRelease, LatestSnapshot, Release, Snapshot, OldBeta, OldAlpha] =
      [[JStr ''1.21''], [JStr ''24w14a''], [JStr ''1.20''], [], [JStr ''b1.8''], []]"
    by simp
  have none: "\<not> (\<exists>c. JStr ''x1'' \<in> set (version_categories test_loaded c))"
  proof
    assume "\<exists>c. JStr ''x1'' \<in> set (version_categories test_loaded c)"
    then obtain c where "JStr ''x1'' \<in> set (version_categories test_loaded c)" ..
    with cats show False by (cases c) auto
  qed
  have listed: "JStr ''x1'' \<in> set (map entry_id
      (case manifest_fields test_manifest of Inr (lr, ls, entries) \<Rightarrow> entries | Inl e \<Rightarrow> []))"
    by (simp add: manifest_fields_def test_manifest_def subscript_def iterate_def bindE_def
        entry_id_def)
  from l listed none show ?thesis by blast
qed

section \<open>Mandatory main archive, optional library archives\<close>

lemma urlretrieve_ok:
  assumes "url_read E u = Some body" and "files w p \<noteq> Some Unreadable"
  shows "urlretrieve E (JStr u) p w =
     (Inr (), w\<lparr>requests := requests w @ [u], files := (files w)(p \<mapsto> Regular body)\<rparr>)"
  using assms
  by (auto simp: urlretrieve_def Let_def write_file_def split: option.splits fnode.splits)

lemma verify_file_written:
  "verify_file E (w\<lparr>requests := rs, files := (files w)(p \<mapsto> Regular body)\<rparr>) p d =
     (d = JStr (sha1_hexdigest E body))"
  by (simp add: verify_file_Regular)

lemma download_client_jar_fetch:
  assumes "client_descriptor version_data = Inr (Some (JStr u, d))"
    and "\<not> path_exists w (jar_path E version_id) \<or> \<not> verify_file E w (jar_path E version_id) d"
    and "files w (jar_path E version_id) \<noteq> Some Unreadable"
    and "url_read E u = Some body"
  shows "download_client_jar E version_id version_data w =
     (if d = JStr (sha1_hexdigest E body)
      then (True, w\<lparr>requests := requests w @ [u],
                     files := (files w)(jar_path E version_id \<mapsto> Regular body)\<rparr>)
      else (False, w\<lparr>requests := requests w @ [u],
                      files := (files w)(jar_path E version_id := None)\<rparr>))"
  using assms(2)
  by (auto simp: download_client_jar_def assms(1) Let_def urlretrieve_ok [OF assms(4,3)]
      verify_file_written path_exists_def os_remove_def)

lemma download_library_artifact_fetch:
  assumes "\<not> path_exists w p \<or> \<not> verify_file E w p d"
    and "files w p \<noteq> Some Unreadable"
    and "url_read E u = Some body"
  shows "download_library_artifact E (JStr u, p, d) w =
     (if d = JStr (sha1_hexdigest E body)
      then w\<lparr>requests := requests w @ [u], files := (files w)(p \<mapsto> Regular body)\<rparr>
      else w\<lparr>requests := requests w @ [u], files := (files w)(p := None)\<rparr>)"
  using assms(1)
  by (auto simp: download_library_artifact_def urlretrieve_ok [OF assms(3,2)]
      verify_file_written path_exists_def os_remove_def)

text \<open>
  Claim C1.  (1) When the metadata document describes the main archive, the local file is
  absent or does not verify, and the download succeeds: the archive is requested, written
  and verified again; the step passes when the digest of the downloaded bytes matches, and
  a mismatch removes the file and makes the acquisition return \<^verbatim>\<open>False\<close>.  (2) When an applicable library's primary archive is
  absent or does not verify and the downloaded bytes do not match the digest either, the
  file is removed and the loop goes on with the remaining libraries (here for an entry
  without a native bundle).  (3) Once the main archive step has passed, the acquisition
  returns \<^verbatim>\<open>True\<close> whenever the library loop raises nothing, so a library whose archive
  failed verification does not turn the result into a failure.
\<close>

theorem main_archive_mandatory_library_optional:
  "(truthy version_data \<and>
    client_descriptor version_data = Inr (Some (JStr u, d)) \<and>
    (\<not> path_exists w (jar_path E version_id) \<or> \<not> verify_file E w (jar_path E version_id) d) \<and>
    files w (jar_path E version_id) \<noteq> Some Unreadable \<and>
    url_read E u = Some body
    \<longrightarrow>
      download_client_jar E version_id version_data w =
        (if d = JStr (sha1_hexdigest E body)
         then (True, w\<lparr>requests := requests w @ [u],
                        files := (files w)(jar_path E version_id \<mapsto> Regular body)\<rparr>)
         else (False, w\<lparr>requests := requests w @ [u],
                         files := (files w)(jar_path E version_id := None)\<rparr>)) \<and>
      (d \<noteq> JStr (sha1_hexdigest E body) \<longrightarrow>
         acquire_artifacts E version_id version_data w =
           (Inr False, w\<lparr>requests := requests w @ [u],
                          files := (files w)(jar_path E version_id := None)\<rparr>))) \<and>
   (is_library_allowed lib (current_os E) = Inr True \<and>
    artifact_descriptor E lib = Inr (Some (JStr lu, lp, ld)) \<and>
    native_descriptor E version_id lib = Inr None \<and>
    (\<not> path_exists w lp \<or> \<not> verify_file E w lp ld) \<and>
    files w lp \<noteq> Some Unreadable \<and>
    url_read E lu = Some lbody \<and>
    ld \<noteq> JStr (sha1_hexdigest E lbody)
    \<longrightarrow> libraries_loop E version_id (lib # libs) w =
          libraries_loop E version_id libs
            (w\<lparr>requests := requests w @ [lu], files := (files w)(lp := None)\<rparr>)) \<and>
   (truthy version_data \<and>
    download_client_jar E version_id version_data w = (True, w1) \<and>
    bindE (dict_get version_data ''libraries'' (JArr [])) iterate = Inr all_libs \<and>
    libraries_loop E version_id all_libs w1 = (Inr (), w2)
    \<longrightarrow> acquire_artifacts E version_id version_data w = (Inr True, w2))"
proof (intro conjI impI)
  assume a: "truthy version_data \<and>
    client_descriptor version_data = Inr (Some (JStr u, d)) \<and>
    (\<not> path_exists w (jar_path E version_id) \<or> \<not> verify_file E w (jar_path E version_id) d) \<and>
    files w (jar_path E version_id) \<noteq> Some Unreadable \<and>
    url_read E u = Some body"
  then show j: "download_client_jar E version_id version_data w =
        (if d = JStr (sha1_hexdigest E body)
         then (True, w\<lparr>requests := requests w @ [u],
                        files := (files w)(jar_path E version_id \<mapsto> Regular body)\<rparr>)
         else (False, w\<lparr>requests := requests w @ [u],
                         files := (files w)(jar_path E version_id := None)\<rparr>))"
    using download_client_jar_fetch [of version_data u d w E version_id body] by blast
  assume "d \<noteq> JStr (sha1_hexdigest E body)"
  with a j show "acquire_artifacts E version_id version_data w =
          (Inr False, w\<lparr>requests := requests w @ [u],
                         files := (files w)(jar_path E version_id := None)\<rparr>)"
    by (simp add: acquire_artifacts_def)
next
  assume b: "is_library_allowed lib (current_os E) = Inr True \<and>
    artifact_descriptor E lib = Inr (Some (JStr lu, lp, ld)) \<and>
    native_descriptor E version_id lib = Inr None \<and>
    (\<not> path_exists w lp \<or> \<not> verify_file E w lp ld) \<and>
    files w lp \<noteq> Some Unreadable \<and>
    url_read E lu = Some lbody \<and>
    ld \<noteq> JStr (sha1_hexdigest E lbody)"
  then have "download_library_artifact E (JStr lu, lp, ld) w =
      w\<lparr>requests := requests w @ [lu], files := (files w)(lp := None)\<rparr>"
    using download_library_artifact_fetch [of w lp E ld lu lbody] by simp
  with b have "process_library E version_id lib w =
      (Inr (), w\<lparr>requests := requests w @ [lu], files := (files w)(lp := None)\<rparr>)"
    by (simp add: process_library_def)
  then show "libraries_loop E version_id (lib # libs) w =
          libraries_loop E version_id libs
            (w\<lparr>requests := requests w @ [lu], files := (files w)(lp := None)\<rparr>)"
    by simp
next
  assume c: "truthy version_data \<and>
    download_client_jar E version_id version_data w = (True, w1) \<and>
    bindE (dict_get version_data ''libraries'' (JArr [])) iterate = Inr all_libs \<and>
    libraries_loop E version_id all_libs w1 = (Inr (), w2)"
  then show "acquire_artifacts E version_id version_data w = (Inr True, w2)"
    by (simp add: acquire_artifacts_def)
qed

lemma corrupt_env_fields:
  "path_join corrupt_jar_env a b = a @ ''/'' @ b"
  "base_dir corrupt_jar_env = ''/n''"
  "sha1_hexdigest corrupt_jar_env = sha1_hexdigest test_env"
  "url_read corrupt_jar_env = map_of [(''https://m/client.jar'', ''corrupt'')]"
  "path_join corrupt_library_env a b = a @ ''/'' @ b"
  "base_dir corrupt_library_env = ''/n''"
  "platform_system corrupt_library_env = ''Linux''"
  "platform_architecture corrupt_library_env = ''64bit''"
  "sha1_hexdigest corrupt_library_env = sha1_hexdigest test_env"
  "url_read corrupt_library_env =
     map_of [(''https://m/a.jar'', ''corrupt''), (''https://m/b.jar'', ''LIB-B'')]"
  by (simp_all add: corrupt_jar_env_def corrupt_library_env_def test_env_fields)

lemma corrupt_library_env_os: "current_os corrupt_library_env = ''linux''"
  by (simp add: current_os_def corrupt_env_fields lower_def lower_char_def)

lemma corrupt_env_paths:
  "jar_path corrupt_jar_env ''1.0'' = ''/n/minecraft/versions/1.0/1.0.jar''"
  "jar_path corrupt_library_env ''1.0'' = ''/n/minecraft/versions/1.0/1.0.jar''"
  "libraries_dir corrupt_library_env = ''/n/minecraft/libraries''"
  by (simp_all add: path_defs corrupt_env_fields)

lemma corrupt_library_descriptors:
  "artifact_descriptor corrupt_library_env test_library_a =
     Inr (Some (JStr ''https://m/a.jar'', ''/n/minecraft/libraries/a.jar'',
           JStr ''ee423e01c7fa2f7d0cc3f79c467f83c0b85c91d1''))"
  "artifact_descriptor corrupt_library_env test_library_b =
     Inr (Some (JStr ''https://m/b.jar'', ''/n/minecraft/libraries/b.jar'',
           JStr ''daf3819636e519220ba861124f7db6f2087ba9fd''))"
  "native_descriptor corrupt_library_env ''1.0'' test_library_a = Inr None"
  "native_descriptor corrupt_library_env ''1.0'' test_library_b = Inr None"
  by (simp_all add: artifact_descriptor_def native_descriptor_def test_library_a_def
      test_library_b_def json_defs join_json_def corrupt_env_paths corrupt_env_fields)

lemma jar_only_world_files:
  "files jar_only_world ''/n/minecraft/versions/1.0/1.0.jar'' = Some (Regular ''JAR'')"
  "files jar_only_world ''/n/minecraft/libraries/a.jar'' = None"
  "files jar_only_world ''/n/minecraft/libraries/b.jar'' = None"
  by (simp_all add: jar_only_world_def)

theorem main_archive_mandatory_library_optional_witness:
  "acquire_artifacts corrupt_jar_env ''1.0'' (test_version_doc [test_library_a, test_library_b])
     empty_world =
     (Inr False,
      empty_world\<lparr>requests := requests empty_world @ [''https://m/client.jar''],
                   files := (files empty_world)(''/n/minecraft/versions/1.0/1.0.jar'' := None)\<rparr>) \<and>
   libraries_loop corrupt_library_env ''1.0'' [test_library_a, test_library_b] jar_only_world =
     libraries_loop corrupt_library_env ''1.0'' [test_library_b]
       (jar_only_world\<lparr>requests := requests jar_only_world @ [''https://m/a.jar''],
                      files := (files jar_only_world)(''/n/minecraft/libraries/a.jar'' := None)\<rparr>) \<and>
   acquire_artifacts corrupt_library_env ''1.0''
     (test_version_doc [test_library_a, test_library_b]) jar_only_world =
     (Inr True,
      jar_only_world\<lparr>requests := [''https://m/a.jar'', ''https://m/b.jar''],
                     files := (files jar_only_world)
                       (''/n/minecraft/libraries/a.jar'' := None,
                        ''/n/minecraft/libraries/b.jar'' \<mapsto> Regular ''LIB-B'')\<rparr>)"
proof -
  let ?doc = "test_version_doc [test_library_a, test_library_b]"
  let ?w2 = "jar_only_world\<lparr>requests := [''https://m/a.jar'', ''https://m/b.jar''],
                     files := (files jar_only_world)
                       (''/n/minecraft/libraries/a.jar'' := None,
                        ''/n/minecraft/libraries/b.jar'' \<mapsto> Regular ''LIB-B'')\<rparr>"
  note thm1 = main_archive_mandatory_library_optional
    [where version_data = ?doc and u = "''https://m/client.jar''"
       and d = "JStr ''a7a941dea93a9fd0d1a0a8980df11d40b2cf576c''"
       and w = empty_world and E = corrupt_jar_env and version_id = "''1.0''"
       and body = "''corrupt''"]
  have h1: "truthy ?doc \<and>
    client_descriptor ?doc =
      Inr (Some (JStr ''https://m/client.jar'', JStr ''a7a941dea93a9fd0d1a0a8980df11d40b2cf576c'')) \<and>
    (\<not> path_exists empty_world (jar_path corrupt_jar_env ''1.0'') \<or>
     \<not> verify_file corrupt_jar_env empty_world (jar_path corrupt_jar_env ''1.0'')
          (JStr ''a7a941dea93a9fd0d1a0a8980df11d40b2cf576c'')) \<and>
    files empty_world (jar_path corrupt_jar_env ''1.0'') \<noteq> Some Unreadable \<and>
    url_read corrupt_jar_env ''https://m/client.jar'' = Some ''corrupt''"
    by (simp add: test_truthy test_client_descriptor path_exists_def empty_world_def
        corrupt_env_fields)
  have m1: "JStr ''a7a941dea93a9fd0d1a0a8980df11d40b2cf576c''
      \<noteq> JStr (sha1_hexdigest corrupt_jar_env ''corrupt'')"
    by (simp add: corrupt_env_fields test_env_fields test_sha1_table_def)
  from thm1 h1 m1 have c1: "acquire_artifacts corrupt_jar_env ''1.0'' ?doc empty_world =
     (Inr False,
      empty_world\<lparr>requests := requests empty_world @ [''https://m/client.jar''],
                   files := (files empty_world)(''/n/minecraft/versions/1.0/1.0.jar'' := None)\<rparr>)"
    by (simp add: corrupt_env_paths)
  have h2: "is_library_allowed test_library_a (current_os corrupt_library_env) = Inr True \<and>
    artifact_descriptor corrupt_library_env test_library_a =
      Inr (Some (JStr ''https://m/a.jar'', ''/n/minecraft/libraries/a.jar'',
            JStr ''ee423e01c7fa2f7d0cc3f79c467f83c0b85c91d1'')) \<and>
    native_descriptor corrupt_library_env ''1.0'' test_library_a = Inr None \<and>
    (\<not> path_exists jar_only_world ''/n/minecraft/libraries/a.jar'' \<or>
     \<not> verify_file corrupt_library_env jar_only_world ''/n/minecraft/libraries/a.jar''
          (JStr ''ee423e01c7fa2f7d0cc3f79c467f83c0b85c91d1'')) \<and>
    files jar_only_world ''/n/minecraft/libraries/a.jar'' \<noteq> Some Unreadable \<and>
    url_read corrupt_library_env ''https://m/a.jar'' = Some ''corrupt'' \<and>
    JStr ''ee423e01c7fa2f7d0cc3f79c467f83c0b85c91d1''
      \<noteq> JStr (sha1_hexdigest corrupt_library_env ''corrupt'')"
    by (simp add: corrupt_library_env_os test_library_a_allowed corrupt_library_descriptors
        path_exists_def jar_only_world_files corrupt_env_fields test_env_fields
        test_sha1_table_def)
  note thm2 = main_archive_mandatory_library_optional
    [where lib = test_library_a and E = corrupt_library_env
       and lu = "''https://m/a.jar''" and lp = "''/n/minecraft/libraries/a.jar''"
       and ld = "JStr ''ee423e01c7fa2f7d0cc3f79c467f83c0b85c91d1''"
       and version_id = "''1.0''" and w = jar_only_world
       and lbody = "''corrupt''" and libs = "[test_library_b]"]
  from thm2 h2 have c2:
    "libraries_loop corrupt_library_env ''1.0'' [test_library_a, test_library_b] jar_only_world =
     libraries_loop corrupt_library_env ''1.0'' [test_library_b]
       (jar_only_world\<lparr>requests := requests jar_only_world @ [''https://m/a.jar''],
                      files := (files jar_only_world)(''/n/minecraft/libraries/a.jar'' := None)\<rparr>)"
    by blast
  have rq: "requests jar_only_world = []" by (simp add: jar_only_world_def)
  have step_b: "libraries_loop corrupt_library_env ''1.0'' [test_library_b]
       (jar_only_world\<lparr>requests := requests jar_only_world @ [''https://m/a.jar''],
                      files := (files jar_only_world)(''/n/minecraft/libraries/a.jar'' := None)\<rparr>)
     = (Inr (), ?w2)"
    by (simp add: process_library_def corrupt_library_env_os test_library_b_allowed
        corrupt_library_descriptors download_library_artifact_def path_exists_def
        jar_only_world_files urlretrieve_def write_file_def verify_file_eval
        corrupt_env_fields test_env_fields test_sha1_table_def rq Let_def)
  have jar_ok: "download_client_jar corrupt_library_env ''1.0'' ?doc jar_only_world
      = (True, jar_only_world)"
    by (simp add: download_client_jar_def test_client_descriptor corrupt_env_paths
        path_exists_def jar_only_world_files verify_file_eval corrupt_env_fields
        test_env_fields test_sha1_table_def)
  have h3: "truthy ?doc \<and>
    download_client_jar corrupt_library_env ''1.0'' ?doc jar_only_world = (True, jar_only_world) \<and>
    bindE (dict_get ?doc ''libraries'' (JArr [])) iterate = Inr [test_library_a, test_library_b] \<and>
    libraries_loop corrupt_library_env ''1.0'' [test_library_a, test_library_b] jar_only_world
      = (Inr (), ?w2)"
    by (simp only: test_truthy jar_ok test_libraries c2 step_b simp_thms)
  note thm3 = main_archive_mandatory_library_optional
    [where version_data = ?doc and w = jar_only_world and E = corrupt_library_env
       and version_id = "''1.0''" and ?w1.0 = jar_only_world
       and all_libs = "[test_library_a, test_library_b]" and ?w2.0 = ?w2]
  from thm3 h3 have c3: "acquire_artifacts corrupt_library_env ''1.0'' ?doc jar_only_world
      = (Inr True, ?w2)"
    by blast
  from c1 c2 c3 show ?thesis by (simp only: simp_thms)
qed

section \<open>Acquisition on a verified cache\<close>

lemma download_library_artifact_cached:
  "path_exists w p \<Longrightarrow> verify_file E w p d \<Longrightarrow> download_library_artifact E (u, p, d) w = w"
  by (simp add: download_library_artifact_def)

lemma download_native_cached:
  "path_exists w p \<Longrightarrow> verify_file E w p d \<Longrightarrow> download_native E version_id (u, p, d) w = w"
  by (simp add: download_native_def)

lemma process_library_cached:
  assumes "library_cached E version_id w lib"
  shows "process_library E version_id lib w = (Inr (), w)"
proof (cases "is_library_allowed lib (current_os E)")
  case (Inl e)
  with assms show ?thesis by (simp add: library_cached_def)
next
  case (Inr allowed)
  show ?thesis
  proof (cases allowed)
    case False
    with Inr show ?thesis by (simp add: process_library_def)
  next
    case True
    with Inr assms have a: "artifact_cached E w (artifact_descriptor E lib)"
      and n: "artifact_cached E w (native_descriptor E version_id lib)"
      by (simp_all add: library_cached_def)
    from a obtain ad where ad: "artifact_descriptor E lib = Inr ad"
      and adw: "(case ad of None \<Rightarrow> w | Some d \<Rightarrow> download_library_artifact E d w) = w"
      by (cases "artifact_descriptor E lib")
        (auto simp: artifact_cached_def download_library_artifact_cached split: option.splits)
    from n obtain nd where nd: "native_descriptor E version_id lib = Inr nd"
      and ndw: "(case nd of None \<Rightarrow> w | Some d \<Rightarrow> download_native E version_id d w) = w"
      by (cases "native_descriptor E version_id lib")
        (auto simp: artifact_cached_def download_native_cached split: option.splits)
    from Inr True ad adw nd ndw show ?thesis
      by (simp add: process_library_def)
  qed
qed

lemma libraries_loop_cached:
  "list_all (library_cached E version_id w) libs \<Longrightarrow>
   libraries_loop E version_id libs w = (Inr (), w)"
  by (induction libs) (simp_all add: process_library_cached)

lemma acquire_artifacts_cached:
  assumes "truthy version_data"
    and "client_descriptor version_data = Inr (Some (jar_url, expected_sha1))"
    and "path_exists w (jar_path E version_id)"
    and "verify_file E w (jar_path E version_id) expected_sha1"
    and "bindE (dict_get version_data ''libraries'' (JArr [])) iterate = Inr libs"
    and "list_all (library_cached E version_id w) libs"
  shows "acquire_artifacts E version_id version_data w = (Inr True, w)"
proof -
  have "download_client_jar E version_id version_data w = (True, w)"
    using assms(2,3,4) by (simp add: download_client_jar_def)
  with assms(1,5) libraries_loop_cached [OF assms(6)] show ?thesis
    by (simp add: acquire_artifacts_def)
qed

text \<open>
  Claim C6.  On a state of the files in which every artifact of the version is present
  and verified, \<^verbatim>\<open>download_version_files\<close> returns \<^verbatim>\<open>True\<close> and leaves the world as it
  found it: no file is written or removed and the log of network requests is the one it
  started with, so the run makes no request.
\<close>

theorem acquisition_idempotent:
  assumes "cache_verified E version_id w"
  shows "download_version_files E version_id version_url w = Some (Inr True, w)"
proof (cases "files w (version_json_path E version_id)")
  case None
  with assms show ?thesis by (simp add: cache_verified_def)
next
  case (Some node)
  show ?thesis
  proof (cases node)
    case Unreadable
    with Some assms show ?thesis by (simp add: cache_verified_def)
  next
    case (Regular content)
    show ?thesis
    proof (cases "json_loads E content")
      case None
      with Some Regular assms show ?thesis by (simp add: cache_verified_def)
    next
      case j: (Some version_data)
      from assms Some Regular j have t: "truthy version_data"
        and cd: "(case client_descriptor version_data of
            Inr (Some (jar_url, expected_sha1)) \<Rightarrow>
              path_exists w (jar_path E version_id) \<and>
              verify_file E w (jar_path E version_id) expected_sha1
          | _ \<Rightarrow> False)"
        and ll: "(case bindE (dict_get version_data ''libraries'' (JArr [])) iterate of
            Inl e \<Rightarrow> False
          | Inr libs \<Rightarrow> list_all (library_cached E version_id w) libs)"
        by (simp_all add: cache_verified_def)
      from cd obtain jar_url expected_sha1 where
        c: "client_descriptor version_data = Inr (Some (jar_url, expected_sha1))"
        and v: "path_exists w (jar_path E version_id)"
          "verify_file E w (jar_path E version_id) expected_sha1"
      proof (cases "client_descriptor version_data")
        case (Inl e)
        with cd show ?thesis by simp
      next
        case (Inr x)
        show ?thesis
        proof (cases x)
          case None
          with Inr cd show ?thesis by simp
        next
          case (Some pr)
          with Inr cd that show ?thesis by (cases pr) simp
        qed
      qed
      from ll obtain libs where
        l: "bindE (dict_get version_data ''libraries'' (JArr [])) iterate = Inr libs"
        and lc: "list_all (library_cached E version_id w) libs"
        by (cases "bindE (dict_get version_data ''libraries'' (JArr [])) iterate") simp_all
      have "load_version_json E version_id version_url w = (Loaded version_data, w)"
        using Some Regular j by (simp add: load_version_json_def path_exists_def)
      then show ?thesis
        by (subst download_version_files.simps)
          (simp add: acquire_artifacts_cached [OF t c v l lc])
    qed
  qed
qed

lemma test_artifact_descriptors:
  "artifact_descriptor test_env test_library_a =
     Inr (Some (JStr ''https://m/a.jar'', ''/n/minecraft/libraries/a.jar'',
           JStr ''ee423e01c7fa2f7d0cc3f79c467f83c0b85c91d1''))"
  "artifact_descriptor test_env test_library_b =
     Inr (Some (JStr ''https://m/b.jar'', ''/n/minecraft/libraries/b.jar'',
           JStr ''daf3819636e519220ba861124f7db6f2087ba9fd''))"
  "artifact_descriptor test_env test_library_n = Inr None"
  by (simp_all add: artifact_descriptor_def test_library_a_def test_library_b_def
      test_library_n_def json_defs join_json_def test_paths test_env_fields)

lemma test_native_descriptors:
  "native_descriptor test_env ''1.0'' test_library_a = Inr None"
  "native_descriptor test_env ''1.0'' test_library_b = Inr None"
  "native_descriptor test_env ''1.0'' test_library_n =
     Inr (Some (JStr ''https://m/n.jar'',
           ''/n/minecraft/versions/1.0/natives/2.9-natives-linux.jar'',
           JStr ''dbda54bf8f5b0c2cab6b61e46d69af778895241e''))"
  by (simp_all add: native_descriptor_def test_library_a_def test_library_b_def
      test_library_n_def json_defs test_current_os last_segment_def test_paths test_env_fields)

lemma cached_world_files:
  "files cached_world ''/n/minecraft/versions/1.0/1.0.json'' = Some (Regular ''doc-abn'')"
  "files cached_world ''/n/minecraft/versions/1.0/1.0.jar'' = Some (Regular ''JAR'')"
  "files cached_world ''/n/minecraft/libraries/a.jar'' = Some (Regular ''LIB-A'')"
  "files cached_world ''/n/minecraft/libraries/b.jar'' = Some (Regular ''LIB-B'')"
  "files cached_world ''/n/minecraft/versions/1.0/natives/2.9-natives-linux.jar''
     = Some (Regular ''NATIVE'')"
  by (simp_all add: cached_world_def)

theorem acquisition_idempotent_witness:
  "cache_verified test_env ''1.0'' cached_world \<and>
   download_version_files test_env ''1.0'' ''https://m/1.0.json'' cached_world =
     Some (Inr True, cached_world)"
proof -
  have lib_a: "library_cached test_env ''1.0'' cached_world test_library_a"
    by (simp add: library_cached_def test_current_os test_library_a_allowed
        test_artifact_descriptors test_native_descriptors artifact_cached_def
        verify_file_eval path_exists_def cached_world_files test_env_fields test_sha1_table_def)
  have lib_b: "library_cached test_env ''1.0'' cached_world test_library_b"
    by (simp add: library_cached_def test_current_os test_library_b_allowed
        test_artifact_descriptors test_native_descriptors artifact_cached_def
        verify_file_eval path_exists_def cached_world_files test_env_fields test_sha1_table_def)
  have lib_n: "library_cached test_env ''1.0'' cached_world test_library_n"
    by (simp add: library_cached_def test_current_os test_library_n_allowed
        test_artifact_descriptors test_native_descriptors artifact_cached_def
        verify_file_eval path_exists_def cached_world_files test_env_fields test_sha1_table_def)
  have doc: "json_loads test_env ''doc-abn''
       = Some (test_version_doc [test_library_a, test_library_b, test_library_n])"
    by (simp add: test_env_fields test_documents_def)
  have jar: "path_exists cached_world ''/n/minecraft/versions/1.0/1.0.jar''"
    "verify_file test_env cached_world ''/n/minecraft/versions/1.0/1.0.jar''
       (JStr ''a7a941dea93a9fd0d1a0a8980df11d40b2cf576c'')"
    by (simp_all add: verify_file_eval path_exists_def cached_world_files test_env_fields
        test_sha1_table_def)
  have h: "cache_verified test_env ''1.0'' cached_world"
    by (simp add: cache_verified_def test_paths cached_world_files doc test_truthy
        test_client_descriptor test_libraries jar lib_a lib_b lib_n)
  from acquisition_idempotent [OF h, of "''https://m/1.0.json''"] h show ?thesis by simp
qed

section \<open>The shape of a built launch command\<close>

lemma build_launch_command_anatomy:
  assumes "build_launch_command E w ch version username ram = Inr cmd" and "cmd \<noteq> []"
  obtains content version_data java_path main_class classpath_str jvm_args game_args table
    final_game_args
  where "files w (version_json_path E version) = Some (Regular content)"
    and "json_loads E content = Some version_data"
    and "select_java E w = Some java_path"
    and "dict_get version_data ''mainClass'' JNull = Inr main_class"
    and "truthy main_class"
    and "build_classpath E w version version_data = Inr (Some classpath_str)"
    and "jvm_arguments E version_data = Inr jvm_args"
    and "game_arguments E version_data = Inr (Some game_args)"
    and "replacements E version username version_data = Inr table"
    and "substitute_all table game_args = Inr final_game_args"
    and "cmd = [JStr java_path, JStr (''-Xmx'' @ str_of_int ram @ ''G''),
                JStr (''-Djava.library.path='' @ natives_dir E version)]
               @ jvm_args @ cheat_arguments ch
               @ [JStr ''-cp'', JStr classpath_str, main_class] @ final_game_args"
proof -
  from assms have ex: "path_exists w (version_json_path E version)"
    by (auto simp: build_launch_command_def split: if_splits)
  from assms ex obtain content where
    c: "files w (version_json_path E version) = Some (Regular content)"
    by (cases "files w (version_json_path E version)")
      (auto simp: build_launch_command_def split: fnode.splits)
  from assms ex c obtain version_data where j: "json_loads E content = Some version_data"
    by (cases "json_loads E content") (auto simp: build_launch_command_def)
  from assms ex c j obtain java_path where s: "select_java E w = Some java_path"
    by (cases "select_java E w") (auto simp: build_launch_command_def)
  from assms ex c j s obtain main_class where
    m: "dict_get version_data ''mainClass'' JNull = Inr main_class"
    by (cases "dict_get version_data ''mainClass'' JNull")
      (auto simp: build_launch_command_def bindE_def)
  from assms ex c j s m have t: "truthy main_class"
    by (auto simp: build_launch_command_def bindE_def split: if_splits)
  from assms ex c j s m t obtain cp where
    cp: "build_classpath E w version version_data = Inr cp"
    by (cases "build_classpath E w version version_data")
      (auto simp: build_launch_command_def bindE_def)
  from assms ex c j s m t cp obtain classpath_str where cs: "cp = Some classpath_str"
    by (cases cp) (auto simp: build_launch_command_def bindE_def)
  from assms ex c j s m t cp cs obtain jvm_args where
    jv: "jvm_arguments E version_data = Inr jvm_args"
    by (cases "jvm_arguments E version_data") (auto simp: build_launch_command_def bindE_def)
  from assms ex c j s m t cp cs jv obtain ga where
    ga: "game_arguments E version_data = Inr ga"
    by (cases "game_arguments E version_data") (auto simp: build_launch_command_def bindE_def)
  from assms ex c j s m t cp cs jv ga obtain game_args where gs: "ga = Some game_args"
    by (cases ga) (auto simp: build_launch_command_def bindE_def)
  from assms ex c j s m t cp cs jv ga gs obtain table where
    tb: "replacements E version username version_data = Inr table"
    by (cases "replacements E version username version_data")
      (auto simp: build_launch_command_def bindE_def)
  from assms ex c j s m t cp cs jv ga gs tb obtain final_game_args where
    fg: "substitute_all table game_args = Inr final_game_args"
    by (cases "substitute_all table game_args") (auto simp: build_launch_command_def bindE_def)
  from assms(1) ex c j s m t cp cs jv ga gs tb fg
  have "cmd = [JStr java_path, JStr (''-Xmx'' @ str_of_int ram @ ''G''),
                JStr (''-Djava.library.path='' @ natives_dir E version)]
               @ jvm_args @ cheat_arguments ch
               @ [JStr ''-cp'', JStr classpath_str, main_class] @ final_game_args"
    by (auto simp: build_launch_command_def bindE_def)
  with c j s m t cp cs jv ga gs tb fg that show thesis by blast
qed

text \<open>The converse: when every step of the build succeeds, this is the command.\<close>

lemma build_launch_command_built:
  assumes "files w (version_json_path E version) = Some (Regular content)"
    and "json_loads E content = Some version_data"
    and "select_java E w = Some java_path"
    and "dict_get version_data ''mainClass'' JNull = Inr main_class"
    and "truthy main_class"
    and "build_classpath E w version version_data = Inr (Some classpath_str)"
    and "jvm_arguments E version_data = Inr jvm_args"
    and "game_arguments E version_data = Inr (Some game_args)"
    and "replacements E version username version_data = Inr table"
    and "substitute_all table game_args = Inr final_game_args"
  shows "build_launch_command E w ch version username ram =
     Inr ([JStr java_path, JStr (''-Xmx'' @ str_of_int ram @ ''G''),
           JStr (''-Djava.library.path='' @ natives_dir E version)]
          @ jvm_args @ cheat_arguments ch
          @ [JStr ''-cp'', JStr classpath_str, main_class] @ final_game_args)"
  by (simp add: build_launch_command_def path_exists_def assms bindE_def)

text \<open>The relative path of a library's primary archive, as the classpath loop reads it.\<close>

lemma classpath_loop_entry:
  assumes "is_library_allowed lib (current_os E) = Inr True"
    and "bindE (subscript lib ''downloads'') (\<lambda>d.
           bindE (subscript d ''artifact'') (\<lambda>a. subscript a ''path'')) = Inr (JStr rel)"
  shows "classpath_loop E w (lib # libs) =
     bindE (classpath_loop E w libs) (\<lambda>rest.
       Inr ((if path_exists w (path_join E (libraries_dir E) rel)
             then [path_join E (libraries_dir E) rel] else []) @ rest))"
proof -
  from assms(2) obtain d a where d: "subscript lib ''downloads'' = Inr d"
    and a: "subscript d ''artifact'' = Inr a" and p: "subscript a ''path'' = Inr (JStr rel)"
    by (auto simp: bindE_Inr_iff)
  from d have kd: "contains_key ''downloads'' lib = Inr True"
    by (auto simp: subscript_def contains_key_def split: json.splits option.splits
        dest: map_of_SomeD intro: rev_image_eqI)
  from a have ka: "contains_key ''artifact'' d = Inr True"
    by (auto simp: subscript_def contains_key_def split: json.splits option.splits
        dest: map_of_SomeD intro: rev_image_eqI)
  show ?thesis
    by (simp add: assms(1) kd ka d a p join_json_def bindE_def)
qed

lemma launch_world_files:
  "files launch_world ''/n/minecraft/versions/1.0/1.0.json'' = Some (Regular ''doc-ab'')"
  "files launch_world ''/n/minecraft/versions/1.0/1.0.jar'' = Some (Regular ''JAR'')"
  "files launch_world ''/n/minecraft/libraries/a.jar'' = Some (Regular ''LIB-A'')"
  "files launch_world ''/n/minecraft/libraries/b.jar'' = Some (Regular ''LIB-B'')"
  "files launch_world ''/n/java/jdk-21.0.5+11/bin/java'' = None"
  by (simp_all add: launch_world_def)

lemma test_doc_ab: "json_loads test_env ''doc-ab''
    = Some (test_version_doc [test_library_a, test_library_b])"
  by (simp add: test_env_fields test_documents_def)

lemma test_rel_paths:
  "bindE (subscript test_library_a ''downloads'') (\<lambda>d.
     bindE (subscript d ''artifact'') (\<lambda>a. subscript a ''path'')) = Inr (JStr ''a.jar'')"
  "bindE (subscript test_library_b ''downloads'') (\<lambda>d.
     bindE (subscript d ''artifact'') (\<lambda>a. subscript a ''path'')) = Inr (JStr ''b.jar'')"
  by (simp_all add: test_library_a_def test_library_b_def json_defs)

lemma test_classpath_loop:
  "classpath_loop test_env launch_world [test_library_a, test_library_b] =
     Inr [''/n/minecraft/libraries/a.jar'', ''/n/minecraft/libraries/b.jar'']"
proof -
  have a: "is_library_allowed test_library_a (current_os test_env) = Inr True"
    and b: "is_library_allowed test_library_b (current_os test_env) = Inr True"
    by (simp_all add: test_current_os test_library_a_allowed test_library_b_allowed)
  note ea = classpath_loop_entry [OF a test_rel_paths(1), of launch_world "[test_library_b]"]
  note eb = classpath_loop_entry [OF b test_rel_paths(2), of launch_world "[]"]
  show ?thesis
    unfolding ea eb
    by (simp add: test_paths test_env_fields path_exists_def launch_world_files bindE_def)
qed

lemma test_build_classpath:
  "build_classpath test_env launch_world ''1.0'' (test_version_doc [test_library_a, test_library_b]) =
     Inr (Some ''/n/minecraft/libraries/a.jar:/n/minecraft/libraries/b.jar:/n/minecraft/versions/1.0/1.0.jar'')"
  by (simp add: build_classpath_def test_libraries_get iterate_def bindE_def
      test_classpath_loop test_paths path_exists_def launch_world_files test_env_fields
      del: classpath_loop.simps)

lemma test_select_java: "select_java test_env launch_world = Some ''java''"
  by (simp add: select_java_def is_java_installed_def path_defs test_env_fields
      path_exists_def launch_world_files)

lemma test_jvm_arguments:
  "jvm_arguments test_env (test_version_doc libs) =
     Inr [JStr ''-Dlauncher=${launcher_name}'', JStr ''-cp'', JStr ''${classpath}'',
          JStr ''-Duser=${auth_player_name}'']"
  by (simp add: jvm_arguments_def document_jvm_args_def test_version_doc_def
      test_jvm_template_def json_defs expand_argument_def evaluate_rules_def test_current_os
      test_env_fields)

lemma test_game_arguments:
  "game_arguments test_env (test_version_doc libs) =
     Inr (Some [JStr ''--username ${auth_player_name}'', JStr ''${version_name}/${version_type}''])"
  by (simp add: game_arguments_def test_version_doc_def json_defs
      expand_argument_def evaluate_rules_def test_current_os)

lemma test_replacements:
  "replacements test_env ''1.0'' ''Steve'' (test_version_doc libs) =
     Inr [(''${auth_player_name}'', ''Steve''),
          (''${version_name}'', ''1.0''),
          (''${game_directory}'', ''/n/minecraft''),
          (''${assets_root}'', ''/n/minecraft/assets''),
          (''${assets_index_name}'', ''17''),
          (''${auth_uuid}'', ''5627dd98-e6be-bc21-f8a8-e92344183641''),
          (''${auth_access_token}'', ''0''),
          (''${user_type}'', ''legacy''),
          (''${version_type}'', ''release''),
          (''${user_properties}'', ''{}''),
          (''${quickPlayRealms}'', []),
          (''${quickPlaySingleplayer}'', []),
          (''${quickPlayMultiplayer}'', [])]"
  by (simp add: replacements_def test_version_doc_def json_defs py_str_def
      generate_offline_uuid_def path_defs test_env_def)



section \<open>Classpath order\<close>



section \<open>Placeholder substitution\<close>

lemma is_prefix_append: "is_prefix k (k @ t)"
  by (induction k) auto

lemma is_prefix_last:
  "c \<notin> set n \<Longrightarrow> c \<notin> set n' \<Longrightarrow> is_prefix (n @ [c]) (n' @ c # t) \<Longrightarrow> n = n'"
proof (induction n arbitrary: n')
  case Nil
  then show ?case by (cases n') auto
next
  case (Cons a n)
  then show ?case by (cases n') auto
qed

lemma placeholder_key_form:
  assumes "placeholder_key k"
  obtains name where "k = CHR ''$'' # CHR ''{'' # name @ [CHR ''}'']"
    and "CHR ''$'' \<notin> set name" and "CHR ''}'' \<notin> set name"
proof -
  from assms obtain rest where k: "k = CHR ''$'' # CHR ''{'' # rest" and r: "rest \<noteq> []"
    and l: "last rest = CHR ''}''" and d: "CHR ''$'' \<notin> set rest"
    and b: "CHR ''}'' \<notin> set (butlast rest)"
    by (auto simp: placeholder_key_def split: list.splits)
  from r l have "rest = butlast rest @ [CHR ''}'']"
    by (metis append_butlast_last_id)
  moreover from d have "CHR ''$'' \<notin> set (butlast rest)"
    by (meson in_set_butlastD)
  ultimately show thesis using k b that by metis
qed

lemma placeholder_key_prefix:
  assumes "placeholder_key k" and "placeholder_key k'" and "is_prefix k (k' @ t)"
  shows "k = k'"
proof -
  from assms(1) obtain n where k: "k = CHR ''$'' # CHR ''{'' # n @ [CHR ''}'']"
    and n: "CHR ''}'' \<notin> set n"
    by (rule placeholder_key_form)
  from assms(2) obtain n' where k': "k' = CHR ''$'' # CHR ''{'' # n' @ [CHR ''}'']"
    and n': "CHR ''}'' \<notin> set n'"
    by (rule placeholder_key_form)
  from assms(3) k k' have "is_prefix (n @ [CHR ''}'']) (n' @ CHR ''}'' # t)" by simp
  from is_prefix_last [OF n n' this] k k' show ?thesis by simp
qed

lemma py_replace_skip:
  "CHR ''$'' \<notin> set s \<Longrightarrow> py_replace (CHR ''$'' # r) v (s @ t) = s @ py_replace (CHR ''$'' # r) v t"
  by (induction s) auto

lemma py_replace_hit:
  assumes "k \<noteq> []"
  shows "py_replace k v (k @ t) = v @ py_replace k v t"
proof -
  from assms obtain c cs where k: "k = c # cs" by (cases k) auto
  have "py_replace k v (c # cs @ t) = v @ py_replace k v (drop (length k) (c # cs @ t))"
    using is_prefix_append [of k t] assms k by (simp del: is_prefix.simps)
  with k show ?thesis by simp
qed

lemma py_replace_other_key:
  assumes "placeholder_key k" and "placeholder_key k'" and "k \<noteq> k'"
  shows "py_replace k v (k' @ t) = k' @ py_replace k v t"
proof -
  from assms(1) obtain n where k: "k = CHR ''$'' # CHR ''{'' # n @ [CHR ''}'']"
    by (rule placeholder_key_form)
  from assms(2) obtain n' where k': "k' = CHR ''$'' # (CHR ''{'' # n' @ [CHR ''}''])"
    and d: "CHR ''$'' \<notin> set n'"
    by (rule placeholder_key_form) simp
  from assms have np: "\<not> is_prefix k (k' @ t)"
    using placeholder_key_prefix by blast
  have tail: "CHR ''$'' \<notin> set (CHR ''{'' # n' @ [CHR ''}''])" using d by simp
  have "py_replace k v (k' @ t) =
      CHR ''$'' # py_replace k v ((CHR ''{'' # n' @ [CHR ''}'']) @ t)"
    using np k k' by (simp del: is_prefix.simps)
  also have "\<dots> = CHR ''$'' # (CHR ''{'' # n' @ [CHR ''}'']) @ py_replace k v t"
    unfolding k using py_replace_skip [OF tail] by simp
  finally show ?thesis using k' by simp
qed

lemma py_replace_dollar_free:
  assumes "placeholder_key k" and "CHR ''$'' \<notin> set s"
  shows "py_replace k v (s @ t) = s @ py_replace k v t"
proof -
  from assms(1) obtain n where "k = CHR ''$'' # CHR ''{'' # n @ [CHR ''}'']"
    by (rule placeholder_key_form)
  with assms(2) show ?thesis by (simp add: py_replace_skip)
qed

lemma py_replace_nothing:
  assumes "placeholder_key k"
  shows "py_replace k v [] = []"
proof -
  from assms have "k \<noteq> []" by (auto simp: placeholder_key_def)
  then show ?thesis by simp
qed

text \<open>One pass of the inner loop: the key \<open>k\<close> is replaced in a text whose placeholders
  for the keys of \<open>seen\<close> are replaced already.\<close>

lemma py_replace_template:
  assumes "placeholder_key k"
    and "map_of seen k = None"
    and "\<And>k' x. map_of seen k' = Some x \<Longrightarrow> CHR ''$'' \<notin> set x"
    and "\<And>s. Literal s \<in> set ps \<Longrightarrow> CHR ''$'' \<notin> set s"
    and "\<And>k'. Placeholder k' \<in> set ps \<Longrightarrow> placeholder_key k'"
  shows "py_replace k v (template_instance seen ps) = template_instance (seen @ [(k, v)]) ps"
  using assms(4,5)
proof (induction ps)
  case Nil
  from py_replace_nothing [OF assms(1)] show ?case by (simp del: py_replace.simps)
next
  case (Cons p ps)
  then have ih: "py_replace k v (template_instance seen ps)
      = template_instance (seen @ [(k, v)]) ps"
    by simp
  show ?case
  proof (cases p)
    case (Literal s)
    with Cons.prems have "CHR ''$'' \<notin> set s" by simp
    with Literal ih assms(1) show ?thesis by (simp add: py_replace_dollar_free)
  next
    case (Placeholder k')
    with Cons.prems have pk: "placeholder_key k'" by simp
    show ?thesis
    proof (cases "map_of seen k'")
      case (Some x)
      with assms(3) have "CHR ''$'' \<notin> set x" by blast
      with Placeholder Some ih assms(1) show ?thesis
        by (simp add: py_replace_dollar_free map_add_def)
    next
      case None
      show ?thesis
      proof (cases "k' = k")
        case True
        from assms(1) have "k \<noteq> []" by (auto simp: placeholder_key_def)
        with Placeholder None True ih show ?thesis
          by (simp add: py_replace_hit map_add_def)
      next
        case False
        with Placeholder None ih assms(1) pk show ?thesis
          by (simp add: py_replace_other_key map_add_def)
      qed
    qed
  qed
qed

lemma substitute_template:
  assumes "distinct (map fst (seen @ table))"
    and "\<And>k. k \<in> set (map fst table) \<Longrightarrow> placeholder_key k"
    and "\<And>v. v \<in> set (map snd (seen @ table)) \<Longrightarrow> CHR ''$'' \<notin> set v"
    and "\<And>s. Literal s \<in> set ps \<Longrightarrow> CHR ''$'' \<notin> set s"
    and "\<And>k'. Placeholder k' \<in> set ps \<Longrightarrow> placeholder_key k'"
  shows "substitute table (template_instance seen ps) = template_instance (seen @ table) ps"
  using assms(1,2,3)
proof (induction table arbitrary: seen)
  case Nil
  then show ?case by simp
next
  case (Cons kv table)
  obtain k v where kv: "kv = (k, v)" by (cases kv)
  from Cons.prems(2) kv have pk: "placeholder_key k" by simp
  from Cons.prems(1) kv have nk: "map_of seen k = None"
    by (auto simp: map_of_eq_None_iff)
  have vals: "\<And>k' x. map_of seen k' = Some x \<Longrightarrow> CHR ''$'' \<notin> set x"
  proof -
    fix k' x
    assume "map_of seen k' = Some x"
    then have "x \<in> set (map snd seen)" by (metis map_of_SomeD set_zip_rightD zip_map_fst_snd)
    with Cons.prems(3) show "CHR ''$'' \<notin> set x" by simp
  qed
  have step: "py_replace k v (template_instance seen ps)
      = template_instance (seen @ [(k, v)]) ps"
    by (rule py_replace_template [OF pk nk vals assms(4,5)])
  have "substitute table (template_instance (seen @ [(k, v)]) ps)
      = template_instance ((seen @ [(k, v)]) @ table) ps"
    using Cons.prems kv by (intro Cons.IH) auto
  with step kv show ?case by simp
qed

lemma template_instance_empty: "template_instance [] ps = template_text ps"
  by (induction ps rule: template_text.induct) auto

lemma substitute_dollar_free:
  "(\<And>k. k \<in> set (map fst table) \<Longrightarrow> placeholder_key k) \<Longrightarrow> CHR ''$'' \<notin> set s \<Longrightarrow>
   substitute table s = s"
proof (induction table)
  case Nil
  then show ?case by simp
next
  case (Cons kv table)
  obtain k v where kv: "kv = (k, v)" by (cases kv)
  with Cons.prems have pk: "placeholder_key k" by simp
  from py_replace_dollar_free [OF pk Cons.prems(2), of v "[]"] py_replace_nothing [OF pk]
  have "py_replace k v s = s" by simp
  with Cons kv show ?case by simp
qed

lemma replacement_keys:
  assumes "replacements E version username version_data = Inr table"
  shows "map fst table =
     [''${auth_player_name}'', ''${version_name}'', ''${game_directory}'', ''${assets_root}'',
      ''${assets_index_name}'', ''${auth_uuid}'', ''${auth_access_token}'', ''${user_type}'',
      ''${version_type}'', ''${user_properties}'', ''${quickPlayRealms}'',
      ''${quickPlaySingleplayer}'', ''${quickPlayMultiplayer}'']"
  using assms by (auto simp: replacements_def bindE_Inr_iff)

lemma replacement_keys_wellformed:
  assumes "replacements E version username version_data = Inr table"
  shows "distinct (map fst table)" and "\<And>k. k \<in> set (map fst table) \<Longrightarrow> placeholder_key k"
proof -
  show "distinct (map fst table)"
    unfolding replacement_keys [OF assms] by simp
  fix k
  assume "k \<in> set (map fst table)"
  then show "placeholder_key k"
    unfolding replacement_keys [OF assms] by (auto simp: placeholder_key_def)
qed

lemma replacement_first:
  assumes "replacements E version username version_data = Inr table"
  obtains rest where "table = (''${auth_player_name}'', username) # (''${version_name}'', version) # rest"
  using assms by (auto simp: replacements_def bindE_Inr_iff)

lemma substitute_all_strings:
  "substitute_all table args = Inr final \<Longrightarrow>
   \<exists>strs. args = map JStr strs \<and> final = map (\<lambda>s. JStr (substitute table s)) strs"
proof (induction args arbitrary: final)
  case Nil
  then show ?case by simp
next
  case (Cons arg args)
  from Cons.prems obtain s rest where a: "arg = JStr s"
    and r: "substitute_all table args = Inr rest"
    and f: "final = JStr (substitute table s) # rest"
    by (cases arg) (auto simp: bindE_Inr_iff)
  from Cons.IH [OF r] obtain strs where "args = map JStr strs"
    "rest = map (\<lambda>s. JStr (substitute table s)) strs"
    by blast
  with a f have "arg # args = map JStr (s # strs) \<and>
      final = map (\<lambda>s. JStr (substitute table s)) (s # strs)"
    by simp
  then show ?case by (rule exI [of _ "s # strs"])
qed

lemma substitute_all_map:
  "substitute_all table (map JStr game) = Inr (map (\<lambda>s. JStr (substitute table s)) game)"
  by (induction game) (simp_all add: bindE_def)

lemma test_replacements_cascade:
  "replacements test_env ''1.0'' ''${version_name}'' (test_version_doc libs) =
     Inr [(''${auth_player_name}'', ''${version_name}''),
          (''${version_name}'', ''1.0''),
          (''${game_directory}'', ''/n/minecraft''),
          (''${assets_root}'', ''/n/minecraft/assets''),
          (''${assets_index_name}'', ''17''),
          (''${auth_uuid}'', ''c6a3ab07-d974-86c5-222e-c02b265aee1c''),
          (''${auth_access_token}'', ''0''),
          (''${user_type}'', ''legacy''),
          (''${version_type}'', ''release''),
          (''${user_properties}'', ''{}''),
          (''${quickPlayRealms}'', []),
          (''${quickPlaySingleplayer}'', []),
          (''${quickPlayMultiplayer}'', [])]"
  by (simp add: replacements_def test_version_doc_def json_defs py_str_def
      generate_offline_uuid_def path_defs test_env_def)

text \<open>
  Claim C8, as the code has it.  (1) When every step of the build succeeds, the command
  ends, after the main class, with the program arguments of the document, each passed
  through \<^verbatim>\<open>replace\<close> once for every key of the replacement table, in the order of the
  table; this is done to every token, whether or not it equals a placeholder.  (2) Every
  command that is built has this form.  (3) For a token made of literal text and
  placeholder keys of the table, where neither the literal text nor the table's values
  contain a dollar sign, the result is the token with every placeholder replaced by its
  value.  (4) With the username \<^verbatim>\<open>Steve\<close>, the token \<^verbatim>\<open>--username ${auth_player_name}\<close>
  becomes \<^verbatim>\<open>--username Steve\<close>, and with the version \<^verbatim>\<open>1.0\<close> the token
  \<^verbatim>\<open>${auth_player_name}:${version_name}\<close> becomes \<^verbatim>\<open>Steve:1.0\<close>, whatever the document and
  the environment are.
\<close>

theorem placeholder_substitution:
  "(files w (version_json_path E version) = Some (Regular content) \<and>
    json_loads E content = Some version_data \<and>
    select_java E w = Some java_path \<and>
    dict_get version_data ''mainClass'' JNull = Inr main_class \<and>
    truthy main_class \<and>
    build_classpath E w version version_data = Inr (Some classpath_str) \<and>
    jvm_arguments E version_data = Inr jvm_args \<and>
    game_arguments E version_data = Inr (Some (map JStr game)) \<and>
    replacements E version username version_data = Inr table
    \<longrightarrow>
    build_launch_command E w ch version username ram =
      Inr ([JStr java_path, JStr (''-Xmx'' @ str_of_int ram @ ''G''),
            JStr (''-Djava.library.path='' @ natives_dir E version)]
           @ jvm_args @ cheat_arguments ch
           @ [JStr ''-cp'', JStr classpath_str, main_class]
           @ map (\<lambda>s. JStr (substitute table s)) game)) \<and>
   (build_launch_command E w ch version username ram = Inr cmd \<and> cmd \<noteq> [] \<longrightarrow>
      (\<exists>content doc table game before.
         files w (version_json_path E version) = Some (Regular content) \<and>
         json_loads E content = Some doc \<and>
         replacements E version username doc = Inr table \<and>
         game_arguments E doc = Inr (Some (map JStr game)) \<and>
         cmd = before @ map (\<lambda>s. JStr (substitute table s)) game)) \<and>
   (replacements E version username version_data = Inr table \<and>
    (\<forall>v \<in> set (map snd table). CHR ''$'' \<notin> set v) \<and>
    (\<forall>p \<in> set pieces. case p of
        Literal s \<Rightarrow> CHR ''$'' \<notin> set s
      | Placeholder k \<Rightarrow> k \<in> set (map fst table))
    \<longrightarrow> substitute table (template_text pieces) = template_instance table pieces) \<and>
   (replacements E version ''Steve'' version_data = Inr table \<longrightarrow>
      substitute table ''--username ${auth_player_name}'' = ''--username Steve'') \<and>
   (replacements E ''1.0'' ''Steve'' version_data = Inr table \<longrightarrow>
      substitute table ''${auth_player_name}:${version_name}'' = ''Steve:1.0'')"
proof (intro conjI impI)
  assume a: "files w (version_json_path E version) = Some (Regular content) \<and>
    json_loads E content = Some version_data \<and>
    select_java E w = Some java_path \<and>
    dict_get version_data ''mainClass'' JNull = Inr main_class \<and>
    truthy main_class \<and>
    build_classpath E w version version_data = Inr (Some classpath_str) \<and>
    jvm_arguments E version_data = Inr jvm_args \<and>
    game_arguments E version_data = Inr (Some (map JStr game)) \<and>
    replacements E version username version_data = Inr table"
  then have f: "files w (version_json_path E version) = Some (Regular content)"
    and j: "json_loads E content = Some version_data"
    and s: "select_java E w = Some java_path"
    and m: "dict_get version_data ''mainClass'' JNull = Inr main_class"
    and t: "truthy main_class"
    and c: "build_classpath E w version version_data = Inr (Some classpath_str)"
    and v: "jvm_arguments E version_data = Inr jvm_args"
    and g: "game_arguments E version_data = Inr (Some (map JStr game))"
    and r: "replacements E version username version_data = Inr table"
    by blast+
  show "build_launch_command E w ch version username ram =
      Inr ([JStr java_path, JStr (''-Xmx'' @ str_of_int ram @ ''G''),
            JStr (''-Djava.library.path='' @ natives_dir E version)]
           @ jvm_args @ cheat_arguments ch
           @ [JStr ''-cp'', JStr classpath_str, main_class]
           @ map (\<lambda>s. JStr (substitute table s)) game)"
    by (rule build_launch_command_built [OF f j s m t c v g r substitute_all_map])
next
  assume "build_launch_command E w ch version username ram = Inr cmd \<and> cmd \<noteq> []"
  then have b: "build_launch_command E w ch version username ram = Inr cmd"
    and ne: "cmd \<noteq> []"
    by simp_all
  from build_launch_command_anatomy [OF b ne]
  obtain content doc java_path main_class classpath_str jvm_args game_args table
    final_game_args where
    f: "files w (version_json_path E version) = Some (Regular content)"
    "json_loads E content = Some doc"
    "game_arguments E doc = Inr (Some game_args)"
    "replacements E version username doc = Inr table"
    "substitute_all table game_args = Inr final_game_args"
    "cmd = [JStr java_path, JStr (''-Xmx'' @ str_of_int ram @ ''G''),
            JStr (''-Djava.library.path='' @ natives_dir E version)]
           @ jvm_args @ cheat_arguments ch
           @ [JStr ''-cp'', JStr classpath_str, main_class] @ final_game_args"
    by metis
  from substitute_all_strings [OF f(5)] obtain strs where
    s: "game_args = map JStr strs" "final_game_args = map (\<lambda>s. JStr (substitute table s)) strs"
    by blast
  from f(6) s have "cmd = ([JStr java_path, JStr (''-Xmx'' @ str_of_int ram @ ''G''),
            JStr (''-Djava.library.path='' @ natives_dir E version)]
           @ jvm_args @ cheat_arguments ch
           @ [JStr ''-cp'', JStr classpath_str, main_class])
           @ map (\<lambda>s. JStr (substitute table s)) strs"
    by simp
  with f(1,2,3,4) s(1) show "\<exists>content doc table game before.
         files w (version_json_path E version) = Some (Regular content) \<and>
         json_loads E content = Some doc \<and>
         replacements E version username doc = Inr table \<and>
         game_arguments E doc = Inr (Some (map JStr game)) \<and>
         cmd = before @ map (\<lambda>s. JStr (substitute table s)) game"
    by blast
next
  assume a: "replacements E version username version_data = Inr table \<and>
    (\<forall>v \<in> set (map snd table). CHR ''$'' \<notin> set v) \<and>
    (\<forall>p \<in> set pieces. case p of
        Literal s \<Rightarrow> CHR ''$'' \<notin> set s
      | Placeholder k \<Rightarrow> k \<in> set (map fst table))"
  then have r: "replacements E version username version_data = Inr table" by simp
  note wf = replacement_keys_wellformed [OF r]
  have lit: "\<And>s. Literal s \<in> set pieces \<Longrightarrow> CHR ''$'' \<notin> set s"
    using a by (auto split: piece.splits)
  have ph: "\<And>k'. Placeholder k' \<in> set pieces \<Longrightarrow> placeholder_key k'"
  proof -
    fix k'
    assume "Placeholder k' \<in> set pieces"
    with a have "k' \<in> set (map fst table)" by (auto split: piece.splits)
    then show "placeholder_key k'" by (rule wf(2))
  qed
  have d: "distinct (map fst ([] @ table))" using wf(1) by simp
  have vals: "\<And>v. v \<in> set (map snd ([] @ table)) \<Longrightarrow> CHR ''$'' \<notin> set v"
    using a by auto
  have "substitute table (template_instance [] pieces) = template_instance ([] @ table) pieces"
    by (rule substitute_template [OF d wf(2) vals lit ph])
  then show "substitute table (template_text pieces) = template_instance table pieces"
    by (simp add: template_instance_empty)
next
  assume r: "replacements E version ''Steve'' version_data = Inr table"
  from replacement_first [OF r] obtain rest where
    t: "table = (''${auth_player_name}'', ''Steve'') # (''${version_name}'', version) # rest"
    by blast
  have pk: "\<And>k. k \<in> set (map fst ((''${version_name}'', version) # rest)) \<Longrightarrow> placeholder_key k"
    using replacement_keys_wellformed(2) [OF r] t by simp
  have df: "CHR ''$'' \<notin> set ''--username Steve''" by simp
  have "substitute ((''${version_name}'', version) # rest) ''--username Steve''
      = ''--username Steve''"
    by (rule substitute_dollar_free [OF pk df])
  then show "substitute table ''--username ${auth_player_name}'' = ''--username Steve''"
    unfolding t by simp
next
  assume r: "replacements E ''1.0'' ''Steve'' version_data = Inr table"
  from replacement_first [OF r] obtain rest where
    t: "table = (''${auth_player_name}'', ''Steve'') # (''${version_name}'', ''1.0'') # rest"
    by blast
  have pk: "\<And>k. k \<in> set (map fst rest) \<Longrightarrow> placeholder_key k"
    using replacement_keys_wellformed(2) [OF r] t by simp
  have df: "CHR ''$'' \<notin> set ''Steve:1.0''" by simp
  have "substitute rest ''Steve:1.0'' = ''Steve:1.0''"
    by (rule substitute_dollar_free [OF pk df])
  then show "substitute table ''${auth_player_name}:${version_name}'' = ''Steve:1.0''"
    unfolding t by simp
qed

theorem placeholder_substitution_witness:
  "build_launch_command test_env launch_world speed_only ''1.0'' ''Steve'' 4 =
     Inr [JStr ''java'', JStr ''-Xmx4G'',
          JStr ''-Djava.library.path=/n/minecraft/versions/1.0/natives'',
          JStr ''-Dlauncher=${launcher_name}'', JStr ''-cp'', JStr ''${classpath}'',
          JStr ''-Duser=${auth_player_name}'',
          JStr ''-Dnova.speed=true'',
          JStr ''-cp'',
          JStr ''/n/minecraft/libraries/a.jar:/n/minecraft/libraries/b.jar:/n/minecraft/versions/1.0/1.0.jar'',
          JStr ''net.minecraft.client.main.Main'',
          JStr ''--username Steve'', JStr ''1.0/release''] \<and>
   (\<exists>content doc table game before.
      files launch_world (version_json_path test_env ''1.0'') = Some (Regular content) \<and>
      json_loads test_env content = Some doc \<and>
      replacements test_env ''1.0'' ''Steve'' doc = Inr table \<and>
      game_arguments test_env doc = Inr (Some (map JStr game)) \<and>
      [JStr ''java'', JStr ''-Xmx4G'',
       JStr ''-Djava.library.path=/n/minecraft/versions/1.0/natives'',
       JStr ''-Dlauncher=${launcher_name}'', JStr ''-cp'', JStr ''${classpath}'',
       JStr ''-Duser=${auth_player_name}'',
       JStr ''-Dnova.speed=true'',
       JStr ''-cp'',
       JStr ''/n/minecraft/libraries/a.jar:/n/minecraft/libraries/b.jar:/n/minecraft/versions/1.0/1.0.jar'',
       JStr ''net.minecraft.client.main.Main'',
       JStr ''--username Steve'', JStr ''1.0/release'']
      = before @ map (\<lambda>s. JStr (substitute table s)) game) \<and>
   substitute test_table
     (template_text [Placeholder ''${version_name}'', Literal ''/'', Placeholder ''${version_type}''])
     = template_instance test_table
         [Placeholder ''${version_name}'', Literal ''/'', Placeholder ''${version_type}''] \<and>
   substitute test_table ''--username ${auth_player_name}'' = ''--username Steve'' \<and>
   substitute test_table ''${auth_player_name}:${version_name}'' = ''Steve:1.0''"
proof -
  let ?doc = "test_version_doc [test_library_a, test_library_b]"
  let ?cmd = "[JStr ''java'', JStr ''-Xmx4G'',
       JStr ''-Djava.library.path=/n/minecraft/versions/1.0/natives'',
       JStr ''-Dlauncher=${launcher_name}'', JStr ''-cp'', JStr ''${classpath}'',
       JStr ''-Duser=${auth_player_name}'',
       JStr ''-Dnova.speed=true'',
       JStr ''-cp'',
       JStr ''/n/minecraft/libraries/a.jar:/n/minecraft/libraries/b.jar:/n/minecraft/versions/1.0/1.0.jar'',
       JStr ''net.minecraft.client.main.Main'',
       JStr ''--username Steve'', JStr ''1.0/release'']"
  let ?jvm = "[JStr ''-Dlauncher=${launcher_name}'', JStr ''-cp'', JStr ''${classpath}'',
       JStr ''-Duser=${auth_player_name}'']"
  let ?game = "[''--username ${auth_player_name}'', ''${version_name}/${version_type}'']"
  let ?cp = "''/n/minecraft/libraries/a.jar:/n/minecraft/libraries/b.jar:/n/minecraft/versions/1.0/1.0.jar''"
  let ?pieces = "[Placeholder ''${version_name}'', Literal ''/'', Placeholder ''${version_type}'']"
  have r: "replacements test_env ''1.0'' ''Steve'' ?doc = Inr test_table"
    by (simp add: test_replacements test_table_def)
  have mc: "dict_get ?doc ''mainClass'' JNull = Inr (JStr ''net.minecraft.client.main.Main'')"
    by (simp add: test_version_doc_def dict_get_def)
  have tr: "truthy (JStr ''net.minecraft.client.main.Main'')"
    by (simp add: truthy_def)
  have ga: "game_arguments test_env ?doc = Inr (Some (map JStr ?game))"
    by (simp add: test_game_arguments)
  have h1: "files launch_world (version_json_path test_env ''1.0'') = Some (Regular ''doc-ab'') \<and>
    json_loads test_env ''doc-ab'' = Some ?doc \<and>
    select_java test_env launch_world = Some ''java'' \<and>
    dict_get ?doc ''mainClass'' JNull = Inr (JStr ''net.minecraft.client.main.Main'') \<and>
    truthy (JStr ''net.minecraft.client.main.Main'') \<and>
    build_classpath test_env launch_world ''1.0'' ?doc = Inr (Some ?cp) \<and>
    jvm_arguments test_env ?doc = Inr ?jvm \<and>
    game_arguments test_env ?doc = Inr (Some (map JStr ?game)) \<and>
    replacements test_env ''1.0'' ''Steve'' ?doc = Inr test_table"
    by (simp only: test_paths launch_world_files test_doc_ab test_select_java mc tr
        test_build_classpath test_jvm_arguments ga r simp_thms)
  have h2: "replacements test_env ''1.0'' ''Steve'' ?doc = Inr test_table \<and>
    (\<forall>v \<in> set (map snd test_table). CHR ''$'' \<notin> set v) \<and>
    (\<forall>p \<in> set ?pieces. case p of
        Literal s \<Rightarrow> CHR ''$'' \<notin> set s
      | Placeholder k \<Rightarrow> k \<in> set (map fst test_table))"
    by (simp add: r) (simp add: test_table_def)
  note t = placeholder_substitution [where E = test_env and w = launch_world and ch = speed_only
      and version = "''1.0''" and username = "''Steve''" and ram = 4 and cmd = ?cmd
      and content = "''doc-ab''" and java_path = "''java''"
      and main_class = "JStr ''net.minecraft.client.main.Main''" and classpath_str = ?cp
      and jvm_args = ?jvm and game = ?game
      and version_data = ?doc and table = test_table and pieces = ?pieces]
  from t h1 have "build_launch_command test_env launch_world speed_only ''1.0'' ''Steve'' 4 =
      Inr ([JStr ''java'', JStr (''-Xmx'' @ str_of_int 4 @ ''G''),
            JStr (''-Djava.library.path='' @ natives_dir test_env ''1.0'')]
           @ ?jvm @ cheat_arguments speed_only
           @ [JStr ''-cp'', JStr ?cp, JStr ''net.minecraft.client.main.Main'']
           @ map (\<lambda>s. JStr (substitute test_table s)) ?game)"
    by blast
  moreover have "str_of_int 4 = ''4''"
    by (simp add: str_of_int_def str_of_nat.simps)
  moreover have "map (\<lambda>s. JStr (substitute test_table s)) ?game
      = [JStr ''--username Steve'', JStr ''1.0/release'']"
    by (simp add: test_table_def)
  ultimately have c0: "build_launch_command test_env launch_world speed_only ''1.0'' ''Steve'' 4
      = Inr ?cmd"
    by (simp add: test_paths cheat_arguments_def speed_only_def)
  from t c0 have c1: "\<exists>content doc table game before.
      files launch_world (version_json_path test_env ''1.0'') = Some (Regular content) \<and>
      json_loads test_env content = Some doc \<and>
      replacements test_env ''1.0'' ''Steve'' doc = Inr table \<and>
      game_arguments test_env doc = Inr (Some (map JStr game)) \<and>
      ?cmd = before @ map (\<lambda>s. JStr (substitute table s)) game"
    by (simp only: list.distinct simp_thms)
  from t h2 have c2: "substitute test_table (template_text ?pieces)
      = template_instance test_table ?pieces"
    by blast
  from t r have c3: "substitute test_table ''--username ${auth_player_name}'' = ''--username Steve''"
    and c4: "substitute test_table ''${auth_player_name}:${version_name}'' = ''Steve:1.0''"
    by blast+
  from c0 c1 c2 c3 c4 show ?thesis by (simp only: simp_thms)
qed

text \<open>
  The claim as stated fails when a value of the table contains a later key of the table:
  with the username \<^verbatim>\<open>${version_name}\<close> and the version \<^verbatim>\<open>1.0\<close>, the value of
  \<^verbatim>\<open>${auth_player_name}\<close> is \<^verbatim>\<open>${version_name}\<close>, and the token
  \<^verbatim>\<open>--username ${auth_player_name}\<close> reaches the command as \<^verbatim>\<open>--username 1.0\<close>, not as
  \<^verbatim>\<open>--username ${version_name}\<close>.
\<close>

theorem placeholder_cascade_counterexample:
  "game_arguments test_env (test_version_doc [test_library_a, test_library_b]) =
     Inr (Some [JStr ''--username ${auth_player_name}'', JStr ''${version_name}/${version_type}'']) \<and>
   (\<exists>table.
      replacements test_env ''1.0'' ''${version_name}'' (test_version_doc [test_library_a, test_library_b])
        = Inr table \<and>
      map_of table ''${auth_player_name}'' = Some ''${version_name}'') \<and>
   build_launch_command test_env launch_world speed_only ''1.0'' ''${version_name}'' 4 =
     Inr [JStr ''java'', JStr ''-Xmx4G'',
          JStr ''-Djava.library.path=/n/minecraft/versions/1.0/natives'',
          JStr ''-Dlauncher=${launcher_name}'', JStr ''-cp'', JStr ''${classpath}'',
          JStr ''-Duser=${auth_player_name}'',
          JStr ''-Dnova.speed=true'',
          JStr ''-cp'',
          JStr ''/n/minecraft/libraries/a.jar:/n/minecraft/libraries/b.jar:/n/minecraft/versions/1.0/1.0.jar'',
          JStr ''net.minecraft.client.main.Main'',
          JStr ''--username 1.0'', JStr ''1.0/release'']"
proof -
  let ?doc = "test_version_doc [test_library_a, test_library_b]"
  have g: "game_arguments test_env ?doc =
     Inr (Some [JStr ''--username ${auth_player_name}'', JStr ''${version_name}/${version_type}''])"
    by (rule test_game_arguments)
  have r: "\<exists>table. replacements test_env ''1.0'' ''${version_name}'' ?doc = Inr table \<and>
      map_of table ''${auth_player_name}'' = Some ''${version_name}''"
    by (simp add: test_replacements_cascade)
  have mc: "dict_get ?doc ''mainClass'' JNull = Inr (JStr ''net.minecraft.client.main.Main'')"
    by (simp add: test_version_doc_def dict_get_def)
  have x: "str_of_int 4 = ''4''"
    by (simp add: str_of_int_def str_of_nat.simps)
  have b: "build_launch_command test_env launch_world speed_only ''1.0'' ''${version_name}'' 4 =
     Inr [JStr ''java'', JStr ''-Xmx4G'',
          JStr ''-Djava.library.path=/n/minecraft/versions/1.0/natives'',
          JStr ''-Dlauncher=${launcher_name}'', JStr ''-cp'', JStr ''${classpath}'',
          JStr ''-Duser=${auth_player_name}'',
          JStr ''-Dnova.speed=true'',
          JStr ''-cp'',
          JStr ''/n/minecraft/libraries/a.jar:/n/minecraft/libraries/b.jar:/n/minecraft/versions/1.0/1.0.jar'',
          JStr ''net.minecraft.client.main.Main'',
          JStr ''--username 1.0'', JStr ''1.0/release'']"
    by (simp add: build_launch_command_def test_paths path_exists_def launch_world_files
        test_doc_ab test_select_java mc truthy_def test_build_classpath test_jvm_arguments
        test_game_arguments test_replacements_cascade bindE_def x
        cheat_arguments_def speed_only_def)
  from g r b show ?thesis by (simp only: simp_thms)
qed

section \<open>Runtime arguments are not substituted\<close>

lemma expand_arguments_literal:
  "expand_arguments args pf = Inr toks \<Longrightarrow> JStr s \<in> set args \<Longrightarrow> JStr s \<in> set toks"
proof (induction args arbitrary: toks)
  case Nil
  then show ?case by simp
next
  case (Cons arg args)
  from Cons.prems(1) obtain ts rest where
    a: "expand_argument arg pf = Inr ts" and r: "expand_arguments args pf = Inr rest"
    and t: "toks = ts @ rest"
    by (auto simp: bindE_Inr_iff)
  show ?case
  proof (cases "arg = JStr s")
    case True
    with a have "ts = [JStr s]" by (simp add: expand_argument_def is_str_def)
    with t show ?thesis by simp
  next
    case False
    with Cons.prems(2) have "JStr s \<in> set args" by simp
    from Cons.IH [OF r this] t show ?thesis by simp
  qed
qed

lemma expand_argument_conditional:
  assumes "map_of kvs ''rules'' = Some rules" and "map_of kvs ''value'' = Some v"
    and "evaluate_rules rules pf = Inr True"
  shows "expand_argument (JObj kvs) pf = Inr (case v of JArr xs \<Rightarrow> xs | _ \<Rightarrow> [v])"
proof -
  from assms(1) have kr: "''rules'' \<in> set (map fst kvs)"
    by (metis map_of_eq_None_iff option.distinct(1) set_map)
  from assms(2) have kv: "''value'' \<in> set (map fst kvs)"
    by (metis map_of_eq_None_iff option.distinct(1) set_map)
  show ?thesis
    using assms kr kv
    by (cases v) (simp_all add: expand_argument_def is_str_def is_dict_def contains_key_def
        subscript_def bindE_def)
qed

lemma expand_arguments_conditional:
  "expand_arguments args pf = Inr toks \<Longrightarrow> JObj kvs \<in> set args \<Longrightarrow>
   map_of kvs ''rules'' = Some rules \<Longrightarrow> map_of kvs ''value'' = Some v \<Longrightarrow>
   evaluate_rules rules pf = Inr True \<Longrightarrow>
   set (case v of JArr xs \<Rightarrow> xs | _ \<Rightarrow> [v]) \<subseteq> set toks"
proof (induction args arbitrary: toks)
  case Nil
  then show ?case by simp
next
  case (Cons arg args)
  from Cons.prems(1) obtain ts rest where
    a: "expand_argument arg pf = Inr ts" and r: "expand_arguments args pf = Inr rest"
    and t: "toks = ts @ rest"
    by (auto simp: bindE_Inr_iff)
  show ?case
  proof (cases "arg = JObj kvs")
    case True
    with a expand_argument_conditional [OF Cons.prems(3,4,5)]
    have "ts = (case v of JArr xs \<Rightarrow> xs | _ \<Rightarrow> [v])" by simp
    with t show ?thesis by auto
  next
    case False
    with Cons.prems(2) have "JObj kvs \<in> set args" by simp
    from Cons.IH [OF r this Cons.prems(3,4,5)] t show ?thesis by auto
  qed
qed

lemma add_unless_present_cases:
  "add_unless_present flag xs = Inr ys \<Longrightarrow> ys = xs \<or> ys = xs @ [JStr flag]"
  by (auto simp: add_unless_present_def bindE_Inr_iff split: if_splits)

lemma jvm_arguments_templated:
  assumes "jvm_arguments E version_data = Inr jvm_args"
    and "bindE (subscript version_data ''arguments'') (\<lambda>a. subscript a ''jvm'') = Inr js"
    and "iterate js = Inr args"
  obtains tokens extras where "expand_arguments args (current_os E) = Inr tokens"
    and "jvm_args = tokens @ extras"
    and "platform_system E \<noteq> ''Darwin'' \<Longrightarrow> extras = []"
    and "set extras \<subseteq> {JStr ''-XstartOnFirstThread'',
                          JStr ''-Dorg.lwjgl.opengl.Display.allowSoftwareOpenGL=true''}"
proof -
  from assms(2) obtain a where a: "subscript version_data ''arguments'' = Inr a"
    and j: "subscript a ''jvm'' = Inr js"
    unfolding bindE_Inr_iff by blast
  note ka = subscript_contains_key [OF a]
  note kj = subscript_contains_key [OF j]
  have d: "document_jvm_args E version_data = expand_arguments args (current_os E)"
    by (simp add: document_jvm_args_def ka kj a j assms(3) bindE_def)
  from assms(1) have "bindE (expand_arguments args (current_os E)) (\<lambda>jvm_args.
       if platform_system E = ''Darwin'' then
         bindE (add_unless_present ''-XstartOnFirstThread'' jvm_args)
           (add_unless_present ''-Dorg.lwjgl.opengl.Display.allowSoftwareOpenGL=true'')
       else Inr jvm_args) = Inr jvm_args"
    by (simp only: jvm_arguments_def d)
  then obtain tokens where tk: "expand_arguments args (current_os E) = Inr tokens"
    and rest: "(if platform_system E = ''Darwin'' then
         bindE (add_unless_present ''-XstartOnFirstThread'' tokens)
           (add_unless_present ''-Dorg.lwjgl.opengl.Display.allowSoftwareOpenGL=true'')
       else Inr tokens) = Inr jvm_args"
    unfolding bindE_Inr_iff by blast
  show thesis
  proof (cases "platform_system E = ''Darwin''")
    case False
    with rest have "jvm_args = tokens @ []" by simp
    moreover have "set ([] :: json list) \<subseteq> {JStr ''-XstartOnFirstThread'',
        JStr ''-Dorg.lwjgl.opengl.Display.allowSoftwareOpenGL=true''}"
      by simp
    ultimately show thesis using tk that [of tokens "[]"] by blast
  next
    case True
    with rest have "bindE (add_unless_present ''-XstartOnFirstThread'' tokens)
           (add_unless_present ''-Dorg.lwjgl.opengl.Display.allowSoftwareOpenGL=true'')
        = Inr jvm_args"
      by (simp only: simp_thms if_True)
    then obtain mid where
      m: "add_unless_present ''-XstartOnFirstThread'' tokens = Inr mid"
      and f: "add_unless_present ''-Dorg.lwjgl.opengl.Display.allowSoftwareOpenGL=true'' mid
          = Inr jvm_args"
      unfolding bindE_Inr_iff by blast
    define extras where "extras = drop (length tokens) jvm_args"
    from add_unless_present_cases [OF m] add_unless_present_cases [OF f]
    have e: "jvm_args = tokens @ extras \<and>
      set extras \<subseteq> {JStr ''-XstartOnFirstThread'',
                      JStr ''-Dorg.lwjgl.opengl.Display.allowSoftwareOpenGL=true''}"
      unfolding extras_def by auto
    show thesis
      by (rule that [of tokens extras]) (use tk e True in simp_all)
  qed
qed

lemma expand_arguments_strings:
  "list_all is_str args \<Longrightarrow> expand_arguments args pf = Inr args"
  by (induction args) (simp_all add: expand_argument_def bindE_def)

text \<open>
  Claim C10.  For a document that carries a templated JVM list: (1) when every step of the
  build succeeds, the command is the three fixed leading tokens, then the expansion of
  that list (every literal string entry as it stands, and the value of every conditional
  entry whose rules hold; the list itself when all its entries are strings), then at most
  the two macOS flags, the cheat flags, \<^verbatim>\<open>-cp\<close>, the classpath, the main class and the
  substituted program arguments: the replacement table is applied to the program
  arguments only, and a placeholder in a JVM token reaches the command as it was written;
  (2) every command that is built has this form.
\<close>

theorem runtime_arguments_verbatim:
  "(files w (version_json_path E version) = Some (Regular content) \<and>
    json_loads E content = Some version_data \<and>
    select_java E w = Some java_path \<and>
    dict_get version_data ''mainClass'' JNull = Inr main_class \<and>
    truthy main_class \<and>
    build_classpath E w version version_data = Inr (Some classpath_str) \<and>
    bindE (subscript version_data ''arguments'') (\<lambda>a. subscript a ''jvm'') = Inr js \<and>
    iterate js = Inr args \<and>
    jvm_arguments E version_data = Inr jvm_args \<and>
    game_arguments E version_data = Inr (Some game_args) \<and>
    replacements E version username version_data = Inr table \<and>
    substitute_all table game_args = Inr final_game_args
    \<longrightarrow>
    (\<exists>tokens extras.
       expand_arguments args (current_os E) = Inr tokens \<and>
       (\<forall>s. JStr s \<in> set args \<longrightarrow> JStr s \<in> set tokens) \<and>
       (\<forall>kvs rules v.
          JObj kvs \<in> set args \<and> map_of kvs ''rules'' = Some rules \<and>
          map_of kvs ''value'' = Some v \<and> evaluate_rules rules (current_os E) = Inr True
          \<longrightarrow> set (case v of JArr xs \<Rightarrow> xs | _ \<Rightarrow> [v]) \<subseteq> set tokens) \<and>
       (list_all is_str args \<longrightarrow> tokens = args) \<and>
       (platform_system E \<noteq> ''Darwin'' \<longrightarrow> extras = []) \<and>
       set extras \<subseteq> {JStr ''-XstartOnFirstThread'',
                       JStr ''-Dorg.lwjgl.opengl.Display.allowSoftwareOpenGL=true''} \<and>
       build_launch_command E w ch version username ram =
         Inr ([JStr java_path, JStr (''-Xmx'' @ str_of_int ram @ ''G''),
               JStr (''-Djava.library.path='' @ natives_dir E version)]
              @ tokens @ extras @ cheat_arguments ch
              @ [JStr ''-cp'', JStr classpath_str, main_class] @ final_game_args))) \<and>
   (build_launch_command E w ch version username ram = Inr cmd \<and> cmd \<noteq> [] \<and>
    files w (version_json_path E version) = Some (Regular content) \<and>
    json_loads E content = Some version_data \<and>
    bindE (subscript version_data ''arguments'') (\<lambda>a. subscript a ''jvm'') = Inr js \<and>
    iterate js = Inr args
    \<longrightarrow>
    (\<exists>tokens extras java_path classpath_str main_class table game_args final_game_args.
       expand_arguments args (current_os E) = Inr tokens \<and>
       (\<forall>s. JStr s \<in> set args \<longrightarrow> JStr s \<in> set tokens) \<and>
       (\<forall>kvs rules v.
          JObj kvs \<in> set args \<and> map_of kvs ''rules'' = Some rules \<and>
          map_of kvs ''value'' = Some v \<and> evaluate_rules rules (current_os E) = Inr True
          \<longrightarrow> set (case v of JArr xs \<Rightarrow> xs | _ \<Rightarrow> [v]) \<subseteq> set tokens) \<and>
       (platform_system E \<noteq> ''Darwin'' \<longrightarrow> extras = []) \<and>
       set extras \<subseteq> {JStr ''-XstartOnFirstThread'',
                       JStr ''-Dorg.lwjgl.opengl.Display.allowSoftwareOpenGL=true''} \<and>
       replacements E version username version_data = Inr table \<and>
       game_arguments E version_data = Inr (Some game_args) \<and>
       substitute_all table game_args = Inr final_game_args \<and>
       cmd = [JStr java_path, JStr (''-Xmx'' @ str_of_int ram @ ''G''),
              JStr (''-Djava.library.path='' @ natives_dir E version)]
             @ tokens @ extras @ cheat_arguments ch
             @ [JStr ''-cp'', JStr classpath_str, main_class] @ final_game_args))"
proof (intro conjI impI)
  assume a: "files w (version_json_path E version) = Some (Regular content) \<and>
    json_loads E content = Some version_data \<and>
    select_java E w = Some java_path \<and>
    dict_get version_data ''mainClass'' JNull = Inr main_class \<and>
    truthy main_class \<and>
    build_classpath E w version version_data = Inr (Some classpath_str) \<and>
    bindE (subscript version_data ''arguments'') (\<lambda>a. subscript a ''jvm'') = Inr js \<and>
    iterate js = Inr args \<and>
    jvm_arguments E version_data = Inr jvm_args \<and>
    game_arguments E version_data = Inr (Some game_args) \<and>
    replacements E version username version_data = Inr table \<and>
    substitute_all table game_args = Inr final_game_args"
  then have f: "files w (version_json_path E version) = Some (Regular content)"
    and j: "json_loads E content = Some version_data"
    and s: "select_java E w = Some java_path"
    and m: "dict_get version_data ''mainClass'' JNull = Inr main_class"
    and tr: "truthy main_class"
    and c: "build_classpath E w version version_data = Inr (Some classpath_str)"
    and js: "bindE (subscript version_data ''arguments'') (\<lambda>a. subscript a ''jvm'') = Inr js"
    and it: "iterate js = Inr args"
    and v: "jvm_arguments E version_data = Inr jvm_args"
    and g: "game_arguments E version_data = Inr (Some game_args)"
    and r: "replacements E version username version_data = Inr table"
    and sa: "substitute_all table game_args = Inr final_game_args"
    by blast+
  from jvm_arguments_templated [OF v js it]
  obtain tokens extras where
    t: "expand_arguments args (current_os E) = Inr tokens"
    "jvm_args = tokens @ extras"
    "platform_system E \<noteq> ''Darwin'' \<Longrightarrow> extras = []"
    "set extras \<subseteq> {JStr ''-XstartOnFirstThread'',
                      JStr ''-Dorg.lwjgl.opengl.Display.allowSoftwareOpenGL=true''}"
    by blast
  have lit: "\<forall>s. JStr s \<in> set args \<longrightarrow> JStr s \<in> set tokens"
    using expand_arguments_literal [OF t(1)] by blast
  have cond: "\<forall>kvs rules v.
         JObj kvs \<in> set args \<and> map_of kvs ''rules'' = Some rules \<and>
         map_of kvs ''value'' = Some v \<and> evaluate_rules rules (current_os E) = Inr True
         \<longrightarrow> set (case v of JArr xs \<Rightarrow> xs | _ \<Rightarrow> [v]) \<subseteq> set tokens"
    using expand_arguments_conditional [OF t(1)] by blast
  have strs: "list_all is_str args \<longrightarrow> tokens = args"
    using expand_arguments_strings [of args "current_os E"] t(1) by simp
  have ex: "platform_system E \<noteq> ''Darwin'' \<longrightarrow> extras = []"
    using t(3) by blast
  have b: "build_launch_command E w ch version username ram =
         Inr ([JStr java_path, JStr (''-Xmx'' @ str_of_int ram @ ''G''),
               JStr (''-Djava.library.path='' @ natives_dir E version)]
              @ tokens @ extras @ cheat_arguments ch
              @ [JStr ''-cp'', JStr classpath_str, main_class] @ final_game_args)"
    using build_launch_command_built [OF f j s m tr c v g r sa, of ch ram] t(2) by simp
  from t(1) lit cond strs ex t(4) b
  show "\<exists>tokens extras.
       expand_arguments args (current_os E) = Inr tokens \<and>
       (\<forall>s. JStr s \<in> set args \<longrightarrow> JStr s \<in> set tokens) \<and>
       (\<forall>kvs rules v.
          JObj kvs \<in> set args \<and> map_of kvs ''rules'' = Some rules \<and>
          map_of kvs ''value'' = Some v \<and> evaluate_rules rules (current_os E) = Inr True
          \<longrightarrow> set (case v of JArr xs \<Rightarrow> xs | _ \<Rightarrow> [v]) \<subseteq> set tokens) \<and>
       (list_all is_str args \<longrightarrow> tokens = args) \<and>
       (platform_system E \<noteq> ''Darwin'' \<longrightarrow> extras = []) \<and>
       set extras \<subseteq> {JStr ''-XstartOnFirstThread'',
                       JStr ''-Dorg.lwjgl.opengl.Display.allowSoftwareOpenGL=true''} \<and>
       build_launch_command E w ch version username ram =
         Inr ([JStr java_path, JStr (''-Xmx'' @ str_of_int ram @ ''G''),
               JStr (''-Djava.library.path='' @ natives_dir E version)]
              @ tokens @ extras @ cheat_arguments ch
              @ [JStr ''-cp'', JStr classpath_str, main_class] @ final_game_args)"
    by (intro exI conjI)
next
  assume a: "build_launch_command E w ch version username ram = Inr cmd \<and> cmd \<noteq> [] \<and>
   files w (version_json_path E version) = Some (Regular content) \<and>
   json_loads E content = Some version_data \<and>
   bindE (subscript version_data ''arguments'') (\<lambda>a. subscript a ''jvm'') = Inr js \<and>
   iterate js = Inr args"
  then have b: "build_launch_command E w ch version username ram = Inr cmd"
    and ne: "cmd \<noteq> []"
    and fc: "files w (version_json_path E version) = Some (Regular content)"
    and jl: "json_loads E content = Some version_data"
    and js: "bindE (subscript version_data ''arguments'') (\<lambda>a. subscript a ''jvm'') = Inr js"
    and it: "iterate js = Inr args"
    by simp_all
  from build_launch_command_anatomy [OF b ne]
  obtain content' doc java_path main_class classpath_str jvm_args game_args table
    final_game_args where
    f: "files w (version_json_path E version) = Some (Regular content')"
    "json_loads E content' = Some doc"
    "jvm_arguments E doc = Inr jvm_args"
    "game_arguments E doc = Inr (Some game_args)"
    "replacements E version username doc = Inr table"
    "substitute_all table game_args = Inr final_game_args"
    "cmd = [JStr java_path, JStr (''-Xmx'' @ str_of_int ram @ ''G''),
            JStr (''-Djava.library.path='' @ natives_dir E version)]
           @ jvm_args @ cheat_arguments ch
           @ [JStr ''-cp'', JStr classpath_str, main_class] @ final_game_args"
    by metis
  from f(1,2) fc jl have doc: "doc = version_data" by simp
  from jvm_arguments_templated [OF f(3) [unfolded doc] js it]
  obtain tokens extras where
    t: "expand_arguments args (current_os E) = Inr tokens"
    "jvm_args = tokens @ extras"
    "platform_system E \<noteq> ''Darwin'' \<Longrightarrow> extras = []"
    "set extras \<subseteq> {JStr ''-XstartOnFirstThread'',
                      JStr ''-Dorg.lwjgl.opengl.Display.allowSoftwareOpenGL=true''}"
    by blast
  have lit: "\<forall>s. JStr s \<in> set args \<longrightarrow> JStr s \<in> set tokens"
    using expand_arguments_literal [OF t(1)] by blast
  have cond: "\<forall>kvs rules v.
         JObj kvs \<in> set args \<and> map_of kvs ''rules'' = Some rules \<and>
         map_of kvs ''value'' = Some v \<and> evaluate_rules rules (current_os E) = Inr True
         \<longrightarrow> set (case v of JArr xs \<Rightarrow> xs | _ \<Rightarrow> [v]) \<subseteq> set tokens"
    using expand_arguments_conditional [OF t(1)] by blast
  have c: "cmd = [JStr java_path, JStr (''-Xmx'' @ str_of_int ram @ ''G''),
             JStr (''-Djava.library.path='' @ natives_dir E version)]
            @ tokens @ extras @ cheat_arguments ch
            @ [JStr ''-cp'', JStr classpath_str, main_class] @ final_game_args"
    using f(7) t(2) by simp
  from t(1) lit cond t(3) t(4) f(4,5,6) [unfolded doc] c
  show "\<exists>tokens extras java_path classpath_str main_class table game_args final_game_args.
      expand_arguments args (current_os E) = Inr tokens \<and>
      (\<forall>s. JStr s \<in> set args \<longrightarrow> JStr s \<in> set tokens) \<and>
      (\<forall>kvs rules v.
         JObj kvs \<in> set args \<and> map_of kvs ''rules'' = Some rules \<and>
         map_of kvs ''value'' = Some v \<and> evaluate_rules rules (current_os E) = Inr True
         \<longrightarrow> set (case v of JArr xs \<Rightarrow> xs | _ \<Rightarrow> [v]) \<subseteq> set tokens) \<and>
      (platform_system E \<noteq> ''Darwin'' \<longrightarrow> extras = []) \<and>
      set extras \<subseteq> {JStr ''-XstartOnFirstThread'',
                      JStr ''-Dorg.lwjgl.opengl.Display.allowSoftwareOpenGL=true''} \<and>
      replacements E version username version_data = Inr table \<and>
      game_arguments E version_data = Inr (Some game_args) \<and>
      substitute_all table game_args = Inr final_game_args \<and>
      cmd = [JStr java_path, JStr (''-Xmx'' @ str_of_int ram @ ''G''),
             JStr (''-Djava.library.path='' @ natives_dir E version)]
            @ tokens @ extras @ cheat_arguments ch
            @ [JStr ''-cp'', JStr classpath_str, main_class] @ final_game_args"
    by (intro exI conjI) (assumption | blast)+
qed

theorem runtime_arguments_verbatim_witness:
  "expand_arguments test_jvm_template (current_os test_env) =
     Inr [JStr ''-Dlauncher=${launcher_name}'', JStr ''-cp'', JStr ''${classpath}'',
          JStr ''-Duser=${auth_player_name}''] \<and>
   build_launch_command test_env launch_world speed_only ''1.0'' ''Steve'' 2 =
     Inr [JStr ''java'', JStr ''-Xmx2G'',
          JStr ''-Djava.library.path=/n/minecraft/versions/1.0/natives'',
          JStr ''-Dlauncher=${launcher_name}'', JStr ''-cp'', JStr ''${classpath}'',
          JStr ''-Duser=${auth_player_name}'',
          JStr ''-Dnova.speed=true'',
          JStr ''-cp'',
          JStr ''/n/minecraft/libraries/a.jar:/n/minecraft/libraries/b.jar:/n/minecraft/versions/1.0/1.0.jar'',
          JStr ''net.minecraft.client.main.Main'',
          JStr ''--username Steve'', JStr ''1.0/release'']"
proof -
  let ?doc = "test_version_doc [test_library_a, test_library_b]"
  let ?jvm = "[JStr ''-Dlauncher=${launcher_name}'', JStr ''-cp'', JStr ''${classpath}'',
       JStr ''-Duser=${auth_player_name}'']"
  let ?game = "[JStr ''--username ${auth_player_name}'', JStr ''${version_name}/${version_type}'']"
  let ?final = "[JStr ''--username Steve'', JStr ''1.0/release'']"
  let ?cp = "''/n/minecraft/libraries/a.jar:/n/minecraft/libraries/b.jar:/n/minecraft/versions/1.0/1.0.jar''"
  have js: "bindE (subscript ?doc ''arguments'') (\<lambda>a. subscript a ''jvm'')
      = Inr (JArr test_jvm_template)"
    by (simp add: test_version_doc_def subscript_def bindE_def)
  have it: "iterate (JArr test_jvm_template) = Inr test_jvm_template"
    by (simp add: iterate_def)
  have mc: "dict_get ?doc ''mainClass'' JNull = Inr (JStr ''net.minecraft.client.main.Main'')"
    by (simp add: test_version_doc_def dict_get_def)
  have tr: "truthy (JStr ''net.minecraft.client.main.Main'')"
    by (simp add: truthy_def)
  have r: "replacements test_env ''1.0'' ''Steve'' ?doc = Inr test_table"
    by (simp add: test_replacements test_table_def)
  have sa: "substitute_all test_table ?game = Inr ?final"
    by (simp add: test_table_def bindE_def)
  have h: "files launch_world (version_json_path test_env ''1.0'') = Some (Regular ''doc-ab'') \<and>
    json_loads test_env ''doc-ab'' = Some ?doc \<and>
    select_java test_env launch_world = Some ''java'' \<and>
    dict_get ?doc ''mainClass'' JNull = Inr (JStr ''net.minecraft.client.main.Main'') \<and>
    truthy (JStr ''net.minecraft.client.main.Main'') \<and>
    build_classpath test_env launch_world ''1.0'' ?doc = Inr (Some ?cp) \<and>
    bindE (subscript ?doc ''arguments'') (\<lambda>a. subscript a ''jvm'') = Inr (JArr test_jvm_template) \<and>
    iterate (JArr test_jvm_template) = Inr test_jvm_template \<and>
    jvm_arguments test_env ?doc = Inr ?jvm \<and>
    game_arguments test_env ?doc = Inr (Some ?game) \<and>
    replacements test_env ''1.0'' ''Steve'' ?doc = Inr test_table \<and>
    substitute_all test_table ?game = Inr ?final"
    by (simp only: test_paths launch_world_files test_doc_ab test_select_java mc tr
        test_build_classpath js it test_jvm_arguments test_game_arguments r sa simp_thms)
  from runtime_arguments_verbatim [where E = test_env and w = launch_world and ch = speed_only
      and version = "''1.0''" and username = "''Steve''" and ram = 2
      and content = "''doc-ab''" and version_data = ?doc and java_path = "''java''"
      and main_class = "JStr ''net.minecraft.client.main.Main''" and classpath_str = ?cp
      and js = "JArr test_jvm_template" and args = test_jvm_template and jvm_args = ?jvm
      and game_args = ?game and table = test_table and final_game_args = ?final] h
  obtain tokens extras where
    t: "expand_arguments test_jvm_template (current_os test_env) = Inr tokens"
    and ex: "platform_system test_env \<noteq> ''Darwin'' \<longrightarrow> extras = []"
    and b: "build_launch_command test_env launch_world speed_only ''1.0'' ''Steve'' 2 =
         Inr ([JStr ''java'', JStr (''-Xmx'' @ str_of_int 2 @ ''G''),
               JStr (''-Djava.library.path='' @ natives_dir test_env ''1.0'')]
              @ tokens @ extras @ cheat_arguments speed_only
              @ [JStr ''-cp'', JStr ?cp, JStr ''net.minecraft.client.main.Main''] @ ?final)"
    by blast
  have ev: "expand_arguments test_jvm_template (current_os test_env) = Inr ?jvm"
    by (simp add: test_jvm_template_def expand_argument_def evaluate_rules_def json_defs
        test_current_os)
  with t have tk: "tokens = ?jvm" by simp
  from ex have e: "extras = []" by (simp add: test_env_fields)
  have x: "str_of_int 2 = ''2''"
    by (simp add: str_of_int_def str_of_nat.simps)
  from b have "build_launch_command test_env launch_world speed_only ''1.0'' ''Steve'' 2 =
     Inr [JStr ''java'', JStr ''-Xmx2G'',
          JStr ''-Djava.library.path=/n/minecraft/versions/1.0/natives'',
          JStr ''-Dlauncher=${launcher_name}'', JStr ''-cp'', JStr ''${classpath}'',
          JStr ''-Duser=${auth_player_name}'',
          JStr ''-Dnova.speed=true'',
          JStr ''-cp'',
          JStr ?cp,
          JStr ''net.minecraft.client.main.Main'',
          JStr ''--username Steve'', JStr ''1.0/release'']"
    by (simp add: tk e x test_paths cheat_arguments_def speed_only_def)
  with ev show ?thesis by (simp only: simp_thms)
qed

end
